theory Spec2Isabelle
  imports Complex_Main "HOL-Library.Log_Nat"
begin

section \<open>JavaScript numbers\<close>

text \<open>
  The scores, weights and thresholds of \<open>validation/metrics-config.ts\<close> are JavaScript
  numbers, IEEE 754 binary64 values, and the aggregate score is computed with their
  rounded arithmetic. A \<open>number\<close> is a finite double, given by the rational it denotes,
  or one of \<open>Infinity\<close>, \<open>-Infinity\<close> and \<open>NaN\<close>.

  The two zeros are one value, \<^term>\<open>Finite 0\<close>. They differ only as divisors and in
  the sign of a zero result; the only division of the file has a divisor greater than
  zero, and its results are compared and printed, which does not tell the zeros apart.
\<close>

datatype number = Finite rat | PosInfinity | NegInfinity | NaN

text \<open>\<open>\<lfloor>log\<^sub>2 x\<rfloor>\<close> for a positive rational, from the bit lengths of its numerator and denominator.\<close>

definition exponentOf :: "rat \<Rightarrow> int" where
  "exponentOf x = (case quotient_of x of (p, q) \<Rightarrow>
     let d = bitlen p - bitlen q in if 2 powi d \<le> x then d else d - 1)"

text \<open>The nearest integer, the even one of the two when they are equally near.\<close>

definition roundHalfEven :: "rat \<Rightarrow> int" where
  "roundHalfEven y = (let f = \<lfloor>y\<rfloor>; r = y - of_int f
     in if r < 1 / 2 then f else if 1 / 2 < r then f + 1 else if even f then f else f + 1)"

text \<open>
  Rounding to nearest, ties to even: the significand has 53 bits above the exponent
  \<open>-1022\<close> and the spacing of the subnormal numbers, \<open>2\<^sup>-\<^sup>1\<^sup>0\<^sup>7\<^sup>4\<close>, below; a value that
  rounds to \<open>2\<^sup>1\<^sup>0\<^sup>2\<^sup>4\<close> or more in magnitude overflows to an infinity.
\<close>

definition rnd :: "rat \<Rightarrow> number" where
  "rnd x = (if x = 0 then Finite 0 else
     let a = \<bar>x\<bar>; e = max (exponentOf a) (- 1022); quantum = 2 powi (e - 52);
         r = of_int (roundHalfEven (a / quantum)) * quantum
     in if 2 powi 1024 \<le> r then (if 0 < x then PosInfinity else NegInfinity)
        else Finite (if 0 < x then r else - r))"

text \<open>A decimal literal of the source denotes the double nearest to it.\<close>

definition lit :: "rat \<Rightarrow> number" where
  "lit x = rnd x"

text \<open>\<open>x + y\<close>, \<open>x * y\<close>, \<open>x / y\<close> and \<open>x < y\<close> on numbers.\<close>

fun numAdd :: "number \<Rightarrow> number \<Rightarrow> number" where
  "numAdd (Finite a) (Finite b) = rnd (a + b)"
| "numAdd NaN y = NaN"
| "numAdd x NaN = NaN"
| "numAdd PosInfinity NegInfinity = NaN"
| "numAdd NegInfinity PosInfinity = NaN"
| "numAdd PosInfinity y = PosInfinity"
| "numAdd x PosInfinity = PosInfinity"
| "numAdd NegInfinity y = NegInfinity"
| "numAdd x NegInfinity = NegInfinity"

fun numMul :: "number \<Rightarrow> number \<Rightarrow> number" where
  "numMul (Finite a) (Finite b) = rnd (a * b)"
| "numMul NaN y = NaN"
| "numMul x NaN = NaN"
| "numMul (Finite a) PosInfinity = (if a = 0 then NaN else if 0 < a then PosInfinity else NegInfinity)"
| "numMul (Finite a) NegInfinity = (if a = 0 then NaN else if 0 < a then NegInfinity else PosInfinity)"
| "numMul PosInfinity (Finite b) = (if b = 0 then NaN else if 0 < b then PosInfinity else NegInfinity)"
| "numMul NegInfinity (Finite b) = (if b = 0 then NaN else if 0 < b then NegInfinity else PosInfinity)"
| "numMul PosInfinity PosInfinity = PosInfinity"
| "numMul NegInfinity NegInfinity = PosInfinity"
| "numMul PosInfinity NegInfinity = NegInfinity"
| "numMul NegInfinity PosInfinity = NegInfinity"

text \<open>The divisor \<^term>\<open>Finite 0\<close> is taken as the positive zero.\<close>

fun numDiv :: "number \<Rightarrow> number \<Rightarrow> number" where
  "numDiv (Finite a) (Finite b) =
     (if b = 0 then (if a = 0 then NaN else if 0 < a then PosInfinity else NegInfinity)
      else rnd (a / b))"
| "numDiv NaN y = NaN"
| "numDiv x NaN = NaN"
| "numDiv (Finite a) PosInfinity = Finite 0"
| "numDiv (Finite a) NegInfinity = Finite 0"
| "numDiv PosInfinity (Finite b) = (if 0 \<le> b then PosInfinity else NegInfinity)"
| "numDiv NegInfinity (Finite b) = (if 0 \<le> b then NegInfinity else PosInfinity)"
| "numDiv x y = NaN"

fun numLess :: "number \<Rightarrow> number \<Rightarrow> bool" where
  "numLess (Finite a) (Finite b) = (a < b)"
| "numLess NaN y = False"
| "numLess x NaN = False"
| "numLess PosInfinity y = False"
| "numLess x NegInfinity = False"
| "numLess NegInfinity y = True"
| "numLess x PosInfinity = True"


section \<open>Scoring and gating (validation/metrics-config.ts)\<close>

text \<open>
  Scores, weights and thresholds are \<^typ>\<open>number\<close>; the violation and warning counts
  are \<^typ>\<open>int\<close>.

  Of a \<open>MetricDefinition\<close> only the fields that \<open>calculateWeightedScore\<close> and
  \<open>evaluateGating\<close> read are kept; \<open>description\<close>, \<open>sopFile\<close> and \<open>invariants\<close> are
  documentation strings.
\<close>

record Thresholds =
  pass :: number
  warn :: number
  fail :: number

record MetricDefinition =
  name :: string
  displayName :: string
  weight :: number
  blockOnFail :: bool
  thresholds :: Thresholds

definition METRIC_DEFINITIONS :: "MetricDefinition list" where
  "METRIC_DEFINITIONS = [
    \<lparr>name = ''supabase-auth'', displayName = ''Supabase Auth Compliance'', weight = lit 0.15,
      blockOnFail = True, thresholds = \<lparr>pass = lit 1.0, warn = lit 0.95, fail = lit 0.9\<rparr>\<rparr>,
    \<lparr>name = ''tenant-isolation'', displayName = ''Tenant Isolation'', weight = lit 0.15,
      blockOnFail = True, thresholds = \<lparr>pass = lit 1.0, warn = lit 0.95, fail = lit 0.9\<rparr>\<rparr>,
    \<lparr>name = ''audit-logging'', displayName = ''Audit Log Coverage'', weight = lit 0.05,
      blockOnFail = False, thresholds = \<lparr>pass = lit 1.0, warn = lit 0.8, fail = lit 0.5\<rparr>\<rparr>,
    \<lparr>name = ''prisma-queries'', displayName = ''Prisma Query Compliance'', weight = lit 0.15,
      blockOnFail = True, thresholds = \<lparr>pass = lit 1.0, warn = lit 0.9, fail = lit 0.8\<rparr>\<rparr>,
    \<lparr>name = ''transactions'', displayName = ''Transaction Compliance'', weight = lit 0.10,
      blockOnFail = True, thresholds = \<lparr>pass = lit 1.0, warn = lit 0.9, fail = lit 0.8\<rparr>\<rparr>,
    \<lparr>name = ''code-safety'', displayName = ''Code Safety Patterns'', weight = lit 0.05,
      blockOnFail = False, thresholds = \<lparr>pass = lit 1.0, warn = lit 0.8, fail = lit 0.6\<rparr>\<rparr>,
    \<lparr>name = ''exception-types'', displayName = ''Exception Type Compliance'', weight = lit 0.10,
      blockOnFail = False, thresholds = \<lparr>pass = lit 0.95, warn = lit 0.85, fail = lit 0.7\<rparr>\<rparr>,
    \<lparr>name = ''logging'', displayName = ''Logging Compliance'', weight = lit 0.05,
      blockOnFail = False, thresholds = \<lparr>pass = lit 1.0, warn = lit 0.8, fail = lit 0.6\<rparr>\<rparr>,
    \<lparr>name = ''external-services'', displayName = ''External Service Patterns'', weight = lit 0.05,
      blockOnFail = False, thresholds = \<lparr>pass = lit 1.0, warn = lit 0.7, fail = lit 0.5\<rparr>\<rparr>,
    \<lparr>name = ''job-processing'', displayName = ''Job Processing Compliance'', weight = lit 0.05,
      blockOnFail = False, thresholds = \<lparr>pass = lit 1.0, warn = lit 0.7, fail = lit 0.5\<rparr>\<rparr>,
    \<lparr>name = ''api-design'', displayName = ''API Design Compliance'', weight = lit 0.05,
      blockOnFail = True, thresholds = \<lparr>pass = lit 1.0, warn = lit 0.9, fail = lit 0.8\<rparr>\<rparr>,
    \<lparr>name = ''code-quality'', displayName = ''Code Quality'', weight = lit 0.05,
      blockOnFail = False, thresholds = \<lparr>pass = lit 1.0, warn = lit 0.7, fail = lit 0.5\<rparr>\<rparr>]"

record GatingConfig =
  minimumScore :: number
  blockOnBlockers :: bool
  failOnWarnings :: bool
  maxBlockers :: int
  maxWarnings :: int

definition DEFAULT_GATING_CONFIG :: GatingConfig where
  "DEFAULT_GATING_CONFIG = \<lparr>minimumScore = lit 0.85, blockOnBlockers = True,
     failOnWarnings = False, maxBlockers = 0, maxWarnings = 50\<rparr>"

definition STRICT_GATING_CONFIG :: GatingConfig where
  "STRICT_GATING_CONFIG = \<lparr>minimumScore = lit 0.95, blockOnBlockers = True,
     failOnWarnings = True, maxBlockers = 0, maxWarnings = 0\<rparr>"

definition getBlockingMetrics :: "MetricDefinition list" where
  "getBlockingMetrics = filter blockOnFail METRIC_DEFINITIONS"

text \<open>
  A JavaScript \<open>Map<ValidatorName, number>\<close> is the list of its entries in insertion
  order, with pairwise distinct keys; \<open>scores.get(k)\<close> is \<^term>\<open>map_of scores k\<close>.
  The key type is \<^typ>\<open>string\<close>: the command-line runner stores scores under
  \<open>result.metric\<close>, which need not be the name of any metric definition.
\<close>

type_synonym scoreMap = "(string \<times> number) list"

text \<open>The \<open>for\<close> loop of \<open>calculateWeightedScore\<close>, threading \<open>(weightedSum, totalWeight)\<close>.\<close>

fun weightedLoop :: "MetricDefinition list \<Rightarrow> scoreMap \<Rightarrow> number \<times> number \<Rightarrow> number \<times> number" where
  "weightedLoop [] scores acc = acc"
| "weightedLoop (metric # rest) scores (weightedSum, totalWeight) =
     (case map_of scores (name metric) of
        Some score \<Rightarrow>
          weightedLoop rest scores
            (numAdd weightedSum (numMul score (weight metric)), numAdd totalWeight (weight metric))
      | None \<Rightarrow> weightedLoop rest scores (weightedSum, totalWeight))"

definition calculateWeightedScore :: "scoreMap \<Rightarrow> number" where
  "calculateWeightedScore scores =
     (case weightedLoop METRIC_DEFINITIONS scores (Finite 0, Finite 0) of
        (weightedSum, totalWeight) \<Rightarrow>
          if numLess (Finite 0) totalWeight then numDiv weightedSum totalWeight else lit 1.0)"

text \<open>
  The \<open>reason\<close> of a gating verdict is a template string of the source. It is kept
  structured, one constructor per template with the interpolated values:
  \<^item> \<open>BlockingViolations b m\<close>: \<^verbatim>\<open>`${b} blocking violations (max: ${m})`\<close>
  \<^item> \<open>WarningCount w m\<close>: \<^verbatim>\<open>`${w} warnings (max: ${m})`\<close>
  \<^item> \<open>BlockingMetric d s t\<close>: \<^verbatim>\<open>`Blocking metric ${d} score ${s*100}% below threshold ${t*100}%`\<close>
  \<^item> \<open>TotalScore s m\<close>: \<^verbatim>\<open>`Total score ${s*100}% below minimum ${m*100}%`\<close>
  (the percentages are printed by \<open>toFixed(1)\<close>).
\<close>

datatype GatingReason =
    BlockingViolations int int
  | WarningCount int int
  | BlockingMetric string number number
  | TotalScore number number

record GatingResult =
  passed :: bool
  reason :: "GatingReason option"

text \<open>The loop over \<open>getBlockingMetrics()\<close>, returning at the first metric that fails.\<close>

fun blockingLoop :: "MetricDefinition list \<Rightarrow> scoreMap \<Rightarrow> GatingResult option" where
  "blockingLoop [] scores = None"
| "blockingLoop (metric # rest) scores =
     (case map_of scores (name metric) of
        Some score \<Rightarrow>
          if numLess score (fail (thresholds metric))
          then Some \<lparr>passed = False,
                 reason = Some (BlockingMetric (displayName metric) score (fail (thresholds metric)))\<rparr>
          else blockingLoop rest scores
      | None \<Rightarrow> blockingLoop rest scores)"

definition evaluateGating :: "scoreMap \<Rightarrow> int \<Rightarrow> int \<Rightarrow> GatingConfig \<Rightarrow> GatingResult" where
  "evaluateGating scores blockerCount warningCount config =
     (if blockOnBlockers config \<and> blockerCount > maxBlockers config
      then \<lparr>passed = False, reason = Some (BlockingViolations blockerCount (maxBlockers config))\<rparr>
      else if failOnWarnings config \<and> warningCount > maxWarnings config
      then \<lparr>passed = False, reason = Some (WarningCount warningCount (maxWarnings config))\<rparr>
      else case blockingLoop getBlockingMetrics scores of
        Some r \<Rightarrow> r
      | None \<Rightarrow>
          let totalScore = calculateWeightedScore scores in
          if numLess totalScore (minimumScore config)
          then \<lparr>passed = False, reason = Some (TotalScore totalScore (minimumScore config))\<rparr>
          else \<lparr>passed = True, reason = None\<rparr>)"

text \<open>
  The aggregate of the specification, in its words: the sum of \<open>score \<times> weight\<close> over
  the metrics that have a score, divided by the sum of their weights. The sums are
  those of the numbers: accumulated from \<open>0\<close> in the order of \<open>METRIC_DEFINITIONS\<close>,
  each product and each addition rounded.
\<close>

definition evaluated :: "scoreMap \<Rightarrow> MetricDefinition list" where
  "evaluated scores = filter (\<lambda>m. map_of scores (name m) \<noteq> None) METRIC_DEFINITIONS"

definition specNumerator :: "scoreMap \<Rightarrow> number" where
  "specNumerator scores =
     foldl numAdd (Finite 0) (map (\<lambda>m. numMul (the (map_of scores (name m))) (weight m)) (evaluated scores))"

definition specDenominator :: "scoreMap \<Rightarrow> number" where
  "specDenominator scores = foldl numAdd (Finite 0) (map weight (evaluated scores))"

text \<open>The first blocking metric whose score is present and below its \<open>fail\<close> threshold.\<close>

definition failsThreshold :: "scoreMap \<Rightarrow> MetricDefinition \<Rightarrow> bool" where
  "failsThreshold scores m =
     (blockOnFail m \<and> (case map_of scores (name m) of
                          Some s \<Rightarrow> numLess s (fail (thresholds m)) | None \<Rightarrow> False))"


section \<open>JavaScript strings and arrays\<close>

text \<open>
  Source text is a \<^typ>\<open>string\<close>, one \<^typ>\<open>char\<close> per code unit (the ASCII and
  Latin-1 range). The functions below are the \<open>String.prototype\<close> and
  \<open>Array.prototype\<close> methods the validators call, with the behaviour of the language
  at the edges written out: \<open>split\<close> on the empty string gives one empty piece,
  \<open>substring\<close> clamps its bounds and swaps them when they are out of order,
  \<open>indexOf\<close> and \<open>lastIndexOf\<close> return \<open>-1\<close> when nothing is found.
\<close>

definition code :: "char \<Rightarrow> nat" where
  "code c = of_char c"

definition newline :: char where
  "newline = CHR 0x0A"

fun strSplit :: "char \<Rightarrow> string \<Rightarrow> string list" where
  "strSplit sep [] = [] # []"
| "strSplit sep (c # cs) =
     (if c = sep then [] # strSplit sep cs
      else (case strSplit sep cs of [] \<Rightarrow> [c] # [] | l # ls \<Rightarrow> (c # l) # ls))"

fun strJoin :: "string \<Rightarrow> string list \<Rightarrow> string" where
  "strJoin sep [] = []"
| "strJoin sep [x] = x"
| "strJoin sep (x # y # rest) = x @ sep @ strJoin sep (y # rest)"

fun startsWith :: "string \<Rightarrow> string \<Rightarrow> bool" where
  "startsWith s [] = True"
| "startsWith [] (p # ps) = False"
| "startsWith (c # cs) (p # ps) = (c = p \<and> startsWith cs ps)"

fun strIncludes :: "string \<Rightarrow> string \<Rightarrow> bool" where
  "strIncludes [] sub = (sub = [])"
| "strIncludes (c # cs) sub = (startsWith (c # cs) sub \<or> strIncludes cs sub)"

definition endsWith :: "string \<Rightarrow> string \<Rightarrow> bool" where
  "endsWith s suffix = startsWith (rev s) (rev suffix)"

text \<open>\<open>findSub s sub i\<close>: the first position of \<open>sub\<close> in \<open>s\<close>, where \<open>s\<close> starts at index \<open>i\<close>.\<close>

fun findSub :: "string \<Rightarrow> string \<Rightarrow> nat \<Rightarrow> nat option" where
  "findSub [] sub i = (if sub = [] then Some i else None)"
| "findSub (c # cs) sub i = (if startsWith (c # cs) sub then Some i else findSub cs sub (Suc i))"

definition indexOf :: "string \<Rightarrow> string \<Rightarrow> int \<Rightarrow> int" where
  "indexOf s sub fromIndex =
     (let start = nat (max 0 (min fromIndex (int (length s))))
      in case findSub (drop start s) sub start of None \<Rightarrow> - 1 | Some i \<Rightarrow> int i)"

text \<open>\<open>findLastSub s sub i limit best\<close>: the last position of \<open>sub\<close> at or before \<open>limit\<close>.\<close>

fun findLastSub :: "string \<Rightarrow> string \<Rightarrow> nat \<Rightarrow> nat \<Rightarrow> nat option \<Rightarrow> nat option" where
  "findLastSub [] sub i limit best = (if sub = [] \<and> i \<le> limit then Some i else best)"
| "findLastSub (c # cs) sub i limit best =
     (if limit < i then best
      else findLastSub cs sub (Suc i) limit (if startsWith (c # cs) sub then Some i else best))"

definition lastIndexOf :: "string \<Rightarrow> string \<Rightarrow> int \<Rightarrow> int" where
  "lastIndexOf s sub fromIndex =
     (case findLastSub s sub 0 (nat (max 0 fromIndex)) None of None \<Rightarrow> - 1 | Some i \<Rightarrow> int i)"

definition substring :: "string \<Rightarrow> int \<Rightarrow> int \<Rightarrow> string" where
  "substring s a b =
     (let n = int (length s);
          a' = max 0 (min a n);
          b' = max 0 (min b n);
          lo = min a' b';
          hi = max a' b'
      in take (nat (hi - lo)) (drop (nat lo) s))"

text \<open>\<open>xs.slice(a, b)\<close> for \<open>0 \<le> a\<close>; an end beyond the array is clamped, \<open>b \<le> a\<close> gives \<open>[]\<close>.\<close>

definition slice :: "nat \<Rightarrow> nat \<Rightarrow> 'a list \<Rightarrow> 'a list" where
  "slice a b xs = take (b - a) (drop a xs)"

definition isSpaceChar :: "char \<Rightarrow> bool" where
  "isSpaceChar c = (let n = code c in n = 32 \<or> (9 \<le> n \<and> n \<le> 13) \<or> n = 160)"

definition trim :: "string \<Rightarrow> string" where
  "trim s = rev (dropWhile isSpaceChar (rev (dropWhile isSpaceChar s)))"

text \<open>\<open>content.substring(0, index).split('\n').length\<close>: the 1-based line of a position.\<close>

definition lineOfIndex :: "string \<Rightarrow> nat \<Rightarrow> nat" where
  "lineOfIndex content index = length (strSplit newline (substring content 0 (int index)))"

text \<open>\<open>s.split('\n')[n - 1] || ''\<close>.\<close>

definition lineAt :: "string \<Rightarrow> nat \<Rightarrow> string" where
  "lineAt s n = (let ls = strSplit newline s in if 1 \<le> n \<and> n \<le> length ls then ls ! (n - 1) else [])"


section \<open>Regular expressions\<close>

text \<open>
  The validators and the fix patterns are regular expressions. A pattern is a term of
  \<open>rx\<close>, and \<open>rxm\<close> is a backtracking matcher with the priorities of the language:
  \<open>rxm ic r st\<close> lists every way \<open>r\<close> can match at state \<open>st\<close>, in the order in which
  a backtracking engine tries them (left alternative first, quantifiers greedy), so the
  head of the list is the match that \<open>RegExp.prototype.exec\<close> reports. A state is the
  character before the position (\<open>None\<close> at the start of the input), the rest of the
  input, and the captures made so far. \<open>ic\<close> is the flag \<open>i\<close>.

  Capturing groups whose capture the source never reads are written as plain groups.
\<close>

datatype cc = CChar char | CRange char char | CWord | CSpace | CDigit

datatype rx =
    Eps
  | Lit string
  | Cls bool "cc list"
  | Dot
  | Seq rx rx
  | Alt rx rx
  | Star rx
  | Opt rx
  | Grp nat rx
  | Bol
  | Eol
  | WordB
  | NLook rx

text \<open>
  \<open>Lit w\<close> is the sequence of the literal characters of \<open>w\<close>; \<open>Cls neg items\<close> is a
  character class, negated when \<open>neg\<close>; \<open>Dot\<close> is \<open>.\<close>; \<open>Grp n r\<close> is the capturing group
  number \<open>n\<close>; \<open>Bol\<close> and \<open>Eol\<close> are \<open>^\<close> and \<open>$\<close> (without the flag \<open>m\<close>); \<open>WordB\<close> is
  \<open>\b\<close>; \<open>NLook r\<close> is the negative lookahead \<open>(?!r)\<close>.
\<close>

definition Plus :: "rx \<Rightarrow> rx" where
  "Plus a = Seq a (Star a)"

fun Seqs :: "rx list \<Rightarrow> rx" where
  "Seqs [] = Eps"
| "Seqs [a] = a"
| "Seqs (a # b # rest) = Seq a (Seqs (b # rest))"

fun Alts :: "rx list \<Rightarrow> rx" where
  "Alts [] = Cls False []"
| "Alts [a] = a"
| "Alts (a # b # rest) = Alt a (Alts (b # rest))"

definition oneOf :: "string \<Rightarrow> rx" where
  "oneOf cs = Cls False (map CChar cs)"

definition noneOf :: "string \<Rightarrow> rx" where
  "noneOf cs = Cls True (map CChar cs)"

definition space :: rx where
  "space = Cls False [CSpace]"

definition word :: rx where
  "word = Cls False [CWord]"

definition quote :: rx where
  "quote = Cls False [CChar (CHR 0x27), CChar (CHR 0x22)]"

definition notQuote :: rx where
  "notQuote = Cls True [CChar (CHR 0x27), CChar (CHR 0x22)]"

definition isWordChar :: "char \<Rightarrow> bool" where
  "isWordChar c =
     (let n = code c
      in (97 \<le> n \<and> n \<le> 122) \<or> (65 \<le> n \<and> n \<le> 90) \<or> (48 \<le> n \<and> n \<le> 57) \<or> n = 95)"

definition isDigitChar :: "char \<Rightarrow> bool" where
  "isDigitChar c = (let n = code c in 48 \<le> n \<and> n \<le> 57)"

definition isLineTerminator :: "char \<Rightarrow> bool" where
  "isLineTerminator c = (code c = 10 \<or> code c = 13)"

definition toLower :: "char \<Rightarrow> char" where
  "toLower c = (let n = code c in if 65 \<le> n \<and> n \<le> 90 then char_of (n + 32) else c)"

definition toUpper :: "char \<Rightarrow> char" where
  "toUpper c = (let n = code c in if 97 \<le> n \<and> n \<le> 122 then char_of (n - 32) else c)"

fun ccHas :: "cc \<Rightarrow> char \<Rightarrow> bool" where
  "ccHas (CChar a) c = (a = c)"
| "ccHas (CRange a b) c = (code a \<le> code c \<and> code c \<le> code b)"
| "ccHas CWord c = isWordChar c"
| "ccHas CSpace c = isSpaceChar c"
| "ccHas CDigit c = isDigitChar c"

definition inClass :: "bool \<Rightarrow> cc list \<Rightarrow> char \<Rightarrow> bool" where
  "inClass ic items c =
     (list_ex (\<lambda>i. ccHas i c) items \<or>
      (ic \<and> (list_ex (\<lambda>i. ccHas i (toLower c)) items \<or> list_ex (\<lambda>i. ccHas i (toUpper c)) items)))"

definition chEq :: "bool \<Rightarrow> char \<Rightarrow> char \<Rightarrow> bool" where
  "chEq ic a c = (a = c \<or> (ic \<and> toLower a = toLower c))"

type_synonym caps = "(nat \<times> string) list"

type_synonym mstate = "char option \<times> string \<times> caps"

fun litMatch :: "bool \<Rightarrow> string \<Rightarrow> char option \<Rightarrow> string \<Rightarrow> (char option \<times> string) option" where
  "litMatch ic [] p s = Some (p, s)"
| "litMatch ic (a # as) p [] = None"
| "litMatch ic (a # as) p (c # cs) = (if chEq ic a c then litMatch ic as (Some c) cs else None)"

definition wordAt :: "char option \<Rightarrow> bool" where
  "wordAt p = (case p of None \<Rightarrow> False | Some c \<Rightarrow> isWordChar c)"

text \<open>
  An iteration of \<open>Star\<close> that consumes nothing is rejected, as the language does, so
  the recursion is on the pattern and then on the length of the rest of the input.
\<close>

function rxm :: "bool \<Rightarrow> rx \<Rightarrow> mstate \<Rightarrow> mstate list" where
  "rxm ic Eps st = [st]"
| "rxm ic (Lit w) st =
     (case litMatch ic w (fst st) (fst (snd st)) of
        None \<Rightarrow> []
      | Some (p', s') \<Rightarrow> [(p', s', snd (snd st))])"
| "rxm ic (Cls neg items) st =
     (case fst (snd st) of
        [] \<Rightarrow> []
      | c # cs \<Rightarrow> if inClass ic items c \<noteq> neg then [(Some c, cs, snd (snd st))] else [])"
| "rxm ic Dot st =
     (case fst (snd st) of
        [] \<Rightarrow> []
      | c # cs \<Rightarrow> if isLineTerminator c then [] else [(Some c, cs, snd (snd st))])"
| "rxm ic (Seq a b) st = concat (map (rxm ic b) (rxm ic a st))"
| "rxm ic (Alt a b) st = rxm ic a st @ rxm ic b st"
| "rxm ic (Opt a) st = rxm ic a st @ [st]"
| "rxm ic (Star a) st =
     concat (map (\<lambda>st'. if length (fst (snd st')) < length (fst (snd st))
                         then rxm ic (Star a) st' else [])
                 (rxm ic a st)) @ [st]"
| "rxm ic (Grp n a) st =
     map (\<lambda>st'. (fst st', fst (snd st'),
                  (n, take (length (fst (snd st)) - length (fst (snd st'))) (fst (snd st)))
                    # snd (snd st')))
         (rxm ic a st)"
| "rxm ic Bol st = (if fst st = None then [st] else [])"
| "rxm ic Eol st = (if fst (snd st) = [] then [st] else [])"
| "rxm ic WordB st =
     (if wordAt (fst st) \<noteq> wordAt (case fst (snd st) of [] \<Rightarrow> None | c # _ \<Rightarrow> Some c)
      then [st] else [])"
| "rxm ic (NLook a) st = (if rxm ic a st = [] then [st] else [])"
  by pat_completeness auto
termination
  by (relation "inv_image (less_than <*lex*> less_than)
        (\<lambda>(ic, r, st). (size r, length (fst (snd st))))") auto

text \<open>A match, as \<open>exec\<close> returns it: the index, the matched text \<open>m[0]\<close> and the captures.\<close>

record rmatch =
  mindex :: nat
  mtext :: string
  mcaps :: caps

definition cap :: "rmatch \<Rightarrow> nat \<Rightarrow> string" where
  "cap mt n = (case map_of (mcaps mt) n of None \<Rightarrow> [] | Some s \<Rightarrow> s)"

text \<open>
  \<open>scanFrom ic r one skip p s i\<close> walks the input \<open>s\<close>, which starts at index \<open>i\<close> after
  the character \<open>p\<close>, and collects the successive matches of \<open>r\<close>: after a match of
  length \<open>n > 0\<close> the next attempt is \<open>n\<close> characters further, after an empty match one
  character further. With \<open>one\<close> set it stops at the first match.
\<close>

fun scanFrom :: "bool \<Rightarrow> rx \<Rightarrow> bool \<Rightarrow> nat \<Rightarrow> char option \<Rightarrow> string \<Rightarrow> nat \<Rightarrow> rmatch list" where
  "scanFrom ic r one skip p [] i =
     (if skip > 0 then []
      else case rxm ic r (p, [], []) of
             [] \<Rightarrow> []
           | st # _ \<Rightarrow> [\<lparr>mindex = i, mtext = [], mcaps = snd (snd st)\<rparr>])"
| "scanFrom ic r one skip p (c # cs) i =
     (if skip > 0 then scanFrom ic r one (skip - 1) (Some c) cs (Suc i)
      else case rxm ic r (p, c # cs, []) of
             [] \<Rightarrow> scanFrom ic r one 0 (Some c) cs (Suc i)
           | st # _ \<Rightarrow>
               (let n = length (c # cs) - length (fst (snd st));
                    mt = \<lparr>mindex = i, mtext = take n (c # cs), mcaps = snd (snd st)\<rparr>
                in if one then [mt]
                   else mt # scanFrom ic r one (n - 1) (Some c) cs (Suc i)))"

definition matchAll :: "bool \<Rightarrow> rx \<Rightarrow> string \<Rightarrow> rmatch list" where
  "matchAll ic r s = scanFrom ic r False 0 None s 0"

definition rxMatch :: "bool \<Rightarrow> rx \<Rightarrow> string \<Rightarrow> rmatch option" where
  "rxMatch ic r s = (case scanFrom ic r True 0 None s 0 of [] \<Rightarrow> None | mt # _ \<Rightarrow> Some mt)"

definition rxTest :: "bool \<Rightarrow> rx \<Rightarrow> string \<Rightarrow> bool" where
  "rxTest ic r s = (rxMatch ic r s \<noteq> None)"

text \<open>
  The replacement text of \<open>String.prototype.replace\<close> for a match \<open>mt\<close> in \<open>s\<close>: \<open>$$\<close>,
  \<open>$&\<close>, \<open>$`\<close> (the input before the match), \<open>$'\<close> (the input after it), \<open>$n\<close> and
  \<open>$nn\<close>, where \<open>groups\<close> is the number of capturing groups of the pattern; a reference
  to a group the pattern does not have stays as it is written.
\<close>

definition digitVal :: "char \<Rightarrow> nat" where
  "digitVal c = code c - 48"

function expand :: "nat \<Rightarrow> string \<Rightarrow> rmatch \<Rightarrow> string \<Rightarrow> string" where
  "expand groups s mt [] = []"
| "expand groups s mt [c] = [c]"
| "expand groups s mt (c # d # rest) =
     (if c \<noteq> CHR ''$'' then c # expand groups s mt (d # rest)
      else if d = CHR ''$'' then CHR ''$'' # expand groups s mt rest
      else if d = CHR ''&'' then mtext mt @ expand groups s mt rest
      else if d = CHR 0x60 then take (mindex mt) s @ expand groups s mt rest
      else if d = CHR 0x27 then drop (mindex mt + length (mtext mt)) s @ expand groups s mt rest
      else if isDigitChar d then
        (case rest of
           e # rest' \<Rightarrow>
             if isDigitChar e \<and> 1 \<le> digitVal d * 10 + digitVal e \<and> digitVal d * 10 + digitVal e \<le> groups
             then cap mt (digitVal d * 10 + digitVal e) @ expand groups s mt rest'
             else if 1 \<le> digitVal d \<and> digitVal d \<le> groups
             then cap mt (digitVal d) @ expand groups s mt rest
             else c # expand groups s mt (d # rest)
         | [] \<Rightarrow>
             if 1 \<le> digitVal d \<and> digitVal d \<le> groups
             then cap mt (digitVal d) @ expand groups s mt rest
             else c # expand groups s mt (d # rest))
      else c # expand groups s mt (d # rest))"
  by pat_completeness auto
termination
  by (relation "measure (\<lambda>(groups, s, mt, t). length t)") auto

text \<open>A replacement is a template string or a function of the match.\<close>

datatype replacement = Template string | Computed "rmatch \<Rightarrow> string"

fun groupCount :: "rx \<Rightarrow> nat" where
  "groupCount (Grp n a) = max n (groupCount a)"
| "groupCount (Seq a b) = max (groupCount a) (groupCount b)"
| "groupCount (Alt a b) = max (groupCount a) (groupCount b)"
| "groupCount (Star a) = groupCount a"
| "groupCount (Opt a) = groupCount a"
| "groupCount (NLook a) = groupCount a"
| "groupCount r = 0"

definition replacementText :: "nat \<Rightarrow> replacement \<Rightarrow> string \<Rightarrow> rmatch \<Rightarrow> string" where
  "replacementText groups rep s mt =
     (case rep of Template t \<Rightarrow> expand groups s mt t | Computed f \<Rightarrow> f mt)"

text \<open>
  \<open>rebuild groups rep s rest pos ms\<close> copies \<open>rest\<close>, the part of \<open>s\<close> from index \<open>pos\<close>,
  and puts the replacement text in the place of each match.
\<close>

fun rebuild :: "nat \<Rightarrow> replacement \<Rightarrow> string \<Rightarrow> string \<Rightarrow> nat \<Rightarrow> rmatch list \<Rightarrow> string" where
  "rebuild groups rep s rest pos [] = rest"
| "rebuild groups rep s rest pos (mt # ms) =
     take (mindex mt - pos) rest @ replacementText groups rep s mt
       @ rebuild groups rep s (drop (mindex mt - pos + length (mtext mt)) rest)
           (mindex mt + length (mtext mt)) ms"

text \<open>\<open>s.replace(/r/g, rep)\<close> and \<open>s.replace(/r/, rep)\<close>.\<close>

definition replaceAll :: "bool \<Rightarrow> rx \<Rightarrow> replacement \<Rightarrow> string \<Rightarrow> string" where
  "replaceAll ic r rep s = rebuild (groupCount r) rep s s 0 (matchAll ic r s)"

definition replaceFirst :: "bool \<Rightarrow> rx \<Rightarrow> replacement \<Rightarrow> string \<Rightarrow> string" where
  "replaceFirst ic r rep s =
     rebuild (groupCount r) rep s s 0 (case rxMatch ic r s of None \<Rightarrow> [] | Some mt \<Rightarrow> [mt])"

text \<open>\<open>s.replace(pattern, rep)\<close> with a string pattern: the first occurrence.\<close>

definition replaceString :: "string \<Rightarrow> string \<Rightarrow> string \<Rightarrow> string" where
  "replaceString pattern rep s = replaceFirst False (Lit pattern) (Template rep) s"


section \<open>Validation results (validators.ts)\<close>

datatype Severity = critical | high | medium

text \<open>
  A \<open>Violation\<close> has the four fields of a \<open>Warning\<close> and two more, so it is the
  extension of that record. The \<open>suggestions\<close> of a result are free-text hints that
  no score, no \<open>passed\<close> flag, no gating check and no fix reads; the model leaves the
  field and the checks that only feed it out.

  The \<open>score\<close> of a result is the exact value of the formula of its validator, a
  \<^typ>\<open>real\<close>; the source evaluates the formula in double arithmetic.
\<close>

record Warning =
  "file" :: string
  line :: nat
  rule :: string
  message :: string

record Violation = Warning +
  severity :: Severity
  "fix" :: "string option"

record ValidationResult =
  sopFile :: string
  metric :: string
  score :: real
  passed :: bool
  violations :: "Violation list"
  warnings :: "Warning list"

text \<open>\<open>fileContents\<close> is a \<open>Map<string, string>\<close>: its entries in insertion order.\<close>

record ValidationContext =
  files :: "string list"
  fileContents :: "(string \<times> string) list"

type_synonym findings = "Violation list \<times> Warning list"

definition noFindings :: findings where
  "noFindings = ([], [])"

definition violation :: "Violation \<Rightarrow> findings" where
  "violation v = ([v], [])"

definition warning :: "Warning \<Rightarrow> findings" where
  "warning w = ([], [w])"

text \<open>The pushes of two successive statements: violations after violations, warnings after warnings.\<close>

fun andThen :: "findings \<Rightarrow> findings \<Rightarrow> findings" where
  "andThen (v1, w1) (v2, w2) = (v1 @ v2, w1 @ w2)"

text \<open>A loop whose body pushes findings: the findings of each round, in order.\<close>

fun collect :: "('a \<Rightarrow> findings) \<Rightarrow> 'a list \<Rightarrow> findings" where
  "collect body [] = noFindings"
| "collect body (x # xs) = andThen (body x) (collect body xs)"

text \<open>\<open>lines.forEach((line, index) => ...)\<close>.\<close>

definition forEachLine :: "(nat \<Rightarrow> string \<Rightarrow> findings) \<Rightarrow> string list \<Rightarrow> findings" where
  "forEachLine body lines = collect (\<lambda>(index, line). body index line) (enumerate 0 lines)"

definition countSeverity :: "Severity \<Rightarrow> Violation list \<Rightarrow> nat" where
  "countSeverity s vs = length (filter (\<lambda>v. severity v = s) vs)"

text \<open>
  A \<open>for\<close> loop that appends \<open>lines[i]\<close> to a block and breaks after the first line
  for which \<open>stop\<close> holds.
\<close>

fun blockUntil :: "(string \<Rightarrow> bool) \<Rightarrow> string list \<Rightarrow> string" where
  "blockUntil stop [] = []"
| "blockUntil stop (l # ls) = l @ (if stop l then [] else blockUntil stop ls)"


subsection \<open>2-supabase\<close>

definition rx_jwtDecode :: rx where \<comment> \<open>\<^verbatim>\<open>/jwt\.decode\(|decodeJwt\(/\<close>\<close>
  "rx_jwtDecode = Alt (Lit ''jwt.decode('') (Lit ''decodeJwt('')"

definition rx_verify :: rx where \<comment> \<open>\<^verbatim>\<open>/verify/\<close>\<close>
  "rx_verify = Lit ''verify''"

definition rx_loggerToken :: rx where \<comment> \<open>\<^verbatim>\<open>/logger\.(log|debug|error|warn)\(.*token/i\<close>\<close>
  "rx_loggerToken = Seqs [Lit ''logger.'', Alts [Lit ''log'', Lit ''debug'', Lit ''error'', Lit ''warn''],
     Lit ''('', Star Dot, Lit ''token'']"

definition rx_consoleJwt :: rx where \<comment> \<open>\<^verbatim>\<open>/console\.(log|debug|error|warn)\(.*jwt/i\<close>\<close>
  "rx_consoleJwt = Seqs [Lit ''console.'', Alts [Lit ''log'', Lit ''debug'', Lit ''error'', Lit ''warn''],
     Lit ''('', Star Dot, Lit ''jwt'']"

definition rx_serviceRoleKey :: rx where \<comment> \<open>\<^verbatim>\<open>/service.?role.?key/i\<close>\<close>
  "rx_serviceRoleKey = Seqs [Lit ''service'', Opt Dot, Lit ''role'', Opt Dot, Lit ''key'']"

definition rx_client :: rx where \<comment> \<open>\<^verbatim>\<open>/client/i\<close>\<close>
  "rx_client = Lit ''client''"

definition rx_useGuards :: rx where \<comment> \<open>\<^verbatim>\<open>/@UseGuards\(([^)]+)\)/g\<close>\<close>
  "rx_useGuards = Seqs [Lit ''@UseGuards('', Grp 1 (Plus (noneOf '')'')), Lit '')'']"

definition supabaseAuth_line :: "string \<Rightarrow> nat \<Rightarrow> string \<Rightarrow> findings" where
  "supabaseAuth_line fname index lineText =
     (let lineNum = index + 1 in
      andThen
        (if rxTest False rx_jwtDecode lineText \<and> \<not> rxTest False rx_verify lineText
         then violation \<lparr>file = fname, line = lineNum, rule = ''INV-SUPABASE-1'',
                message = ''Decode-only JWT handling detected. Must use JWKS validation.'',
                severity = critical, fix = Some ''Replace with Supabase JWKS verification''\<rparr>
         else noFindings)
     (andThen
        (if rxTest True rx_loggerToken lineText \<or> rxTest True rx_consoleJwt lineText
         then violation \<lparr>file = fname, line = lineNum, rule = ''INV-SUPABASE-8'',
                message = ''Potential JWT/token logging detected.'',
                severity = critical, fix = Some ''Remove token from log statement''\<rparr>
         else noFindings)
        (if rxTest True rx_serviceRoleKey lineText \<and> rxTest True rx_client fname
         then violation \<lparr>file = fname, line = lineNum, rule = ''INV-SUPABASE-1'',
                message = ''Service-role key may be exposed client-side.'',
                severity = critical, fix = None\<rparr>
         else noFindings)))"

definition supabaseAuth_guard :: "string \<Rightarrow> string \<Rightarrow> rmatch \<Rightarrow> findings" where
  "supabaseAuth_guard fname content mt =
     (let guards = cap mt 1 in
      if strIncludes guards ''RolesGuard'' \<or> strIncludes guards ''PermissionsGuard''
      then if \<not> strIncludes guards ''JwtAuthGuard'' \<and> \<not> strIncludes content ''@UseGuards(JwtAuthGuard)''
           then warning \<lparr>file = fname, line = lineOfIndex content (mindex mt), rule = ''INV-SUPABASE-2'',
                  message = ''RolesGuard/PermissionsGuard used without explicit JwtAuthGuard.''\<rparr>
           else noFindings
      else noFindings)"

definition supabaseAuth_file :: "string \<Rightarrow> string \<Rightarrow> findings" where
  "supabaseAuth_file fname content =
     andThen
       (forEachLine (supabaseAuth_line fname) (strSplit newline content))
       (if endsWith fname ''.controller.ts''
        then collect (supabaseAuth_guard fname content) (matchAll False rx_useGuards content)
        else noFindings)"

definition validateSupabaseAuth :: "ValidationContext \<Rightarrow> ValidationResult" where
  "validateSupabaseAuth ctx =
     (case collect (\<lambda>(fname, content). supabaseAuth_file fname content) (fileContents ctx) of
        (viols, warns) \<Rightarrow>
          \<lparr>sopFile = ''2-supabase'', metric = ''supabase-auth-compliance'',
            score = (if length viols = 0 then 1.0
                     else max 0 (1 - real (length viols) * 0.2)),
            passed = (countSeverity critical viols = 0),
            violations = viols, warnings = warns\<rparr>)"

definition softDeleteEntities :: "string list" where
  "softDeleteEntities = [''organizations'', ''organization_users'', ''organization_roles'',
     ''teams'', ''rubrics'', ''role_plays'', ''tracks'']"

definition rx_prismaQuery :: rx where
  \<comment> \<open>\<^verbatim>\<open>/prisma\.(\w+)\.(findMany|findFirst|findUnique|count|aggregate)/\<close>\<close>
  "rx_prismaQuery = Seqs [Lit ''prisma.'', Grp 1 (Plus word), Lit ''.'',
     Alts [Lit ''findMany'', Lit ''findFirst'', Lit ''findUnique'', Lit ''count'', Lit ''aggregate'']]"

definition rx_cache :: rx where \<comment> \<open>\<^verbatim>\<open>/cache\.(get|set|del)\(/\<close>\<close>
  "rx_cache = Seqs [Lit ''cache.'', Alts [Lit ''get'', Lit ''set'', Lit ''del''], Lit ''('']"

definition rx_cacheManager :: rx where \<comment> \<open>\<^verbatim>\<open>/cacheManager\.(get|set|del)\(/\<close>\<close>
  "rx_cacheManager = Seqs [Lit ''cacheManager.'', Alts [Lit ''get'', Lit ''set'', Lit ''del''], Lit ''('']"

definition rx_cacheKey :: rx where \<comment> \<open>\<^verbatim>\<open>/['"]([\w:]+)['"]/\<close>\<close>
  "rx_cacheKey = Seqs [quote, Grp 1 (Plus (Cls False [CWord, CChar (CHR '':'')])), quote]"

definition tenantIsolation_query :: "string \<Rightarrow> string list \<Rightarrow> nat \<Rightarrow> string \<Rightarrow> findings" where
  "tenantIsolation_query fname lines index lineText =
     (case rxMatch False rx_prismaQuery lineText of
        None \<Rightarrow> noFindings
      | Some prismaQueryMatch \<Rightarrow>
          (let entity = cap prismaQueryMatch 1;
               whereBlock = blockUntil (\<lambda>l. strIncludes l ''});'' \<or> strIncludes l '')];'')
                              (slice index (min (index + 10) (length lines)) lines)
           in andThen
                (if \<not> strIncludes whereBlock ''organization_id'' \<and>
                    \<not> strIncludes whereBlock ''org_id'' \<and>
                    entity \<noteq> ''internal_users'' \<and>
                    entity \<noteq> ''evaluation_model_configs''
                 then warning \<lparr>file = fname, line = index + 1, rule = ''INV-SUPABASE-4'',
                        message = ''Query on '' @ entity @ '' may be missing organization_id filter.''\<rparr>
                 else noFindings)
                (if list_ex (\<lambda>e. strIncludes entity e) softDeleteEntities
                 then if \<not> strIncludes whereBlock ''deleted_at''
                      then violation \<lparr>file = fname, line = index + 1, rule = ''INV-PRISMA-SOFT-DELETE'',
                             message = ''Query on '' @ entity @ '' missing deleted_at: null filter.'',
                             severity = high, fix = Some ''Add deleted_at: null to where clause''\<rparr>
                      else noFindings
                 else noFindings)))"

definition tenantIsolation_cache :: "string \<Rightarrow> nat \<Rightarrow> string \<Rightarrow> findings" where
  "tenantIsolation_cache fname index lineText =
     (if rxTest False rx_cache lineText \<or> rxTest False rx_cacheManager lineText
      then (case rxMatch False rx_cacheKey lineText of
              None \<Rightarrow> noFindings
            | Some keyMatch \<Rightarrow>
                if \<not> strIncludes (cap keyMatch 1) ''org'' \<and> \<not> strIncludes (cap keyMatch 1) ''${''
                then warning \<lparr>file = fname, line = index + 1, rule = ''INV-SUPABASE-6'',
                       message = ''Cache key may not include organization context.''\<rparr>
                else noFindings)
      else noFindings)"

definition tenantIsolation_file :: "string \<Rightarrow> string \<Rightarrow> findings" where
  "tenantIsolation_file fname content =
     (let lines = strSplit newline content in
      forEachLine (\<lambda>index lineText.
          andThen (tenantIsolation_query fname lines index lineText)
                  (tenantIsolation_cache fname index lineText)) lines)"

definition validateTenantIsolation :: "ValidationContext \<Rightarrow> ValidationResult" where
  "validateTenantIsolation ctx =
     (case collect (\<lambda>(fname, content). tenantIsolation_file fname content) (fileContents ctx) of
        (viols, warns) \<Rightarrow>
          (let criticalViolations = countSeverity critical viols;
               highViolations = countSeverity high viols
           in \<lparr>sopFile = ''2-supabase'', metric = ''tenant-isolation'',
                score = max 0 (1 - real criticalViolations * 0.3 - real highViolations * 0.15),
                passed = (criticalViolations = 0 \<and> highViolations = 0),
                violations = viols, warnings = warns\<rparr>))"


subsection \<open>3-database-prisma\<close>

definition rx_findMany :: rx where \<comment> \<open>\<^verbatim>\<open>/\.findMany\(/\<close>\<close>
  "rx_findMany = Lit ''.findMany(''"

definition rx_loop :: rx where \<comment> \<open>\<^verbatim>\<open>/for\s*\(|\.forEach\(|\.map\(/\<close>\<close>
  "rx_loop = Alts [Seqs [Lit ''for'', Star space, Lit ''(''], Lit ''.forEach('', Lit ''.map('']"

definition rx_awaitPrisma :: rx where
  \<comment> \<open>\<^verbatim>\<open>/await\s+.*prisma\.\w+\.(findFirst|findUnique|findMany|count)/\<close>\<close>
  "rx_awaitPrisma = Seqs [Lit ''await'', Plus space, Star Dot, Lit ''prisma.'', Plus word, Lit ''.'',
     Alts [Lit ''findFirst'', Lit ''findUnique'', Lit ''findMany'', Lit ''count'']]"

definition rx_findManyLength :: rx where \<comment> \<open>\<^verbatim>\<open>/\.findMany\([^)]*\)\.length/\<close>\<close>
  "rx_findManyLength = Seqs [Lit ''.findMany('', Star (noneOf '')''), Lit '').length'']"

definition rx_lengthAtEnd :: rx where \<comment> \<open>\<^verbatim>\<open>/\.length\s*$/\<close>\<close>
  "rx_lengthAtEnd = Seqs [Lit ''.length'', Star space, Eol]"

definition rx_findManyWord :: rx where \<comment> \<open>\<^verbatim>\<open>/findMany/\<close>\<close>
  "rx_findManyWord = Lit ''findMany''"

definition rx_dotLength :: rx where \<comment> \<open>\<^verbatim>\<open>/\.length/\<close>\<close>
  "rx_dotLength = Lit ''.length''"

definition rx_hardDelete :: rx where
  \<comment> \<open>\<^verbatim>\<open>/prisma\.(organizations|teams|rubrics|role_plays)\.delete\(/\<close>\<close>
  "rx_hardDelete = Seqs [Lit ''prisma.'',
     Grp 1 (Alts [Lit ''organizations'', Lit ''teams'', Lit ''rubrics'', Lit ''role_plays'']),
     Lit ''.delete('']"

text \<open>
  The loop that gathers the body of a loop statement: it appends lines, counts one
  brace per line that has one, and breaks when the count is back at zero.
\<close>

fun loopBlockFrom :: "string list \<Rightarrow> bool \<Rightarrow> int \<Rightarrow> string" where
  "loopBlockFrom [] started braceCount = []"
| "loopBlockFrom (l # ls) started braceCount =
     (let started' = (started \<or> strIncludes l ''{'');
          braceCount' = (if strIncludes l ''{'' then braceCount + 1 else braceCount);
          braceCount'' = (if strIncludes l ''}'' then braceCount' - 1 else braceCount')
      in l @ (if started' \<and> braceCount'' = 0 then [] else loopBlockFrom ls started' braceCount''))"

definition prismaQueries_findMany :: "string \<Rightarrow> string list \<Rightarrow> nat \<Rightarrow> string \<Rightarrow> findings" where
  "prismaQueries_findMany fname lines index lineText =
     (if rxTest False rx_findMany lineText
      then (let queryBlock = blockUntil (\<lambda>l. strIncludes l ''});'')
                               (slice index (min (index + 15) (length lines)) lines)
            in andThen
                 (if \<not> strIncludes queryBlock ''orderBy''
                  then violation \<lparr>file = fname, line = index + 1, rule = ''INV-PRISMA-ORDERBY'',
                         message = ''findMany query missing orderBy clause.'',
                         severity = medium,
                         fix = Some ''Add orderBy: { created_at: \"desc\" } or appropriate field''\<rparr>
                  else noFindings)
                 (if \<not> strIncludes queryBlock ''take'' \<and> \<not> strIncludes queryBlock ''skip''
                  then warning \<lparr>file = fname, line = index + 1, rule = ''INV-PRISMA-PAGINATION'',
                         message = ''findMany query may need pagination (take/skip).''\<rparr>
                  else noFindings))
      else noFindings)"

definition prismaQueries_loop :: "string \<Rightarrow> string list \<Rightarrow> nat \<Rightarrow> string \<Rightarrow> findings" where
  "prismaQueries_loop fname lines index lineText =
     (if rxTest False rx_loop lineText
      then (let loopBlock = loopBlockFrom (slice index (min (index + 30) (length lines)) lines) False 0
            in if rxTest False rx_awaitPrisma loopBlock
               then violation \<lparr>file = fname, line = index + 1, rule = ''INV-PRISMA-N+1'',
                      message = ''Potential N+1 query detected: Prisma query inside loop.'',
                      severity = high,
                      fix = Some ''Use batch query with { in: [...ids] } before the loop''\<rparr>
               else noFindings)
      else noFindings)"

definition prismaQueries_count :: "string \<Rightarrow> string list \<Rightarrow> nat \<Rightarrow> string \<Rightarrow> findings" where
  "prismaQueries_count fname lines index lineText =
     (if rxTest False rx_findManyLength lineText \<or> rxTest False rx_lengthAtEnd lineText
      then (let prevLines = strJoin [newline] (slice (index - 5) (index + 1) lines)
            in if rxTest False rx_findManyWord prevLines \<and> rxTest False rx_dotLength lineText
               then violation \<lparr>file = fname, line = index + 1, rule = ''INV-PRISMA-COUNT'',
                      message = ''Using findMany().length instead of count() for totals.'',
                      severity = medium,
                      fix = Some ''Use prisma.model.count({ where }) instead''\<rparr>
               else noFindings)
      else noFindings)"

definition prismaQueries_hardDelete :: "string \<Rightarrow> string \<Rightarrow> findings" where
  "prismaQueries_hardDelete fname content =
     (case rxMatch False rx_hardDelete content of
        None \<Rightarrow> noFindings
      | Some hardDeleteMatch \<Rightarrow>
          violation \<lparr>file = fname, line = lineOfIndex content (mindex hardDeleteMatch),
            rule = ''INV-PRISMA-SOFT-DELETE'',
            message = ''Hard delete on '' @ cap hardDeleteMatch 1 @ '' - use soft delete (deleted_at).'',
            severity = critical, fix = None\<rparr>)"

definition prismaQueries_file :: "string \<Rightarrow> string \<Rightarrow> findings" where
  "prismaQueries_file fname content =
     (let lines = strSplit newline content in
      andThen
        (forEachLine (\<lambda>index lineText.
           andThen (prismaQueries_findMany fname lines index lineText)
          (andThen (prismaQueries_loop fname lines index lineText)
                   (prismaQueries_count fname lines index lineText))) lines)
        (prismaQueries_hardDelete fname content))"

definition validatePrismaQueries :: "ValidationContext \<Rightarrow> ValidationResult" where
  "validatePrismaQueries ctx =
     (case collect (\<lambda>(fname, content). prismaQueries_file fname content) (fileContents ctx) of
        (viols, warns) \<Rightarrow>
          (let criticalViolations = countSeverity critical viols;
               highViolations = countSeverity high viols;
               mediumViolations = countSeverity medium viols
           in \<lparr>sopFile = ''3-database-prisma'', metric = ''prisma-query-compliance'',
                score = max 0 (1 - real criticalViolations * 0.3 - real highViolations * 0.15
                                 - real mediumViolations * 0.05),
                passed = (criticalViolations = 0 \<and> highViolations = 0),
                violations = viols, warnings = warns\<rparr>))"

definition rx_asyncFunction :: rx where
  \<comment> \<open>\<^verbatim>\<open>/async\s+(\w+)\s*\([^)]*\)\s*(?::\s*[^{]+)?\s*{/g\<close>\<close>
  "rx_asyncFunction = Seqs [Lit ''async'', Plus space, Grp 1 (Plus word), Star space,
     Lit ''('', Star (noneOf '')''), Lit '')'', Star space,
     Opt (Seqs [Lit '':'', Star space, Plus (noneOf ''{'')]), Star space, Lit ''{'']"

definition rx_prismaMutation :: "string \<Rightarrow> rx" where
  \<comment> \<open>\<^verbatim>\<open>/prisma\.(\w+)\.create\(/g\<close>, and the same with \<open>update\<close> and \<open>delete\<close>\<close>
  "rx_prismaMutation method = Seqs [Lit ''prisma.'', Grp 1 (Plus word), Lit (''.'' @ method @ ''('')]"

text \<open>
  The scan for the end of a function body: from \<open>funcStart\<close>, character by character,
  until the braces opened are closed again. \<open>i\<close> is the index of the head of the
  string; without a closing brace \<open>funcEnd\<close> stays at \<open>funcStart\<close>.
\<close>

fun funcEndFrom :: "string \<Rightarrow> nat \<Rightarrow> bool \<Rightarrow> int \<Rightarrow> nat option" where
  "funcEndFrom [] i started braceCount = None"
| "funcEndFrom (c # cs) i started braceCount =
     (let started' = (started \<or> c = CHR ''{'');
          braceCount' = (if c = CHR ''{'' then braceCount + 1 else braceCount);
          braceCount'' = (if c = CHR ''}'' then braceCount' - 1 else braceCount')
      in if started' \<and> braceCount'' = 0 then Some i
         else funcEndFrom cs (Suc i) started' braceCount'')"

definition transactions_function :: "string \<Rightarrow> string \<Rightarrow> rmatch \<Rightarrow> findings" where
  "transactions_function fname content funcMatch =
     (let funcName = cap funcMatch 1;
          funcStart = mindex funcMatch;
          funcEnd = (case funcEndFrom (drop funcStart content) funcStart False 0 of
                       None \<Rightarrow> funcStart | Some i \<Rightarrow> i);
          funcBody = substring content (int funcStart) (int funcEnd);
          createMatches = matchAll False (rx_prismaMutation ''create'') funcBody;
          updateMatches = matchAll False (rx_prismaMutation ''update'') funcBody;
          deleteMatches = matchAll False (rx_prismaMutation ''delete'') funcBody;
          allMutations = createMatches @ updateMatches @ deleteMatches;
          uniqueTables = remdups (map (\<lambda>mt. cap mt 1) allMutations)
      in if length uniqueTables > 1 \<and> \<not> strIncludes funcBody ''$transaction''
         then violation \<lparr>file = fname, line = lineOfIndex content funcStart,
                rule = ''INV-PRISMA-TRANSACTION'',
                message = ''Function '' @ funcName @ '' has multi-table mutations without $transaction.'',
                severity = high,
                fix = Some ''Wrap related writes in prisma.$transaction(async (tx) => { ... })''\<rparr>
         else noFindings)"

definition transactions_file :: "string \<Rightarrow> string \<Rightarrow> findings" where
  "transactions_file fname content =
     collect (transactions_function fname content) (matchAll False rx_asyncFunction content)"

definition validateTransactions :: "ValidationContext \<Rightarrow> ValidationResult" where
  "validateTransactions ctx =
     (case collect (\<lambda>(fname, content). transactions_file fname content) (fileContents ctx) of
        (viols, warns) \<Rightarrow>
          \<lparr>sopFile = ''3-database-prisma'', metric = ''transaction-compliance'',
            score = (if length viols = 0 then 1.0 else max 0 (1 - real (length viols) * 0.2)),
            passed = (length viols = 0),
            violations = viols, warnings = warns\<rparr>)"

subsection \<open>4-code-safety-patterns\<close>

definition rx_stepComplete :: rx where \<comment> \<open>\<^verbatim>\<open>/step:\s*['"][\w_]*complete['"]/\<close>\<close>
  "rx_stepComplete = Seqs [Lit ''step:'', Star space, quote,
     Star (Cls False [CWord, CChar (CHR ''_'')]), Lit ''complete'', quote]"

definition rx_statusComplete :: rx where \<comment> \<open>\<^verbatim>\<open>/status.*complete/i\<close>\<close>
  "rx_statusComplete = Seqs [Lit ''status'', Star Dot, Lit ''complete'']"

definition rx_statusUpdate :: rx where \<comment> \<open>\<^verbatim>\<open>/updateStatus|setStatus|progress/\<close>\<close>
  "rx_statusUpdate = Alts [Lit ''updateStatus'', Lit ''setStatus'', Lit ''progress'']"

definition rx_operation :: rx where \<comment> \<open>\<^verbatim>\<open>/await\s+this\.\w+\(|fetch|prisma\./\<close>\<close>
  "rx_operation = Alts [Seqs [Lit ''await'', Plus space, Lit ''this.'', Plus word, Lit ''(''],
     Lit ''fetch'', Lit ''prisma.'']"

definition codeSafety_line :: "string \<Rightarrow> string list \<Rightarrow> nat \<Rightarrow> string \<Rightarrow> findings" where
  "codeSafety_line fname lines index lineText =
     (if rxTest False rx_stepComplete lineText \<or> rxTest True rx_statusComplete lineText
      then (let prevLines = strJoin [newline] (slice (index - 10) index lines)
            in if rxTest False rx_statusUpdate prevLines
               then (let nextLines = strJoin [newline]
                                       (slice (index + 1) (min (index + 10) (length lines)) lines)
                     in if rxTest False rx_operation nextLines
                        then warning \<lparr>file = fname, line = index + 1, rule = ''INV-STATUS-ACCURACY'',
                               message = ''Status set to \"complete\" before operation may have finished.''\<rparr>
                        else noFindings)
               else noFindings)
      else noFindings)"

definition codeSafety_file :: "string \<Rightarrow> string \<Rightarrow> findings" where
  "codeSafety_file fname content =
     (let lines = strSplit newline content in forEachLine (codeSafety_line fname lines) lines)"

definition validateCodeSafetyPatterns :: "ValidationContext \<Rightarrow> ValidationResult" where
  "validateCodeSafetyPatterns ctx =
     (case collect (\<lambda>(fname, content). codeSafety_file fname content) (fileContents ctx) of
        (viols, warns) \<Rightarrow>
          \<lparr>sopFile = ''4-code-safety-patterns'', metric = ''code-safety-compliance'',
            score = (if length viols = 0 then 1.0 else max 0 (1 - real (length viols) * 0.15)),
            passed = (countSeverity critical viols = 0),
            violations = viols, warnings = warns\<rparr>)"


subsection \<open>5-error-handling-logging\<close>

definition nestExceptions :: "string list" where
  "nestExceptions = [''NotFoundException'', ''BadRequestException'', ''ForbiddenException'',
     ''UnauthorizedException'', ''ConflictException'', ''UnprocessableEntityException'',
     ''InternalServerErrorException'', ''BadGatewayException'', ''ServiceUnavailableException'']"

definition rx_throwError :: rx where \<comment> \<open>\<^verbatim>\<open>/throw\s+new\s+Error\(/\<close>\<close>
  "rx_throwError = Seqs [Lit ''throw'', Plus space, Lit ''new'', Plus space, Lit ''Error('']"

definition rx_console :: rx where \<comment> \<open>\<^verbatim>\<open>/console\.(log|debug|error|warn|info)\(/\<close>\<close>
  "rx_console = Seqs [Lit ''console.'',
     Alts [Lit ''log'', Lit ''debug'', Lit ''error'', Lit ''warn'', Lit ''info''], Lit ''('']"

definition rx_logger :: rx where \<comment> \<open>\<^verbatim>\<open>/logger\.(log|debug|error|warn)\(/\<close>\<close>
  "rx_logger = Seqs [Lit ''logger.'', Alts [Lit ''log'', Lit ''debug'', Lit ''error'', Lit ''warn''], Lit ''('']"

definition rx_sensitive :: rx where \<comment> \<open>\<^verbatim>\<open>/password|secret|token|apiKey|api_key|jwt/i\<close>\<close>
  "rx_sensitive = Alts [Lit ''password'', Lit ''secret'', Lit ''token'', Lit ''apiKey'',
     Lit ''api_key'', Lit ''jwt'']"

definition rx_catchVar :: rx where \<comment> \<open>\<^verbatim>\<open>/catch\s*\(\s*(\w+)\s*\)/\<close>\<close>
  "rx_catchVar = Seqs [Lit ''catch'', Star space, Lit ''('', Star space, Plus word, Star space, Lit '')'']"

definition rx_throwException :: rx where \<comment> \<open>\<^verbatim>\<open>/throw\s+new\s+\w+Exception\(/\<close>\<close>
  "rx_throwException = Seqs [Lit ''throw'', Plus space, Lit ''new'', Plus space, Plus word,
     Lit ''Exception('']"

text \<open>
  The two counters of \<open>validateExceptionTypes\<close> are incremented in the same pass as
  the findings are pushed: a round of the loop gives its findings and its increments
  of \<open>(nestExceptionCount, genericErrorCount)\<close>.
\<close>

type_synonym tallied = "findings \<times> nat \<times> nat"

fun tally :: "('a \<Rightarrow> tallied) \<Rightarrow> 'a list \<Rightarrow> tallied" where
  "tally body [] = (noFindings, 0, 0)"
| "tally body (x # xs) =
     (case body x of (found, nest, generic) \<Rightarrow>
        (case tally body xs of (found', nest', generic') \<Rightarrow>
           (andThen found found', nest + nest', generic + generic')))"

definition exceptionTypes_line :: "string \<Rightarrow> string list \<Rightarrow> nat \<Rightarrow> string \<Rightarrow> tallied" where
  "exceptionTypes_line fname lines index lineText =
     (let generic = rxTest False rx_throwError lineText;
          nest = list_ex (\<lambda>ex. strIncludes lineText (''throw new '' @ ex)) nestExceptions
      in (andThen
            (if generic
             then violation \<lparr>file = fname, line = index + 1, rule = ''INV-ERROR-TYPE'',
                    message = ''Using generic Error instead of NestJS exception.'',
                    severity = medium,
                    fix = Some ''Use NotFoundException, BadRequestException, etc.''\<rparr>
             else noFindings)
         (andThen
            (if rxTest False rx_console lineText
             then violation \<lparr>file = fname, line = index + 1, rule = ''INV-LOGGER'',
                    message = ''Using console.* instead of NestJS Logger.'',
                    severity = medium,
                    fix = Some ''Use this.logger.log/error/warn/debug''\<rparr>
             else noFindings)
         (andThen
            (if rxTest False rx_logger lineText
             then if rxTest True rx_sensitive lineText
                  then violation \<lparr>file = fname, line = index + 1, rule = ''INV-LOG-SENSITIVE'',
                         message = ''Potential sensitive data in log statement.'',
                         severity = critical, fix = None\<rparr>
                  else noFindings
             else noFindings)
            (if rxTest False rx_catchVar lineText
             then (let catchBlock = strJoin [newline]
                                      (slice index (min (index + 10) (length lines)) lines)
                   in if rxTest False rx_throwException catchBlock
                      then if \<not> strIncludes catchBlock ''.message'' \<and> \<not> strIncludes catchBlock ''.stack''
                           then warning \<lparr>file = fname, line = index + 1, rule = ''INV-ERROR-CONTEXT'',
                                  message = ''Rethrowing exception may lose original error context.''\<rparr>
                           else noFindings
                      else noFindings)
             else noFindings))),
          (if nest then 1 else 0), (if generic then 1 else 0)))"

definition exceptionTypes_file :: "string \<Rightarrow> string \<Rightarrow> tallied" where
  "exceptionTypes_file fname content =
     (let lines = strSplit newline content
      in tally (\<lambda>(index, lineText). exceptionTypes_line fname lines index lineText)
           (enumerate 0 lines))"

definition exceptionTypes_scan :: "ValidationContext \<Rightarrow> tallied" where
  "exceptionTypes_scan ctx =
     tally (\<lambda>(fname, content). exceptionTypes_file fname content) (fileContents ctx)"

definition validateExceptionTypes :: "ValidationContext \<Rightarrow> ValidationResult" where
  "validateExceptionTypes ctx =
     (case exceptionTypes_scan ctx of
        ((viols, warns), nestExceptionCount, genericErrorCount) \<Rightarrow>
          (let totalThrows = nestExceptionCount + genericErrorCount;
               sc = (if totalThrows = 0 then 1.0
                     else real nestExceptionCount / real totalThrows)
           in \<lparr>sopFile = ''5-error-handling-logging'', metric = ''exception-type-compliance'',
                score = sc, passed = (sc \<ge> 0.9),
                violations = viols, warnings = warns\<rparr>))"

definition rx_logNoContext :: rx where
  \<comment> \<open>\<^verbatim>\<open>/this\.logger\.(log|error|warn)\(['"][\w\s]+['"]\s*\)/\<close>\<close>
  "rx_logNoContext = Seqs [Lit ''this.logger.'', Alts [Lit ''log'', Lit ''error'', Lit ''warn''],
     Lit ''('', quote, Plus (Cls False [CWord, CSpace]), quote, Star space, Lit '')'']"

definition rx_skKey :: rx where \<comment> \<open>\<^verbatim>\<open>/['"]sk-[a-zA-Z0-9]+['"]/\<close>\<close>
  "rx_skKey = Seqs [quote, Lit ''sk-'',
     Plus (Cls False [CRange (CHR ''a'') (CHR ''z''), CRange (CHR ''A'') (CHR ''Z''),
                      CRange (CHR ''0'') (CHR ''9'')]), quote]"

definition rx_apiKey :: rx where \<comment> \<open>\<^verbatim>\<open>/api[_-]?key\s*[:=]\s*['"][^'"]+['"]/\<close>\<close>
  "rx_apiKey = Seqs [Lit ''api'', Opt (oneOf ''_-''), Lit ''key'', Star space, oneOf '':='',
     Star space, quote, Plus notQuote, quote]"

definition logging_init :: "string \<Rightarrow> string \<Rightarrow> findings" where
  "logging_init fname content =
     (if endsWith fname ''.service.ts''
      then if \<not> strIncludes content ''private readonly logger = new Logger('' \<and>
              \<not> strIncludes content ''private logger = new Logger(''
           then if strIncludes content ''this.logger''
                then violation \<lparr>file = fname, line = 1, rule = ''INV-LOGGER-INIT'',
                       message = ''Service uses this.logger but Logger is not properly initialized.'',
                       severity = medium, fix = None\<rparr>
                else noFindings
           else noFindings
      else noFindings)"

definition logging_line :: "string \<Rightarrow> nat \<Rightarrow> string \<Rightarrow> findings" where
  "logging_line fname index lineText =
     andThen
       (if rxTest False rx_logNoContext lineText
        then if \<not> strIncludes lineText ''${'' \<and> \<not> strIncludes lineText ''+ '' \<and>
                \<not> strIncludes lineText '', {''
             then warning \<lparr>file = fname, line = index + 1, rule = ''INV-LOG-CONTEXT'',
                    message = ''Log statement may be missing context (entity IDs, etc.).''\<rparr>
             else noFindings
        else noFindings)
       (if rxTest False rx_skKey lineText \<or> rxTest False rx_apiKey lineText
        then violation \<lparr>file = fname, line = index + 1, rule = ''INV-HARDCODED-SECRET'',
               message = ''Potential hardcoded secret detected.'',
               severity = critical, fix = None\<rparr>
        else noFindings)"

definition logging_file :: "string \<Rightarrow> string \<Rightarrow> findings" where
  "logging_file fname content =
     andThen (logging_init fname content)
             (forEachLine (logging_line fname) (strSplit newline content))"

definition validateLogging :: "ValidationContext \<Rightarrow> ValidationResult" where
  "validateLogging ctx =
     (case collect (\<lambda>(fname, content). logging_file fname content) (fileContents ctx) of
        (viols, warns) \<Rightarrow>
          (let criticalViolations = countSeverity critical viols
           in \<lparr>sopFile = ''5-error-handling-logging'', metric = ''logging-compliance'',
                score = (if criticalViolations = 0 then 1.0
                         else max 0 (1 - real criticalViolations * 0.3)),
                passed = (criticalViolations = 0),
                violations = viols, warnings = warns\<rparr>))"

subsection \<open>6-external-services-timing\<close>

definition rx_httpCall :: rx where
  \<comment> \<open>\<^verbatim>\<open>/httpService\.(get|post|put|patch|delete)\(|axios\.(get|post|put|patch|delete)\(|fetch\(/\<close>\<close>
  "rx_httpCall = Alts [
     Seqs [Lit ''httpService.'',
       Alts [Lit ''get'', Lit ''post'', Lit ''put'', Lit ''patch'', Lit ''delete''], Lit ''(''],
     Seqs [Lit ''axios.'',
       Alts [Lit ''get'', Lit ''post'', Lit ''put'', Lit ''patch'', Lit ''delete''], Lit ''(''],
     Lit ''fetch('']"

definition rx_catchAny :: rx where \<comment> \<open>\<^verbatim>\<open>/catch\s*\([^)]+\)/\<close>\<close>
  "rx_catchAny = Seqs [Lit ''catch'', Star space, Lit ''('', Plus (noneOf '')''), Lit '')'']"

definition rx_throwWithError :: rx where \<comment> \<open>\<^verbatim>\<open>/throw\s+new\s+\w+Exception\([^)]*error\./\<close>\<close>
  "rx_throwWithError = Seqs [Lit ''throw'', Plus space, Lit ''new'', Plus space, Plus word,
     Lit ''Exception('', Star (noneOf '')''), Lit ''error.'']"

definition rx_throwWithMessage :: rx where \<comment> \<open>\<^verbatim>\<open>/throw\s+new\s+\w+Exception\([^)]*\.message/\<close>\<close>
  "rx_throwWithMessage = Seqs [Lit ''throw'', Plus space, Lit ''new'', Plus space, Plus word,
     Lit ''Exception('', Star (noneOf '')''), Lit ''.message'']"

definition externalServices_line :: "string \<Rightarrow> string list \<Rightarrow> nat \<Rightarrow> string \<Rightarrow> findings" where
  "externalServices_line fname lines index lineText =
     andThen
       (if rxTest False rx_httpCall lineText
        then (let funcBody = strJoin [newline] (slice (index - 30) (index + 30) lines)
              in if \<not> strIncludes funcBody ''retry'' \<and> \<not> strIncludes funcBody ''attempt''
                 then warning \<lparr>file = fname, line = index + 1, rule = ''INV-EXTERNAL-RETRY'',
                        message = ''External API call may need retry logic.''\<rparr>
                 else noFindings)
        else noFindings)
       (if rxTest False rx_catchAny lineText
        then (let catchBlock = strJoin [newline]
                                 (slice index (min (index + 10) (length lines)) lines)
              in if rxTest False rx_throwWithError catchBlock \<or>
                    rxTest False rx_throwWithMessage catchBlock
                 then (let nextLines = strJoin [newline]
                                         (slice index (min (index + 5) (length lines)) lines)
                       in if strIncludes nextLines ''external'' \<or> strIncludes nextLines ''http'' \<or>
                             strIncludes nextLines ''api''
                          then warning \<lparr>file = fname, line = index + 1,
                                 rule = ''INV-EXTERNAL-ERROR-EXPOSE'',
                                 message = ''External service error may be exposed to user.''\<rparr>
                          else noFindings)
                 else noFindings)
        else noFindings)"

definition externalServices_file :: "string \<Rightarrow> string \<Rightarrow> findings" where
  "externalServices_file fname content =
     (let lines = strSplit newline content in forEachLine (externalServices_line fname lines) lines)"

definition validateExternalServicePatterns :: "ValidationContext \<Rightarrow> ValidationResult" where
  "validateExternalServicePatterns ctx =
     (case collect (\<lambda>(fname, content). externalServices_file fname content) (fileContents ctx) of
        (viols, warns) \<Rightarrow>
          (let sc = 1.0 - real (length viols) * 0.2 - real (length warns) * 0.05
           in \<lparr>sopFile = ''6-external-services-timing'', metric = ''external-service-compliance'',
                score = max 0 sc, passed = (length viols = 0),
                violations = viols, warnings = warns\<rparr>))"


subsection \<open>7-queue-job-processing\<close>

definition rx_jobType :: rx where \<comment> \<open>\<^verbatim>\<open>/Job<[^>]+>/\<close>\<close>
  "rx_jobType = Seqs [Lit ''Job<'', Plus (noneOf ''>''), Lit ''>'']"

definition rx_jobData :: rx where \<comment> \<open>\<^verbatim>\<open>/interface.*JobData/\<close>\<close>
  "rx_jobData = Seqs [Lit ''interface'', Star Dot, Lit ''JobData'']"

definition jobProcessing_idempotency :: "string \<Rightarrow> string \<Rightarrow> findings" where
  "jobProcessing_idempotency fname content =
     (if strIncludes content ''async process('' \<or> strIncludes content ''async execute(''
      then if \<not> strIncludes content ''already'' \<and> \<not> strIncludes content ''processed'' \<and>
              \<not> strIncludes content ''idempotent'' \<and> \<not> strIncludes content ''skip''
           then if strIncludes content ''sendEmail'' \<or> strIncludes content ''notify'' \<or>
                   strIncludes content ''webhook'' \<or> strIncludes content ''create(''
                then warning \<lparr>file = fname, line = 1, rule = ''INV-JOB-IDEMPOTENT'',
                       message = ''Job processor with side effects may need idempotency check.''\<rparr>
                else noFindings
           else noFindings
      else noFindings)"

definition jobProcessing_line :: "string \<Rightarrow> string list \<Rightarrow> nat \<Rightarrow> string \<Rightarrow> findings" where
  "jobProcessing_line fname lines index lineText =
     (if rxTest False rx_jobType lineText \<or> rxTest False rx_jobData lineText
      then (let typeBlock = strJoin [newline]
                              (slice index (min (index + 15) (length lines)) lines)
            in if \<not> strIncludes typeBlock ''organizationId'' \<and>
                  \<not> strIncludes typeBlock ''organization_id''
               then warning \<lparr>file = fname, line = index + 1, rule = ''INV-JOB-TENANT'',
                      message = ''Job data type may be missing organizationId.''\<rparr>
               else noFindings)
      else noFindings)"

definition jobProcessing_logging :: "string \<Rightarrow> string \<Rightarrow> findings" where
  "jobProcessing_logging fname content =
     (if \<not> strIncludes content ''this.logger.log'' \<and> \<not> strIncludes content ''this.logger.error''
      then warning \<lparr>file = fname, line = 1, rule = ''INV-JOB-LOGGING'',
             message = ''Job processor may be missing logging.''\<rparr>
      else noFindings)"

definition jobProcessing_file :: "string \<Rightarrow> string \<Rightarrow> findings" where
  "jobProcessing_file fname content =
     (if strIncludes fname ''processor'' \<or> strIncludes fname ''consumer''
      then (let lines = strSplit newline content
            in andThen (jobProcessing_idempotency fname content)
              (andThen (forEachLine (jobProcessing_line fname lines) lines)
                       (jobProcessing_logging fname content)))
      else noFindings)"

definition validateJobProcessing :: "ValidationContext \<Rightarrow> ValidationResult" where
  "validateJobProcessing ctx =
     (case collect (\<lambda>(fname, content). jobProcessing_file fname content) (fileContents ctx) of
        (viols, warns) \<Rightarrow>
          (let sc = 1.0 - real (length viols) * 0.2 - real (length warns) * 0.1
           in \<lparr>sopFile = ''7-queue-job-processing'', metric = ''job-processing-compliance'',
                score = max 0 sc, passed = (length viols = 0),
                violations = viols, warnings = warns\<rparr>))"

subsection \<open>8-api-design-patterns\<close>

definition rx_mutationEndpoint :: rx where \<comment> \<open>\<^verbatim>\<open>/@(Post|Put|Patch|Delete)\(/\<close>\<close>
  "rx_mutationEndpoint = Seqs [Lit ''@'',
     Alts [Lit ''Post'', Lit ''Put'', Lit ''Patch'', Lit ''Delete''], Lit ''('']"

definition rx_requiredField :: rx where \<comment> \<open>\<^verbatim>\<open>/^\s+\w+\s*:\s*(string|number|boolean)/\<close>\<close>
  "rx_requiredField = Seqs [Bol, Plus space, Plus word, Star space, Lit '':'', Star space,
     Alts [Lit ''string'', Lit ''number'', Lit ''boolean'']]"

definition apiDesign_controllerLine :: "string \<Rightarrow> string \<Rightarrow> string list \<Rightarrow> nat \<Rightarrow> string \<Rightarrow> findings" where
  "apiDesign_controllerLine fname content lines index lineText =
     (if rxTest False rx_mutationEndpoint lineText
      then (let methodBlock = strJoin [newline] (slice (index - 5) (index + 1) lines)
            in if \<not> strIncludes methodBlock ''@UseGuards'' \<and> \<not> strIncludes content ''@UseGuards(''
               then violation \<lparr>file = fname, line = index + 1, rule = ''INV-API-GUARD'',
                      message = ''Mutation endpoint missing @UseGuards decorator.'',
                      severity = critical, fix = None\<rparr>
               else noFindings)
      else noFindings)"

definition apiDesign_controller :: "string \<Rightarrow> string \<Rightarrow> string list \<Rightarrow> findings" where
  "apiDesign_controller fname content lines =
     (if endsWith fname ''.controller.ts''
      then andThen
             (if \<not> strIncludes content ''@ApiTags''
              then warning \<lparr>file = fname, line = 1, rule = ''INV-API-DOCS'',
                     message = ''Controller missing @ApiTags decorator.''\<rparr>
              else noFindings)
             (forEachLine (apiDesign_controllerLine fname content lines) lines)
      else noFindings)"

definition apiDesign_dtoLine :: "string \<Rightarrow> string list \<Rightarrow> nat \<Rightarrow> string \<Rightarrow> findings" where
  "apiDesign_dtoLine fname lines index lineText =
     (if rxTest False rx_requiredField lineText \<and> \<not> strIncludes lineText ''?''
      then (let prevLines = strJoin [newline] (slice (index - 3) index lines)
            in if \<not> strIncludes prevLines ''@Is'' \<and> \<not> strIncludes prevLines ''@Valid''
               then warning \<lparr>file = fname, line = index + 1, rule = ''INV-DTO-VALIDATION'',
                      message = ''Required field may be missing validation decorator.''\<rparr>
               else noFindings)
      else noFindings)"

definition apiDesign_file :: "string \<Rightarrow> string \<Rightarrow> findings" where
  "apiDesign_file fname content =
     (let lines = strSplit newline content
      in andThen (apiDesign_controller fname content lines)
                 (if strIncludes fname ''/dto/''
                  then forEachLine (apiDesign_dtoLine fname lines) lines
                  else noFindings))"

definition validateApiDesign :: "ValidationContext \<Rightarrow> ValidationResult" where
  "validateApiDesign ctx =
     (case collect (\<lambda>(fname, content). apiDesign_file fname content) (fileContents ctx) of
        (viols, warns) \<Rightarrow>
          (let criticalViolations = countSeverity critical viols
           in \<lparr>sopFile = ''8-api-design-patterns'', metric = ''api-design-compliance'',
                score = (if criticalViolations = 0 then 1.0
                         else max 0 (1 - real criticalViolations * 0.25)),
                passed = (criticalViolations = 0),
                violations = viols, warnings = warns\<rparr>))"

subsection \<open>9-testing-code-quality\<close>

definition rx_todo :: rx where \<comment> \<open>\<^verbatim>\<open>/\/\/\s*(TODO|FIXME|HACK|XXX)/i\<close>\<close>
  "rx_todo = Seqs [Lit ''//'', Star space, Alts [Lit ''TODO'', Lit ''FIXME'', Lit ''HACK'', Lit ''XXX'']]"

definition rx_anyAnnotation :: rx where \<comment> \<open>\<^verbatim>\<open>/:\s*any\s*[;,=)]/\<close>\<close>
  "rx_anyAnnotation = Seqs [Lit '':'', Star space, Lit ''any'', Star space, oneOf '';,=)'']"

definition rx_asAny :: rx where \<comment> \<open>\<^verbatim>\<open>/as\s+any/\<close>\<close>
  "rx_asAny = Seqs [Lit ''as'', Plus space, Lit ''any'']"

definition codeQuality_line :: "string \<Rightarrow> nat \<Rightarrow> string \<Rightarrow> findings" where
  "codeQuality_line fname index lineText =
     andThen
       (if rxTest True rx_todo lineText
        then warning \<lparr>file = fname, line = index + 1, rule = ''INV-TODO'',
               message = ''Unresolved TODO/FIXME comment.''\<rparr>
        else noFindings)
       (if rxTest False rx_anyAnnotation lineText \<or> rxTest False rx_asAny lineText
        then warning \<lparr>file = fname, line = index + 1, rule = ''INV-ANY-TYPE'',
               message = ''Usage of \"any\" type reduces type safety.''\<rparr>
        else noFindings)"

definition codeQuality_file :: "string \<Rightarrow> string \<Rightarrow> findings" where
  "codeQuality_file fname content = forEachLine (codeQuality_line fname) (strSplit newline content)"

definition validateCodeQuality :: "ValidationContext \<Rightarrow> ValidationResult" where
  "validateCodeQuality ctx =
     (case collect (\<lambda>(fname, content). codeQuality_file fname content) (fileContents ctx) of
        (viols, warns) \<Rightarrow>
          (let sc = 1.0 - real (length viols) * 0.1 - real (length warns) * 0.02
           in \<lparr>sopFile = ''9-testing-code-quality'', metric = ''code-quality'',
                score = max 0 sc, passed = (length viols = 0),
                violations = viols, warnings = warns\<rparr>))"

subsection \<open>Audit log\<close>

definition criticalEntities :: "string list" where
  "criticalEntities = [''organizations'', ''role_plays'', ''assessments'', ''users'', ''rubrics'']"

definition auditLogging_match :: "string \<Rightarrow> string \<Rightarrow> string \<Rightarrow> string \<Rightarrow> rmatch \<Rightarrow> findings" where
  "auditLogging_match operation entity fname content mt =
     (let funcStart = lastIndexOf content ''async '' (int (mindex mt));
          funcEnd = indexOf content ''}'' (int (mindex mt) + 100);
          funcBody = substring content funcStart funcEnd
      in if \<not> strIncludes funcBody ''auditLogsService'' \<and> \<not> strIncludes funcBody ''audit''
         then warning \<lparr>file = fname, line = lineOfIndex content (mindex mt), rule = ''INV-AUDIT-LOG'',
                message = operation @ '' operation on '' @ entity @ '' may be missing audit log.''\<rparr>
         else noFindings)"

definition auditLogging_entity :: "string \<Rightarrow> string \<Rightarrow> string \<Rightarrow> findings" where
  "auditLogging_entity fname content entity =
     andThen
       (collect (auditLogging_match ''Create'' entity fname content)
          (matchAll False (Lit (''prisma.'' @ entity @ ''.create('')) content))
       (collect (auditLogging_match ''Update'' entity fname content)
          (matchAll False (Lit (''prisma.'' @ entity @ ''.update('')) content))"

definition auditLogging_file :: "string \<Rightarrow> string \<Rightarrow> findings" where
  "auditLogging_file fname content =
     (if \<not> endsWith fname ''.service.ts'' then noFindings
      else collect (auditLogging_entity fname content) criticalEntities)"

definition validateAuditLogging :: "ValidationContext \<Rightarrow> ValidationResult" where
  "validateAuditLogging ctx =
     (case collect (\<lambda>(fname, content). auditLogging_file fname content) (fileContents ctx) of
        (viols, warns) \<Rightarrow>
          \<lparr>sopFile = ''2-supabase'', metric = ''audit-log-coverage'',
            score = (if length warns = 0 then 1.0 else max 0 (1 - real (length warns) * 0.1)),
            passed = True,
            violations = viols, warnings = warns\<rparr>)"

subsection \<open>The registry\<close>

text \<open>The object \<open>validators\<close>, as the list of its entries in the order of its keys.\<close>

definition validators :: "(string \<times> (ValidationContext \<Rightarrow> ValidationResult)) list" where
  "validators = [
     (''supabase-auth'', validateSupabaseAuth),
     (''tenant-isolation'', validateTenantIsolation),
     (''audit-logging'', validateAuditLogging),
     (''prisma-queries'', validatePrismaQueries),
     (''transactions'', validateTransactions),
     (''code-safety'', validateCodeSafetyPatterns),
     (''exception-types'', validateExceptionTypes),
     (''logging'', validateLogging),
     (''external-services'', validateExternalServicePatterns),
     (''job-processing'', validateJobProcessing),
     (''api-design'', validateApiDesign),
     (''code-quality'', validateCodeQuality)]"


section \<open>General best practices (validation/general-practices-validator.ts)\<close>

datatype Category = security | performance | reliability | maintainability | errorHandling

record LineContext =
  prevLines :: "string list"
  nextLines :: "string list"
  fullContent :: string
  filename :: string
  inFunction :: bool
  inClass :: bool
  inTryCatch :: bool

record RuleViolation =
  message :: string
  "fix" :: "string option"

text \<open>
  A rule's \<open>check\<close> is a JavaScript function: it returns a \<open>RuleViolation\<close> or \<open>null\<close>,
  or it throws. The result of a call is \<open>Inr\<close> of what it returns, or \<open>Inl\<close> of what it
  throws. The field \<open>id\<close> of the source is \<open>ruleId\<close> here.
\<close>

record GeneralRule =
  ruleId :: string
  name :: string
  description :: string
  category :: Category
  severity :: Severity
  check :: "string \<Rightarrow> nat \<Rightarrow> LineContext \<Rightarrow> string + RuleViolation option"

definition found :: "string \<Rightarrow> string \<Rightarrow> string + RuleViolation option" where
  "found msg fx = Inr (Some \<lparr>message = msg, fix = Some fx\<rparr>)"

definition nothing :: "string + RuleViolation option" where
  "nothing = Inr None"

fun repeatRx :: "nat \<Rightarrow> rx \<Rightarrow> rx" where
  "repeatRx 0 r = Eps"
| "repeatRx (Suc n) r = Seq r (repeatRx n r)"

definition atLeastRx :: "nat \<Rightarrow> rx \<Rightarrow> rx" where \<comment> \<open>\<^verbatim>\<open>r{n,}\<close>\<close>
  "atLeastRx n r = Seq (repeatRx n r) (Star r)"

definition alnum :: rx where \<comment> \<open>\<^verbatim>\<open>[a-zA-Z0-9]\<close>\<close>
  "alnum = Cls False [CRange (CHR ''a'') (CHR ''z''), CRange (CHR ''A'') (CHR ''Z''),
     CRange (CHR ''0'') (CHR ''9'')]"

definition securityRules :: "GeneralRule list" where
  \<open>securityRules = [
    \<lparr>ruleId = ''SEC-001'', name = ''No eval()'',
      description = ''eval() can execute arbitrary code and is a security risk'',
      category = security, severity = critical,
      check = (\<lambda>lineText lineNum ctx.
        \<comment> \<open>\<^verbatim>\<open>/\beval\s*\(/\<close>\<close>
        if rxTest False (Seqs [WordB, Lit ''eval'', Star space, Lit ''('']) lineText
        then found ''eval() usage detected - security vulnerability''
               ''Use JSON.parse() for JSON, or Function constructor if absolutely necessary''
        else nothing)\<rparr>,
    \<lparr>ruleId = ''SEC-002'', name = ''No Function constructor'',
      description = ''new Function() can execute arbitrary code'',
      category = security, severity = high,
      check = (\<lambda>lineText lineNum ctx.
        \<comment> \<open>\<^verbatim>\<open>/new\s+Function\s*\(/\<close>\<close>
        if rxTest False (Seqs [Lit ''new'', Plus space, Lit ''Function'', Star space, Lit ''('']) lineText
        then found ''new Function() can execute arbitrary code''
               ''Use regular functions or arrow functions instead''
        else nothing)\<rparr>,
    \<lparr>ruleId = ''SEC-003'', name = ''No innerHTML with user input'',
      description = ''innerHTML with user input can lead to XSS'',
      category = security, severity = critical,
      check = (\<lambda>lineText lineNum ctx.
        \<comment> \<open>\<^verbatim>\<open>/\.innerHTML\s*=/\<close> and \<^verbatim>\<open>/sanitize|escape|encode/i\<close>\<close>
        if rxTest False (Seqs [Lit ''.innerHTML'', Star space, Lit ''='']) lineText \<and>
           \<not> rxTest True (Alts [Lit ''sanitize'', Lit ''escape'', Lit ''encode'']) lineText
        then found ''innerHTML assignment without visible sanitization''
               ''Use textContent, or sanitize HTML before assignment''
        else nothing)\<rparr>,
    \<lparr>ruleId = ''SEC-004'', name = ''No hardcoded credentials'',
      description = ''Credentials should not be hardcoded in source'',
      category = security, severity = critical,
      check = (\<lambda>lineText lineNum ctx.
        \<comment> \<open>\<^verbatim>\<open>/['"]sk-[a-zA-Z0-9]{20,}['"]/\<close>\<close>
        if rxTest False (Seqs [quote, Lit ''sk-'', atLeastRx 20 alnum, quote]) lineText
        then found ''Hardcoded API key detected'' ''Use environment variables''
        \<comment> \<open>\<^verbatim>\<open>/password\s*[:=]\s*['"][^'"]{4,}['"](?!.*\$\{)/\<close> and \<^verbatim>\<open>/example|test|mock/i\<close>\<close>
        else if rxTest False (Seqs [Lit ''password'', Star space, oneOf '':='', Star space, quote,
                  atLeastRx 4 notQuote, quote, NLook (Seq (Star Dot) (Lit ''${''))]) lineText \<and>
                \<not> rxTest True (Alts [Lit ''example'', Lit ''test'', Lit ''mock'']) lineText
        then found ''Hardcoded password detected'' ''Use environment variables''
        \<comment> \<open>\<^verbatim>\<open>/AKIA[0-9A-Z]{16}/\<close>\<close>
        else if rxTest False (Seqs [Lit ''AKIA'',
                  repeatRx 16 (Cls False [CRange (CHR ''0'') (CHR ''9''), CRange (CHR ''A'') (CHR ''Z'')])])
                  lineText
        then found ''AWS access key detected'' ''Use environment variables''
        else nothing)\<rparr>,
    \<lparr>ruleId = ''SEC-005'', name = ''No SQL string concatenation'',
      description = ''String concatenation in SQL can lead to injection'',
      category = security, severity = critical,
      check = (\<lambda>lineText lineNum ctx.
        \<comment> \<open>\<^verbatim>\<open>/\$queryRaw`.*\$\{/\<close> and \<^verbatim>\<open>/\$executeRaw`.*\$\{/\<close>\<close>
        if (rxTest False (Seqs [Lit (''$queryRaw'' @ [CHR 0x60]), Star Dot, Lit ''${'']) lineText \<or>
            rxTest False (Seqs [Lit (''$executeRaw'' @ [CHR 0x60]), Star Dot, Lit ''${'']) lineText) \<and>
           \<not> strIncludes lineText ''Prisma.sql'' \<and> \<not> strIncludes lineText ''Prisma.join''
        then found ''Raw SQL with string interpolation - potential SQL injection''
               (''Use Prisma.sql'' @ [CHR 0x60] @ ''...'' @ [CHR 0x60] @ '' for parameterized queries'')
        \<comment> \<open>\<^verbatim>\<open>/(SELECT|INSERT|UPDATE|DELETE).*\+\s*['"]?\s*\w+/\<close>\<close>
        else if rxTest False (Seqs [Alts [Lit ''SELECT'', Lit ''INSERT'', Lit ''UPDATE'', Lit ''DELETE''],
                  Star Dot, Lit ''+'', Star space, Opt quote, Star space, Plus word]) lineText
        then found ''SQL string concatenation detected - potential injection''
               ''Use parameterized queries''
        else nothing)\<rparr>,
    \<lparr>ruleId = ''SEC-006'', name = ''No exec/spawn with user input'',
      description = ''Command execution with user input can lead to command injection'',
      category = security, severity = critical,
      check = (\<lambda>lineText lineNum ctx.
        \<comment> \<open>\<^verbatim>\<open>/child_process|exec\(|spawn\(|execSync\(/\<close> and \<^verbatim>\<open>/\$\{|\+\s*\w+/\<close>\<close>
        if rxTest False (Alts [Lit ''child_process'', Lit ''exec('', Lit ''spawn('', Lit ''execSync(''])
             lineText \<and>
           rxTest False (Alts [Lit ''${'', Seqs [Lit ''+'', Star space, Plus word]]) lineText
        then found ''Command execution with variable input - potential command injection''
               ''Validate and sanitize all inputs, use argument arrays instead of string''
        else nothing)\<rparr>]\<close>

definition rx_catchOpen :: rx where \<comment> \<open>\<^verbatim>\<open>catch\s*\([^)]*\)\s*{\<close>\<close>
  "rx_catchOpen = Seqs [Lit ''catch'', Star space, Lit ''('', Star (noneOf '')''), Lit '')'',
     Star space, Lit ''{'']"

definition errorHandlingRules :: "GeneralRule list" where
  \<open>errorHandlingRules = [
    \<lparr>ruleId = ''ERR-001'', name = ''No empty catch blocks'',
      description = ''Empty catch blocks hide errors'',
      category = errorHandling, severity = high,
      check = (\<lambda>lineText lineNum ctx.
        \<comment> \<open>\<^verbatim>\<open>/catch\s*\([^)]*\)\s*{\s*}/\<close>\<close>
        if rxTest False (Seqs [rx_catchOpen, Star space, Lit ''}'']) lineText
        then found ''Empty catch block - errors will be silently ignored''
               ''Log the error or rethrow with context''
        \<comment> \<open>\<^verbatim>\<open>/catch\s*\([^)]*\)\s*{$/\<close>, then \<^verbatim>\<open>/^\s*}/\<close> on \<open>ctx.nextLines[0] || ''\<close>\<close>
        else if rxTest False (Seqs [rx_catchOpen, Eol]) lineText \<and>
                rxTest False (Seqs [Bol, Star space, Lit ''}''])
                  (case nextLines ctx of [] \<Rightarrow> [] | nextLine # _ \<Rightarrow> nextLine)
        then found ''Empty catch block - errors will be silently ignored''
               ''Log the error or rethrow with context''
        else nothing)\<rparr>,
    \<lparr>ruleId = ''ERR-002'', name = ''No catch with just console.log'',
      description = ''Catch blocks should handle errors, not just log'',
      category = errorHandling, severity = medium,
      check = (\<lambda>lineText lineNum ctx.
        \<comment> \<open>\<^verbatim>\<open>/catch\s*\([^)]*\)\s*{\s*console\.log/\<close>\<close>
        if rxTest False (Seqs [rx_catchOpen, Star space, Lit ''console.log'']) lineText
        then found ''Catch block only logs error but doesn't handle it''
               ''Rethrow the error, recover, or return an error response''
        else nothing)\<rparr>,
    \<lparr>ruleId = ''ERR-003'', name = ''Async functions should handle errors'',
      description = ''Async functions without try-catch can crash'',
      category = errorHandling, severity = medium,
      check = (\<lambda>lineText lineNum ctx.
        \<comment> \<open>\<^verbatim>\<open>/async\s+\w+\s*\([^)]*\)\s*{/\<close>, \<^verbatim>\<open>/await\s/\<close>, \<^verbatim>\<open>/try\s*{|\.catch\(/\<close>\<close>
        if rxTest False (Seqs [Lit ''async'', Plus space, Plus word, Star space, Lit ''('',
             Star (noneOf '')''), Lit '')'', Star space, Lit ''{'']) lineText
        then (let funcBody = strJoin [newline] (slice 0 20 (nextLines ctx))
              in if rxTest False (Seq (Lit ''await'') space) funcBody \<and>
                    \<not> rxTest False (Alts [Seqs [Lit ''try'', Star space, Lit ''{''], Lit ''.catch('']) funcBody
                 then found ''Async function with await but no error handling''
                        ''Add try-catch or .catch() for await calls''
                 else nothing)
        else nothing)\<rparr>,
    \<lparr>ruleId = ''ERR-004'', name = ''Promise rejection handling'',
      description = ''Promises should have rejection handlers'',
      category = errorHandling, severity = medium,
      check = (\<lambda>lineText lineNum ctx.
        \<comment> \<open>\<^verbatim>\<open>/new\s+Promise\s*\(/\<close> and \<^verbatim>\<open>/reject|_/\<close>\<close>
        if rxTest False (Seqs [Lit ''new'', Plus space, Lit ''Promise'', Star space, Lit ''('']) lineText \<and>
           \<not> rxTest False (Alts [Lit ''reject'', Lit ''_'']) lineText
        then found ''Promise created without reject handler''
               ''Add reject parameter: new Promise((resolve, reject) => {...})''
        else nothing)\<rparr>,
    \<lparr>ruleId = ''ERR-005'', name = ''Error thrown should have message'',
      description = ''Errors should have descriptive messages'',
      category = errorHandling, severity = medium,
      check = (\<lambda>lineText lineNum ctx.
        \<comment> \<open>\<^verbatim>\<open>/throw\s+new\s+\w*Error\s*\(\s*\)/\<close>\<close>
        if rxTest False (Seqs [Lit ''throw'', Plus space, Lit ''new'', Plus space, Star word,
             Lit ''Error'', Star space, Lit ''('', Star space, Lit '')'']) lineText
        then found ''Error thrown without message'' ''Add descriptive error message''
        else nothing)\<rparr>]\<close>

definition rx_anyLoop :: rx where \<comment> \<open>\<^verbatim>\<open>/for\s*\(|\.forEach\(|while\s*\(/\<close>\<close>
  "rx_anyLoop = Alts [Seqs [Lit ''for'', Star space, Lit ''(''], Lit ''.forEach('',
     Seqs [Lit ''while'', Star space, Lit ''('']]"

text \<open>\<open>xs.slice(-n)\<close>: the last \<open>n\<close> elements.\<close>

definition lastN :: "nat \<Rightarrow> 'a list \<Rightarrow> 'a list" where
  "lastN n xs = drop (length xs - n) xs"

definition performanceRules :: "GeneralRule list" where
  \<open>performanceRules = [
    \<lparr>ruleId = ''PERF-001'', name = ''Avoid await in loops'',
      description = ''Sequential awaits in loops are slow'',
      category = performance, severity = medium,
      check = (\<lambda>lineText lineNum ctx.
        if rxTest False rx_anyLoop lineText
        then (let loopBody = strJoin [newline] (slice 0 15 (nextLines ctx))
              \<comment> \<open>\<^verbatim>\<open>/await\s/\<close> and \<^verbatim>\<open>/Promise\.all/\<close>\<close>
              in if rxTest False (Seq (Lit ''await'') space) loopBody \<and>
                    \<not> rxTest False (Lit ''Promise.all'') loopBody
                 then found ''await inside loop - runs sequentially instead of in parallel''
                        ''Use Promise.all() with map(), or batch the operations''
                 else nothing)
        else nothing)\<rparr>,
    \<lparr>ruleId = ''PERF-002'', name = ''No sync file operations'',
      description = ''Sync file operations block the event loop'',
      category = performance, severity = medium,
      check = (\<lambda>lineText lineNum ctx.
        \<comment> \<open>\<^verbatim>\<open>/readFileSync|writeFileSync|existsSync|readdirSync|statSync/\<close>, \<^verbatim>\<open>/require\s*\(|import/\<close>\<close>
        if rxTest False (Alts [Lit ''readFileSync'', Lit ''writeFileSync'', Lit ''existsSync'',
             Lit ''readdirSync'', Lit ''statSync'']) lineText \<and>
           \<not> rxTest False (Alts [Seqs [Lit ''require'', Star space, Lit ''(''], Lit ''import'']) lineText
        then found ''Sync file operation blocks event loop''
               ''Use async version (readFile, writeFile, etc.) with await''
        else nothing)\<rparr>,
    \<lparr>ruleId = ''PERF-003'', name = ''Avoid creating functions in loops'',
      description = ''Functions created in loops waste memory'',
      category = performance, severity = medium,
      check = (\<lambda>lineText lineNum ctx.
        \<comment> \<open>\<^verbatim>\<open>/for\s*\(|while\s*\(/\<close>\<close>
        if rxTest False (Alts [Seqs [Lit ''for'', Star space, Lit ''(''],
             Seqs [Lit ''while'', Star space, Lit ''('']]) lineText
        then (let loopBody = strJoin [newline] (slice 0 10 (nextLines ctx))
              \<comment> \<open>\<^verbatim>\<open>/function\s*\(|=>\s*{/\<close>, \<^verbatim>\<open>/\.(map|filter|reduce|forEach|find|some|every)\(/\<close>\<close>
              in if rxTest False (Alts [Seqs [Lit ''function'', Star space, Lit ''(''],
                      Seqs [Lit ''=>'', Star space, Lit ''{'']]) loopBody \<and>
                    \<not> rxTest False (Seqs [Lit ''.'', Alts [Lit ''map'', Lit ''filter'', Lit ''reduce'',
                        Lit ''forEach'', Lit ''find'', Lit ''some'', Lit ''every''], Lit ''('']) loopBody
                 then found ''Function created inside loop''
                        ''Define function outside loop and reference it''
                 else nothing)
        else nothing)\<rparr>,
    \<lparr>ruleId = ''PERF-004'', name = ''Use Set for existence checks'',
      description = ''Array.includes() is O(n), Set.has() is O(1)'',
      category = performance, severity = medium,
      check = (\<lambda>lineText lineNum ctx.
        \<comment> \<open>\<^verbatim>\<open>/\.includes\(/\<close>\<close>
        if rxTest False (Lit ''.includes('') lineText \<and>
           rxTest False rx_anyLoop (strJoin [newline] (lastN 10 (prevLines ctx)))
        then found ''Array.includes() in loop is O(n) per iteration''
               ''Convert array to Set before loop, use Set.has()''
        else nothing)\<rparr>]\<close>

definition rx_floatingCall :: rx where \<comment> \<open>\<^verbatim>\<open>/^\s*this\.\w+\.\w+\([^)]*\);?\s*$/\<close>\<close>
  "rx_floatingCall = Seqs [Bol, Star space, Lit ''this.'', Plus word, Lit ''.'', Plus word, Lit ''('',
     Star (noneOf '')''), Lit '')'', Opt (Lit '';''), Star space, Eol]"

definition rx_memberCall :: rx where \<comment> \<open>\<^verbatim>\<open>/this\.(\w+)\.(\w+)/\<close>\<close>
  "rx_memberCall = Seqs [Lit ''this.'', Plus word, Lit ''.'', Grp 2 (Plus word)]"

definition rx_asyncVerb :: rx where
  \<comment> \<open>\<^verbatim>\<open>/^(create|update|delete|save|send|fetch|post|get|put|patch)/\<close>\<close>
  "rx_asyncVerb = Seqs [Bol, Alts [Lit ''create'', Lit ''update'', Lit ''delete'', Lit ''save'',
     Lit ''send'', Lit ''fetch'', Lit ''post'', Lit ''get'', Lit ''put'', Lit ''patch'']]"

definition rx_memberAssign :: rx where \<comment> \<open>\<^verbatim>\<open>/^\s*\w+\.\w+\s*=/\<close>\<close>
  "rx_memberAssign = Seqs [Bol, Star space, Plus word, Lit ''.'', Plus word, Star space, Lit ''='']"

definition rx_paramList :: rx where \<comment> \<open>\<^verbatim>\<open>/\(([^)]+)\)/\<close>\<close>
  "rx_paramList = Seqs [Lit ''('', Grp 1 (Plus (noneOf '')'')), Lit '')'']"

definition rx_mutatedVar :: rx where \<comment> \<open>\<^verbatim>\<open>/^\s*(\w+)\./\<close>\<close>
  "rx_mutatedVar = Seqs [Bol, Star space, Grp 1 (Plus word), Lit ''.'']"

text \<open>\<open>p.trim().split(':')[0].trim()\<close>, the name of a parameter.\<close>

definition paramName :: "string \<Rightarrow> string" where
  "paramName p = trim (case strSplit (CHR '':'') (trim p) of [] \<Rightarrow> [] | first # _ \<Rightarrow> first)"

definition reliabilityRules :: "GeneralRule list" where
  \<open>reliabilityRules = [
    \<lparr>ruleId = ''REL-001'', name = ''No floating promises'',
      description = ''Promises without await or .then() can fail silently'',
      category = reliability, severity = high,
      check = (\<lambda>lineText lineNum ctx.
        if rxTest False rx_floatingCall lineText \<and> \<not> strIncludes lineText ''await''
        then (case rxMatch False rx_memberCall lineText of
                None \<Rightarrow> nothing
              | Some mt \<Rightarrow>
                  if cap mt 2 \<noteq> [] \<and> rxTest False rx_asyncVerb (cap mt 2)
                  then found ''Potential floating promise - async operation without await''
                         ''Add await before the call, or use .then()/.catch()''
                  else nothing)
        else nothing)\<rparr>,
    \<lparr>ruleId = ''REL-002'', name = ''Check for null/undefined before access'',
      description = ''Accessing properties on null/undefined causes runtime errors'',
      category = reliability, severity = medium,
      \<comment> \<open>every path of this check returns \<open>null\<close>\<close>
      check = (\<lambda>lineText lineNum ctx. nothing)\<rparr>,
    \<lparr>ruleId = ''REL-003'', name = ''No mutation of function parameters'',
      description = ''Mutating parameters causes unexpected side effects'',
      category = reliability, severity = medium,
      check = (\<lambda>lineText lineNum ctx.
        if inFunction ctx \<and> rxTest False rx_memberAssign lineText
        then (case rxMatch False rx_paramList (strJoin [newline] (lastN 15 (prevLines ctx))) of
                None \<Rightarrow> nothing
              | Some paramMatch \<Rightarrow>
                  (let params = map paramName (strSplit (CHR '','') (cap paramMatch 1))
                   in case rxMatch False rx_mutatedVar lineText of
                        None \<Rightarrow> nothing
                      | Some mt \<Rightarrow>
                          if cap mt 1 \<noteq> [] \<and> cap mt 1 \<in> set params
                          then found (''Mutating function parameter '' @ [CHR 0x27] @ cap mt 1 @ [CHR 0x27])
                                 ''Create a copy of the parameter before modifying''
                          else nothing))
        else nothing)\<rparr>,
    \<lparr>ruleId = ''REL-004'', name = ''Timeout in async operations'',
      description = ''Async operations should have timeouts'',
      category = reliability, severity = medium,
      check = (\<lambda>lineText lineNum ctx.
        \<comment> \<open>\<^verbatim>\<open>/fetch\(|axios\.|httpService\./\<close> and \<^verbatim>\<open>/timeout|signal|AbortController/\<close>\<close>
        if rxTest False (Alts [Lit ''fetch('', Lit ''axios.'', Lit ''httpService.'']) lineText \<and>
           \<not> rxTest False (Alts [Lit ''timeout'', Lit ''signal'', Lit ''AbortController'']) lineText
        then found ''HTTP request without timeout''
               ''Add timeout option or AbortController signal''
        else nothing)\<rparr>]\<close>

fun showNat :: "nat \<Rightarrow> string" where
  "showNat n = (if n < 10 then [char_of (48 + n)] else showNat (n div 10) @ [char_of (48 + n mod 10)])"

definition countChar :: "char \<Rightarrow> string \<Rightarrow> nat" where \<comment> \<open>\<^verbatim>\<open>(l.match(/{/g) || []).length\<close>\<close>
  "countChar c s = length (filter (\<lambda>x. x = c) s)"

text \<open>
  The loop of MAINT-005 over at most 100 of the following lines: it counts the lines
  from the first one that has an opening brace until the braces are balanced.
\<close>

fun functionLength :: "string list \<Rightarrow> bool \<Rightarrow> int \<Rightarrow> nat \<Rightarrow> nat" where
  "functionLength [] started braceCount lineCount = lineCount"
| "functionLength (l # ls) started braceCount lineCount =
     (let started' = (started \<or> strIncludes l ''{'');
          braceCount' = (if strIncludes l ''{'' then braceCount + int (countChar (CHR ''{'') l)
                         else braceCount);
          braceCount'' = (if strIncludes l ''}'' then braceCount' - int (countChar (CHR ''}'') l)
                          else braceCount');
          lineCount' = (if started' then lineCount + 1 else lineCount)
      in if started' \<and> braceCount'' = 0 then lineCount'
         else functionLength ls started' braceCount'' lineCount')"

definition maintainabilityRules :: "GeneralRule list" where
  \<open>maintainabilityRules = [
    \<lparr>ruleId = ''MAINT-001'', name = ''No magic numbers'',
      description = ''Magic numbers should be named constants'',
      category = maintainability, severity = medium,
      check = (\<lambda>lineText lineNum ctx.
        \<comment> \<open>\<^verbatim>\<open>/[^a-zA-Z0-9_](86400|3600|1000|60000|5000|10000|30000)[^0-9]/\<close>\<close>
        if rxTest False (Seqs [
             Cls True [CRange (CHR ''a'') (CHR ''z''), CRange (CHR ''A'') (CHR ''Z''),
                       CRange (CHR ''0'') (CHR ''9''), CChar (CHR ''_'')],
             Alts [Lit ''86400'', Lit ''3600'', Lit ''1000'', Lit ''60000'', Lit ''5000'',
                   Lit ''10000'', Lit ''30000''],
             Cls True [CRange (CHR ''0'') (CHR ''9'')]]) lineText \<and>
           \<comment> \<open>\<^verbatim>\<open>/const|let|var|=\s*\d+;?\s*\/\//\<close>\<close>
           \<not> rxTest False (Alts [Lit ''const'', Lit ''let'', Lit ''var'',
                Seqs [Lit ''='', Star space, Plus (Cls False [CDigit]), Opt (Lit '';''), Star space,
                      Lit ''//'']]) lineText
        then found ''Magic number detected''
               ''Extract to named constant (e.g., const TIMEOUT_MS = 5000)''
        else nothing)\<rparr>,
    \<lparr>ruleId = ''MAINT-002'', name = ''No deeply nested callbacks'',
      description = ''Deep nesting reduces readability'',
      category = maintainability, severity = medium,
      check = (\<lambda>lineText lineNum ctx.
        \<comment> \<open>\<^verbatim>\<open>line.match(/^(\s*)/)?.[1].length || 0\<close>, then \<^verbatim>\<open>/=>\s*{|function\s*\(|\{\s*$/\<close>\<close>
        if length (takeWhile isSpaceChar lineText) > 20 \<and>
           rxTest False (Alts [Seqs [Lit ''=>'', Star space, Lit ''{''],
                Seqs [Lit ''function'', Star space, Lit ''(''],
                Seqs [Lit ''{'', Star space, Eol]]) lineText
        then found ''Deeply nested code (>5 levels)''
               ''Extract to separate functions or use early returns''
        else nothing)\<rparr>,
    \<lparr>ruleId = ''MAINT-003'', name = ''No commented-out code'',
      description = ''Commented code should be removed'',
      category = maintainability, severity = medium,
      check = (\<lambda>lineText lineNum ctx.
        \<comment> \<open>\<^verbatim>\<open>/^\s*\/\/\s*(const|let|var|if|for|while|return|await|function|class|import)\s/\<close>\<close>
        if rxTest False (Seqs [Bol, Star space, Lit ''//'', Star space,
             Alts [Lit ''const'', Lit ''let'', Lit ''var'', Lit ''if'', Lit ''for'', Lit ''while'',
                   Lit ''return'', Lit ''await'', Lit ''function'', Lit ''class'', Lit ''import''],
             space]) lineText
        then found ''Commented-out code detected''
               ''Remove commented code, use version control for history''
        else nothing)\<rparr>,
    \<lparr>ruleId = ''MAINT-004'', name = ''Avoid any type'',
      description = ''"any" type defeats TypeScript benefits'',
      category = maintainability, severity = medium,
      check = (\<lambda>lineText lineNum ctx.
        \<comment> \<open>\<^verbatim>\<open>/:\s*any\s*[;,=)\]]|as\s+any\b/\<close>\<close>
        if rxTest False (Alts [
             Seqs [Lit '':'', Star space, Lit ''any'', Star space, oneOf '';,=)]''],
             Seqs [Lit ''as'', Plus space, Lit ''any'', WordB]]) lineText
        then found ''Usage of "any" type'' ''Use proper type, unknown, or generic''
        else nothing)\<rparr>,
    \<lparr>ruleId = ''MAINT-005'', name = ''Function too long'',
      description = ''Long functions are hard to maintain'',
      category = maintainability, severity = medium,
      check = (\<lambda>lineText lineNum ctx.
        \<comment> \<open>\<^verbatim>\<open>/async\s+\w+\s*\(|function\s+\w+\s*\(/\<close>\<close>
        if rxTest False (Alts [
             Seqs [Lit ''async'', Plus space, Plus word, Star space, Lit ''(''],
             Seqs [Lit ''function'', Plus space, Plus word, Star space, Lit ''('']]) lineText
        then (let lineCount = functionLength (take 100 (nextLines ctx)) False 0 0
              in if lineCount > 50
                 then found (''Function is '' @ showNat lineCount @ '' lines (>50 lines)'')
                        ''Extract logic into smaller functions''
                 else nothing)
        else nothing)\<rparr>]\<close>

definition allRules :: "GeneralRule list" where
  "allRules = securityRules @ errorHandlingRules @ performanceRules @ reliabilityRules
     @ maintainabilityRules"

text \<open>
  The three backward scans of the line context. \<open>scanBack\<close> takes the lines from the
  current one up to the first, keeps the signed brace balance (closing braces count
  up, opening braces down) and succeeds at the first line that matches while the
  balance is not positive.
\<close>

fun scanBack :: "(string \<Rightarrow> bool) \<Rightarrow> string list \<Rightarrow> int \<Rightarrow> bool" where
  "scanBack starts [] braceCount = False"
| "scanBack starts (l # ls) braceCount =
     (let braceCount' = braceCount + int (countChar (CHR ''}'') l) - int (countChar (CHR ''{'') l)
      in if starts l \<and> braceCount' \<le> 0 then True else scanBack starts ls braceCount')"

definition checkInFunction :: "string list \<Rightarrow> nat \<Rightarrow> bool" where
  \<comment> \<open>\<^verbatim>\<open>/async\s+\w+|function\s+\w+/\<close>\<close>
  "checkInFunction lines currentIndex =
     scanBack (rxTest False (Alts [Seqs [Lit ''async'', Plus space, Plus word],
                                    Seqs [Lit ''function'', Plus space, Plus word]]))
       (rev (take (currentIndex + 1) lines)) 0"

definition checkInClass :: "string list \<Rightarrow> nat \<Rightarrow> bool" where
  \<comment> \<open>\<^verbatim>\<open>/^class\s+\w+/\<close> and \<^verbatim>\<open>/^export\s+class\s+\w+/\<close>\<close>
  "checkInClass lines currentIndex =
     list_ex (\<lambda>l. rxTest False (Seqs [Bol, Lit ''class'', Plus space, Plus word]) l \<or>
                   rxTest False (Seqs [Bol, Lit ''export'', Plus space, Lit ''class'', Plus space,
                                       Plus word]) l)
       (rev (take (currentIndex + 1) lines))"

definition checkInTryCatch :: "string list \<Rightarrow> nat \<Rightarrow> bool" where
  \<comment> \<open>\<^verbatim>\<open>/try\s*{/\<close> and \<^verbatim>\<open>/catch\s*\([^)]*\)\s*{/\<close>\<close>
  "checkInTryCatch lines currentIndex =
     scanBack (\<lambda>l. rxTest False (Seqs [Lit ''try'', Star space, Lit ''{'']) l \<or>
                    rxTest False rx_catchOpen l)
       (rev (take (currentIndex + 1) lines)) 0"

text \<open>
  The engine. A thrown value leaves \<open>rule.check\<close>, the loop over the rules, the
  \<open>forEach\<close> over the lines and the loop over the files at once: there is no \<open>try\<close>
  in \<open>validateGeneralPractices\<close>. \<open>collectE\<close> is \<open>collect\<close> for a body that may throw.
\<close>

fun collectE :: "('a \<Rightarrow> string + findings) \<Rightarrow> 'a list \<Rightarrow> string + findings" where
  "collectE body [] = Inr noFindings"
| "collectE body (x # xs) =
     (case body x of
        Inl thrown \<Rightarrow> Inl thrown
      | Inr here \<Rightarrow>
          (case collectE body xs of
             Inl thrown \<Rightarrow> Inl thrown
           | Inr later \<Rightarrow> Inr (andThen here later)))"

definition runRule :: "string \<Rightarrow> string \<Rightarrow> nat \<Rightarrow> LineContext \<Rightarrow> GeneralRule \<Rightarrow> string + findings" where
  "runRule fname lineText lineNum lineContext r =
     (case check r lineText lineNum lineContext of
        Inl thrown \<Rightarrow> Inl thrown
      | Inr None \<Rightarrow> Inr noFindings
      | Inr (Some v) \<Rightarrow>
          if GeneralRule.severity r = critical \<or> GeneralRule.severity r = high
          then Inr (violation \<lparr>Warning.file = fname, Warning.line = lineNum, Warning.rule = ruleId r,
                      Warning.message = RuleViolation.message v,
                      Violation.severity = GeneralRule.severity r,
                      Violation.fix = RuleViolation.fix v\<rparr>)
          else Inr (warning \<lparr>Warning.file = fname, Warning.line = lineNum, Warning.rule = ruleId r,
                      Warning.message = RuleViolation.message v\<rparr>))"

definition buildLineContext :: "string \<Rightarrow> string \<Rightarrow> string list \<Rightarrow> nat \<Rightarrow> LineContext" where
  "buildLineContext fname content lines index =
     \<lparr>prevLines = slice (index - 15) index lines,
      nextLines = slice (index + 1) (min (index + 30) (length lines)) lines,
      fullContent = content, filename = fname,
      inFunction = checkInFunction lines index,
      inClass = checkInClass lines index,
      inTryCatch = checkInTryCatch lines index\<rparr>"

definition generalPractices_line :: "GeneralRule list \<Rightarrow> string \<Rightarrow> string \<Rightarrow> string list \<Rightarrow> nat \<Rightarrow> string
    \<Rightarrow> string + findings" where
  "generalPractices_line rules fname content lines index lineText =
     collectE (runRule fname lineText (index + 1) (buildLineContext fname content lines index)) rules"

definition generalPractices_file :: "GeneralRule list \<Rightarrow> string \<Rightarrow> string \<Rightarrow> string + findings" where
  "generalPractices_file rules fname content =
     (let lines = strSplit newline content
      in collectE (\<lambda>(index, lineText). generalPractices_line rules fname content lines index lineText)
           (enumerate 0 lines))"

text \<open>\<open>validateGeneralPractices\<close> for a given catalog of rules, and for the catalog of the source.\<close>

definition validateWithRules :: "GeneralRule list \<Rightarrow> ValidationContext \<Rightarrow> string + ValidationResult" where
  "validateWithRules rules ctx =
     (case collectE (\<lambda>(fname, content). generalPractices_file rules fname content) (fileContents ctx) of
        Inl thrown \<Rightarrow> Inl thrown
      | Inr (viols, warns) \<Rightarrow>
          (let criticalCount = countSeverity critical viols;
               highCount = countSeverity high viols
           in Inr \<lparr>sopFile = ''general-practices'', metric = ''general-best-practices'',
                score = max 0 (1 - real criticalCount * 0.3 - real highCount * 0.1
                                 - real (length warns) * 0.02),
                passed = (criticalCount = 0),
                violations = viols, warnings = warns\<rparr>))"

definition validateGeneralPractices :: "ValidationContext \<Rightarrow> string + ValidationResult" where
  "validateGeneralPractices ctx = validateWithRules allRules ctx"


text \<open>
  A rule whose check throws on the lines that contain \<open>boom\<close>, as a rule added to the
  exported catalog could.
\<close>

definition throwingRule :: GeneralRule where
  "throwingRule = \<lparr>ruleId = ''X-001'', name = ''Throws'', description = ''A faulty check'',
     category = reliability, severity = medium,
     check = (\<lambda>lineText lineNum ctx.
       if strIncludes lineText ''boom'' then Inl ''TypeError'' else Inr None)\<rparr>"


section \<open>Self-correction (validation/self-correction.ts)\<close>

record AppliedFix =
  rule :: string
  line :: nat
  description :: string
  before :: string
  after :: string

record CorrectionResult =
  original :: string
  corrected :: string
  appliedFixes :: "AppliedFix list"
  remainingViolations :: "Violation list"

text \<open>
  \<open>maxIterations\<close> is a JavaScript number that is only compared with the counter of
  the iterations, without any rounding: it is a real number here, of either sign and
  not necessarily an integer. A cap that is \<open>NaN\<close> makes the loop condition false at
  once, as a cap of \<open>0\<close> does; an infinite cap is not modelled.
\<close>

record CorrectionConfig =
  maxIterations :: real
  autoFix :: bool
  fixRules :: "string list option"
  skipRules :: "string list option"

text \<open>
  A fix pattern: the rule it repairs, its regular expression (every pattern has the
  flag \<open>g\<close>; \<open>ignoreCase\<close> is the flag \<open>i\<close>), the replacement and a description.
\<close>

record FixPattern =
  rule :: string
  pattern :: rx
  ignoreCase :: bool
  replacement :: replacement
  description :: string

definition rx_errorWith :: "rx \<Rightarrow> rx" where
  \<comment> \<open>\<^verbatim>\<open>/throw\s+new\s+Error\(\s*['"]([^'"]*KEY[^'"]*)['"][\s)]/gi\<close>\<close>
  "rx_errorWith key = Seqs [Lit ''throw'', Plus space, Lit ''new'', Plus space, Lit ''Error('',
     Star space, quote, Grp 1 (Seqs [Star notQuote, key, Star notQuote]), quote,
     Cls False [CSpace, CChar (CHR '')'')]]"

definition rx_softDeleteQuery :: rx where
  \<comment> \<open>\<^verbatim>\<open>/(prisma\.(organizations|teams|rubrics|role_plays)\.find\w+\(\s*{\s*where:\s*{)([^}]+)(}\s*}\))/g\<close>\<close>
  "rx_softDeleteQuery = Seqs [
     Grp 1 (Seqs [Lit ''prisma.'',
       Grp 2 (Alts [Lit ''organizations'', Lit ''teams'', Lit ''rubrics'', Lit ''role_plays'']),
       Lit ''.find'', Plus word, Lit ''('', Star space, Lit ''{'', Star space, Lit ''where:'',
       Star space, Lit ''{'']),
     Grp 3 (Plus (noneOf ''}'')),
     Grp 4 (Seqs [Lit ''}'', Star space, Lit ''})''])]"

definition rx_trailingComma :: rx where \<comment> \<open>\<^verbatim>\<open>/,?\s*$/\<close>\<close>
  "rx_trailingComma = Seqs [Opt (Lit '',''), Star space, Eol]"

definition addDeletedAt :: "rmatch \<Rightarrow> string" where
  "addDeletedAt mt =
     (let prefix = cap mt 1; conditions = cap mt 3; suffix = cap mt 4
      in if strIncludes conditions ''deleted_at'' then mtext mt
         else (let newConditions =
                     replaceFirst False rx_trailingComma (Template []) (trim conditions)
                       @ '',\<newline>      deleted_at: null,''
               in prefix @ newConditions @ suffix))"

definition rx_findManyWhere :: rx where
  \<comment> \<open>\<^verbatim>\<open>/(\.findMany\(\s*{\s*where:\s*{[^}]+}\s*)(}\))/g\<close>\<close>
  "rx_findManyWhere = Seqs [
     Grp 1 (Seqs [Lit ''.findMany('', Star space, Lit ''{'', Star space, Lit ''where:'', Star space,
       Lit ''{'', Plus (noneOf ''}''), Lit ''}'', Star space]),
     Grp 2 (Lit ''})'')]"

definition FIX_PATTERNS :: "FixPattern list" where
  "FIX_PATTERNS = [
     \<lparr>rule = ''INV-ERROR-TYPE'',
       pattern = rx_errorWith (Seqs [Lit ''not'', Star space, Lit ''found'']), ignoreCase = True,
       replacement = Template ''throw new NotFoundException('$1')'',
       description = ''Replace generic Error with NotFoundException''\<rparr>,
     \<lparr>rule = ''INV-ERROR-TYPE'',
       pattern = rx_errorWith (Lit ''invalid''), ignoreCase = True,
       replacement = Template ''throw new BadRequestException('$1')'',
       description = ''Replace generic Error with BadRequestException''\<rparr>,
     \<lparr>rule = ''INV-ERROR-TYPE'',
       pattern = rx_errorWith (Lit ''denied''), ignoreCase = True,
       replacement = Template ''throw new ForbiddenException('$1')'',
       description = ''Replace generic Error with ForbiddenException''\<rparr>,
     \<lparr>rule = ''INV-LOGGER'', pattern = Lit ''console.log('', ignoreCase = False,
       replacement = Template ''this.logger.log('',
       description = ''Replace console.log with Logger''\<rparr>,
     \<lparr>rule = ''INV-LOGGER'', pattern = Lit ''console.error('', ignoreCase = False,
       replacement = Template ''this.logger.error('',
       description = ''Replace console.error with Logger''\<rparr>,
     \<lparr>rule = ''INV-LOGGER'', pattern = Lit ''console.warn('', ignoreCase = False,
       replacement = Template ''this.logger.warn('',
       description = ''Replace console.warn with Logger''\<rparr>,
     \<lparr>rule = ''INV-LOGGER'', pattern = Lit ''console.debug('', ignoreCase = False,
       replacement = Template ''this.logger.debug('',
       description = ''Replace console.debug with Logger''\<rparr>,
     \<lparr>rule = ''INV-PRISMA-SOFT-DELETE'', pattern = rx_softDeleteQuery, ignoreCase = False,
       replacement = Computed addDeletedAt,
       description = ''Add deleted_at: null filter''\<rparr>,
     \<lparr>rule = ''INV-PRISMA-ORDERBY'', pattern = rx_findManyWhere, ignoreCase = False,
       replacement = Template ''$1,\<newline>    orderBy: { created_at: 'desc' },\<newline>  $2'',
       description = ''Add orderBy clause to findMany''\<rparr>]"

definition IMPORT_FIXES :: "(string \<times> string) list" where
  "IMPORT_FIXES = [
     (''NotFoundException'', ''import { NotFoundException } from '@nestjs/common';''),
     (''BadRequestException'', ''import { BadRequestException } from '@nestjs/common';''),
     (''ForbiddenException'', ''import { ForbiddenException } from '@nestjs/common';''),
     (''UnauthorizedException'', ''import { UnauthorizedException } from '@nestjs/common';''),
     (''ConflictException'', ''import { ConflictException } from '@nestjs/common';''),
     (''Logger'', ''import { Logger } from '@nestjs/common';'')]"

definition rx_nestImport :: rx where
  \<comment> \<open>\<^verbatim>\<open>/import\s*{([^}]+)}\s*from\s*['"]@nestjs\/common['"]/\<close>\<close>
  "rx_nestImport = Seqs [Lit ''import'', Star space, Lit ''{'', Grp 1 (Plus (noneOf ''}'')), Lit ''}'',
     Star space, Lit ''from'', Star space, quote, Lit ''@nestjs/common'', quote]"

text \<open>\<open>Map.prototype.set\<close>: an existing key keeps its place, a new key goes last.\<close>

fun mapSet :: "('k \<times> 'v) list \<Rightarrow> 'k \<Rightarrow> 'v \<Rightarrow> ('k \<times> 'v) list" where
  "mapSet [] k v = [(k, v)]"
| "mapSet ((k', v') # rest) k v = (if k' = k then (k, v) # rest else (k', v') # mapSet rest k v)"

text \<open>The grouping of the violations by rule.\<close>

fun groupByRule :: "Violation list \<Rightarrow> (string \<times> Violation list) list \<Rightarrow> (string \<times> Violation list) list" where
  "groupByRule [] violationsByRule = violationsByRule"
| "groupByRule (v # rest) violationsByRule =
     groupByRule rest
       (mapSet violationsByRule (Warning.rule v)
          ((case map_of violationsByRule (Warning.rule v) of None \<Rightarrow> [] | Some l \<Rightarrow> l) @ [v]))"

definition skipped :: "CorrectionConfig \<Rightarrow> string \<Rightarrow> bool" where
  "skipped config r =
     ((case skipRules config of None \<Rightarrow> False | Some rs \<Rightarrow> r \<in> set rs) \<or>
      (case fixRules config of None \<Rightarrow> False | Some rs \<Rightarrow> r \<notin> set rs))"

text \<open>The loop over \<open>FIX_PATTERNS\<close>, threading \<open>corrected\<close> and \<open>appliedFixes\<close>.\<close>

fun applyPatterns :: "CorrectionConfig \<Rightarrow> (string \<times> Violation list) list \<Rightarrow> FixPattern list
    \<Rightarrow> string \<times> AppliedFix list \<Rightarrow> string \<times> AppliedFix list" where
  "applyPatterns config violationsByRule [] state = state"
| "applyPatterns config violationsByRule (p # ps) (text, applied) =
     (if skipped config (FixPattern.rule p) then applyPatterns config violationsByRule ps (text, applied)
      else case map_of violationsByRule (FixPattern.rule p) of
        None \<Rightarrow> applyPatterns config violationsByRule ps (text, applied)
      | Some affectedViolations \<Rightarrow>
          (let text' = replaceAll (ignoreCase p) (pattern p) (replacement p) text
           in if text \<noteq> text'
              then applyPatterns config violationsByRule ps
                     (text', applied @ map (\<lambda>v.
                        \<lparr>AppliedFix.rule = FixPattern.rule p, line = Warning.line v,
                          description = FixPattern.description p,
                          before = lineAt text (Warning.line v),
                          after = lineAt text' (Warning.line v)\<rparr>) affectedViolations)
              else applyPatterns config violationsByRule ps (text', applied)))"

text \<open>
  The loop over \<open>IMPORT_FIXES\<close>, threading \<open>corrected\<close>, \<open>appliedFixes\<close> and the set
  \<open>neededImports\<close> (in insertion order).
\<close>

fun addImports :: "(string \<times> string) list \<Rightarrow> string \<times> AppliedFix list \<times> string list
    \<Rightarrow> string \<times> AppliedFix list \<times> string list" where
  "addImports [] state = state"
| "addImports ((exceptionName, importStatement) # rest) (text, applied, neededImports) =
     (if strIncludes text exceptionName \<and> \<not> strIncludes text importStatement
      then (case rxMatch False rx_nestImport text of
              Some existingImport \<Rightarrow>
                (let imports = map trim (strSplit (CHR '','') (cap existingImport 1))
                 in if exceptionName \<notin> set imports
                    then (let merged = ''import { '' @ strJoin '', '' (imports @ [exceptionName])
                                         @ '' } from '@nestjs/common'' @ [CHR 0x27]
                          in addImports rest
                               (replaceString (mtext existingImport) merged text,
                                applied @ [\<lparr>AppliedFix.rule = ''INV-IMPORT'', line = 1,
                                   description = ''Add '' @ exceptionName @ '' to existing import'',
                                   before = mtext existingImport, after = merged\<rparr>],
                                neededImports))
                    else addImports rest (text, applied, neededImports))
            | None \<Rightarrow>
                addImports rest (text, applied,
                  if importStatement \<in> set neededImports then neededImports
                  else neededImports @ [importStatement]))
      else addImports rest (text, applied, neededImports))"

text \<open>\<open>Object.values(validators)\<close> run on one file: the violations of every validator.\<close>

definition allViolationsOf :: "string \<Rightarrow> string \<Rightarrow> Violation list" where
  "allViolationsOf fname content =
     concat (map (\<lambda>(key, validator).
        violations (validator \<lparr>files = [fname], fileContents = [(fname, content)]\<rparr>)) validators)"

text \<open>
  \<open>applyFixes\<close> up to its comment \<^verbatim>\<open>// Check for remaining violations\<close>: the corrected
  text and the applied fixes.
\<close>

definition fixText :: "string \<Rightarrow> Violation list \<Rightarrow> CorrectionConfig \<Rightarrow> string \<times> AppliedFix list" where
  "fixText content viols config =
     (let violationsByRule = groupByRule viols []
      in case applyPatterns config violationsByRule FIX_PATTERNS (content, []) of
        (text1, applied1) \<Rightarrow>
          (case addImports IMPORT_FIXES (text1, applied1, []) of
             (text2, applied2, neededImports) \<Rightarrow>
               (let importBlock = strJoin [newline] neededImports @ [newline]
                in if length neededImports > 0
                   then (importBlock @ text2,
                         applied2 @ [\<lparr>AppliedFix.rule = ''INV-IMPORT'', line = 1,
                            description = ''Add missing imports'',
                            before = [], after = trim importBlock\<rparr>])
                   else (text2, applied2))))"

definition applyFixes :: "string \<Rightarrow> Violation list \<Rightarrow> CorrectionConfig \<Rightarrow> CorrectionResult" where
  "applyFixes content viols config =
     (case fixText content viols config of
        (text, applied) \<Rightarrow>
          \<lparr>original = content, corrected = text, appliedFixes = applied,
            remainingViolations = allViolationsOf ''corrected.ts'' text\<rparr>)"

record CorrectionLoopResult =
  iterations :: int
  initialViolations :: nat
  finalViolations :: nat
  correctionHistory :: "CorrectionResult list"
  finalContent :: string
  success :: bool

text \<open>
  The \<open>while\<close> loop of \<open>runCorrectionLoop\<close> on the state \<open>(iterations, currentContent,
  allViolations, correctionHistory)\<close>. The \<open>break\<close> leaves the loop after the
  iteration has been counted and recorded, with the content and the violations
  unchanged.
\<close>

function correctionLoop :: "CorrectionConfig \<Rightarrow> int \<times> string \<times> Violation list \<times> CorrectionResult list
    \<Rightarrow> int \<times> string \<times> Violation list \<times> CorrectionResult list" where
  "correctionLoop config (iters, currentContent, allViolations, history) =
     (if of_int iters < maxIterations config \<and> length allViolations > 0
      then (let result = applyFixes currentContent allViolations config
            in if length (appliedFixes result) = 0
               then (iters + 1, currentContent, allViolations, history @ [result])
               else correctionLoop config
                      (iters + 1, corrected result, remainingViolations result, history @ [result]))
      else (iters, currentContent, allViolations, history))"
  by pat_completeness auto
termination
  by (relation "measure (\<lambda>(config, iters, s). nat \<lceil>maxIterations config - of_int iters\<rceil>)")
    (auto simp add: nat_less_iff, linarith)

definition runCorrectionLoop :: "string \<Rightarrow> CorrectionConfig \<Rightarrow> CorrectionLoopResult" where
  "runCorrectionLoop content config =
     (let allViolations = allViolationsOf ''file.ts'' content
      in case correctionLoop config (0, content, allViolations, []) of
        (iters, currentContent, remaining, history) \<Rightarrow>
          \<lparr>iterations = iters, initialViolations = length allViolations,
            finalViolations = length remaining, correctionHistory = history,
            finalContent = currentContent, success = (length remaining = 0)\<rparr>)"

definition defaultCorrectionConfig :: CorrectionConfig where
  "defaultCorrectionConfig =
     \<lparr>maxIterations = 3, autoFix = True, fixRules = None, skipRules = None\<rparr>"


section \<open>Auxiliary notions\<close>

text \<open>
  The correction engine reads the rule and the line of a violation and never its file
  name. \<open>relabel f\<close> replaces the file name; two lists of findings are \<open>alike\<close> when
  their violations differ in the file name at most.
\<close>

definition relabel :: "string \<Rightarrow> Violation \<Rightarrow> Violation" where
  "relabel f v = v\<lparr>Warning.file := f\<rparr>"

definition alike :: "string \<Rightarrow> findings \<Rightarrow> findings \<Rightarrow> bool" where
  "alike f a b = (fst b = map (relabel f) (fst a))"

definition relabelGroups :: "string \<Rightarrow> (string \<times> Violation list) list \<Rightarrow> (string \<times> Violation list) list" where
  "relabelGroups f groups = map (\<lambda>(k, vs). (k, map (relabel f) vs)) groups"




definition oneFile :: "string \<Rightarrow> string \<Rightarrow> ValidationContext" where
  "oneFile fname content = \<lparr>files = [fname], fileContents = [(fname, content)]\<rparr>"

text \<open>
  A text on which two successive passes of the fix patterns both change something: the
  first pass rewrites the inner \<open>throw\<close>, and the \<open>NotFound\<close> it writes is what the
  pattern finds, ignoring case, in the outer one on the second pass.
\<close>

definition nested :: string where
  "nested = ''throw new Error('throw new Error(' not found')''"

definition nested1 :: string where
  "nested1 = ''import { NotFoundException } from '@nestjs/common';\<newline>throw new Error('throw new NotFoundException(' not found')''"

definition nested2 :: string where
  "nested2 = ''import { NotFoundException } from '@nestjs/common';\<newline>throw new NotFoundException('throw new NotFoundException(')not found')''"

definition onePass :: CorrectionConfig where
  "onePass = \<lparr>maxIterations = 1, autoFix = True, fixRules = None, skipRules = None\<rparr>"


definition errorTypeAt :: "string \<Rightarrow> nat \<Rightarrow> Violation" where
  "errorTypeAt fname n = \<lparr>file = fname, line = n, rule = ''INV-ERROR-TYPE'',
     message = ''Using generic Error instead of NestJS exception.'',
     Violation.severity = medium,
     fix = Some ''Use NotFoundException, BadRequestException, etc.''\<rparr>"

text \<open>
  The text \<open>validateTransactions\<close> takes as the body of a function, from the \<open>async\<close> of
  its head up to the brace that closes the first brace opened after it; the tables of
  the mutations it finds there; and the bodies of all the functions of a file.
\<close>

definition funcBody :: "string \<Rightarrow> rmatch \<Rightarrow> string" where
  "funcBody content funcMatch =
     substring content (int (mindex funcMatch))
       (int (case funcEndFrom (drop (mindex funcMatch) content) (mindex funcMatch) False 0 of
               None \<Rightarrow> mindex funcMatch | Some i \<Rightarrow> i))"

definition uniqueTables :: "string \<Rightarrow> string list" where
  "uniqueTables body =
     remdups (map (\<lambda>mt. cap mt 1)
       (matchAll False (rx_prismaMutation ''create'') body @
        matchAll False (rx_prismaMutation ''update'') body @
        matchAll False (rx_prismaMutation ''delete'') body))"



text \<open>A log statement with sensitive data, and a generic throw that no fix pattern rewrites.\<close>

definition logsPassword :: string where
  "logsPassword = ''this.logger.log(password)''"

definition plainThrow :: string where
  "plainThrow = ''throw new Error('x')''"







section \<open>Properties of the numbers\<close>

lemma of_int_le_powi:
  "0 \<le> b \<Longrightarrow> 2 ^ nat b \<le> (p::int) \<Longrightarrow> (2::rat) powi b \<le> of_int p"
proof -
  assume b: "0 \<le> b" and "2 ^ nat b \<le> p"
  then have "(of_int (2 ^ nat b) :: rat) \<le> of_int p" by (simp only: of_int_le_iff)
  then show ?thesis using b by (simp add: power_int_def)
qed

lemma of_int_less_powi:
  "0 \<le> b \<Longrightarrow> (p::int) < 2 ^ nat b \<Longrightarrow> of_int p < (2::rat) powi b"
proof -
  assume b: "0 \<le> b" and "p < 2 ^ nat b"
  then have "(of_int p :: rat) < of_int (2 ^ nat b)" by (simp only: of_int_less_iff)
  then show ?thesis using b by (simp add: power_int_def)
qed

lemma exponentOf_bounds:
  assumes "0 < x"
  shows "2 powi exponentOf x \<le> x" and "x < 2 powi (exponentOf x + 1)"
proof -
  obtain p q where pq: "quotient_of x = (p, q)" by (cases "quotient_of x")
  then have q: "0 < q" and x: "x = of_int p / of_int q"
    by (rule quotient_of_denom_pos, rule quotient_of_div)
  with assms have p: "0 < p" by (simp add: zero_less_divide_iff)
  define d where "d = bitlen p - bitlen q"
  have lp: "1 \<le> bitlen p" and lq: "1 \<le> bitlen q"
    using p q by (simp_all add: bitlen_alt_def)
  have P: "(2::rat) powi (bitlen p - 1) \<le> of_int p" "of_int p < (2::rat) powi bitlen p"
    using bitlen_bounds [OF p] lp by (simp_all add: of_int_le_powi of_int_less_powi)
  have Q: "(2::rat) powi (bitlen q - 1) \<le> of_int q" "of_int q < (2::rat) powi bitlen q"
    using bitlen_bounds [OF q] lq by (simp_all add: of_int_le_powi of_int_less_powi)
  have qpos: "(0::rat) < of_int q" using q by simp
  have "2 powi (d - 1) * of_int q < (2::rat) powi (d - 1) * 2 powi bitlen q"
    using Q(2) by (simp add: mult_strict_left_mono)
  also have "\<dots> = 2 powi (bitlen p - 1)"
    by (simp add: d_def flip: power_int_add)
  also have "\<dots> \<le> of_int p" by (rule P(1))
  finally have lo: "2 powi (d - 1) < x"
    using qpos by (simp add: x pos_less_divide_eq)
  have "of_int p < (2::rat) powi bitlen p" by (rule P(2))
  also have "\<dots> = 2 powi (d + 1) * 2 powi (bitlen q - 1)"
    by (simp add: d_def flip: power_int_add)
  also have "\<dots> \<le> 2 powi (d + 1) * of_int q"
    using Q(1) by (simp add: mult_left_mono)
  finally have hi: "x < 2 powi (d + 1)"
    using qpos by (simp add: x pos_divide_less_eq)
  have e: "exponentOf x = (if 2 powi d \<le> x then d else d - 1)"
    by (simp add: exponentOf_def pq d_def Let_def)
  show "2 powi exponentOf x \<le> x" using lo by (simp add: e)
  show "x < 2 powi (exponentOf x + 1)" using hi by (auto simp add: e)
qed

lemma powi_less_imp_less:
  assumes "(2::rat) powi a < 2 powi b"
  shows "a < b"
proof (rule ccontr)
  assume "\<not> a < b"
  then have "b \<le> a" by simp
  then have "(2::rat) powi b \<le> 2 powi a" by (rule power_int_increasing) simp
  with assms show False by simp
qed

lemma exponentOf_unique:
  assumes "2 powi e \<le> x" and "x < 2 powi (e + 1)"
  shows "exponentOf x = e"
proof -
  have "(0::rat) < 2 powi e" by simp
  from this assms(1) have pos: "0 < x" by (rule less_le_trans)
  note b = exponentOf_bounds [OF pos]
  have "(2::rat) powi e < 2 powi (exponentOf x + 1)"
    using assms(1) b(2) by (rule le_less_trans)
  then have 1: "e < exponentOf x + 1" by (rule powi_less_imp_less)
  have "(2::rat) powi exponentOf x < 2 powi (e + 1)"
    using b(1) assms(2) by (rule le_less_trans)
  then have 2: "exponentOf x < e + 1" by (rule powi_less_imp_less)
  from 1 2 show ?thesis by simp
qed

lemma roundHalfEven_nearest:
  assumes "\<bar>y - of_int n\<bar> < 1 / 2"
  shows "roundHalfEven y = n"
proof (cases "of_int n \<le> y")
  case True
  with assms have f: "\<lfloor>y\<rfloor> = n" by (simp add: floor_eq_iff)
  show ?thesis using assms True by (simp add: roundHalfEven_def f)
next
  case False
  with assms have f: "\<lfloor>y\<rfloor> = n - 1" by (simp add: floor_eq_iff)
  show ?thesis using assms False by (simp add: roundHalfEven_def f)
qed

lemma roundHalfEven_tie:
  assumes "\<bar>y - of_int n\<bar> = 1 / 2" and "even n"
  shows "roundHalfEven y = n"
proof (cases "of_int n \<le> y")
  case True
  with assms have y: "y = of_int n + 1 / 2" by simp
  then have f: "\<lfloor>y\<rfloor> = n" by (simp add: floor_eq_iff)
  have r: "y - of_int n = 1 / 2" using y by simp
  show ?thesis
    unfolding roundHalfEven_def Let_def f r using assms(2) by simp
next
  case False
  with assms have y: "y = of_int n - 1 / 2" by simp
  then have f: "\<lfloor>y\<rfloor> = n - 1" by (simp add: floor_eq_iff)
  have r: "y - of_int (n - 1) = 1 / 2" using y by simp
  show ?thesis
    unfolding roundHalfEven_def Let_def f r using assms(2) by simp
qed

lemma roundHalfEven_ge:
  assumes "1 \<le> y"
  shows "1 \<le> roundHalfEven y"
proof -
  have "1 \<le> \<lfloor>y\<rfloor>" using assms by (simp add: le_floor_iff)
  then show ?thesis by (simp add: roundHalfEven_def Let_def)
qed

text \<open>Rounding, for a positive value in the normal range, from its exponent and its nearest integer significand.\<close>

lemma rnd_normal:
  assumes "2 powi e \<le> x" and "x < 2 powi (e + 1)" and "- 1022 \<le> e"
    and "\<bar>x / 2 powi (e - 52) - of_int n\<bar> < 1 / 2 \<or>
         \<bar>x / 2 powi (e - 52) - of_int n\<bar> = 1 / 2 \<and> even n"
    and "of_int n * 2 powi (e - 52) < (2::rat) powi 1024"
  shows "rnd x = Finite (of_int n * 2 powi (e - 52))"
proof -
  have "(0::rat) < 2 powi e" by simp
  from this assms(1) have pos: "0 < x" by (rule less_le_trans)
  then have a: "\<bar>x\<bar> = x" "x \<noteq> 0" by simp_all
  have e: "max (exponentOf x) (- 1022) = e"
    using assms(1,2,3) by (simp add: exponentOf_unique)
  have r: "roundHalfEven (x / 2 powi (e - 52)) = n"
    using assms(4) by (auto intro: roundHalfEven_nearest roundHalfEven_tie)
  have o: "\<not> (2::rat) powi 1024 \<le> of_int n * 2 powi (e - 52)"
    using assms(5) by (simp only: not_le)
  show ?thesis
    unfolding rnd_def Let_def a(1) e r
    by (simp only: a(2) o pos if_False if_True)
qed

lemma rnd_positive:
  assumes "2 powi (- 1074) \<le> x"
  shows "rnd x = PosInfinity \<or> (\<exists>r. rnd x = Finite r \<and> 0 < r)"
proof -
  have "(0::rat) < 2 powi (- 1074)" by (simp del: power_int_numeral_neg_numeral)
  from this assms have pos: "0 < x" by (rule less_le_trans)
  define e where "e = max (exponentOf x) (- 1022)"
  define quantum :: rat where "quantum = 2 powi (e - 52)"
  have qpos: "0 < quantum" by (simp add: quantum_def)
  have "quantum \<le> x"
  proof (cases "- 1022 \<le> exponentOf x")
    case True
    then have "e = exponentOf x" using pos by (simp add: e_def)
    then have "quantum \<le> 2 powi exponentOf x"
      by (simp add: quantum_def power_int_increasing)
    also have "\<dots> \<le> x" by (rule exponentOf_bounds(1) [OF pos])
    finally show ?thesis .
  next
    case False
    then have "e = - 1022" using pos by (simp add: e_def)
    then have "quantum = 2 powi (- 1074)" by (simp add: quantum_def del: power_int_numeral_neg_numeral)
    with assms show ?thesis by simp
  qed
  then have "1 \<le> x / quantum" using qpos by (simp add: pos_le_divide_eq)
  then have "1 \<le> roundHalfEven (x / quantum)" by (rule roundHalfEven_ge)
  then have "0 < (of_int (roundHalfEven (x / quantum)) :: rat) * quantum"
    using qpos by (simp add: zero_less_mult_iff)
  then have "0 < rat_of_int (roundHalfEven (x / 2 powi (max (exponentOf x) (- 1022) - 52))) *
      2 powi (max (exponentOf x) (- 1022) - 52)"
    unfolding quantum_def e_def .
  then show ?thesis
    using pos by (simp add: rnd_def Let_def del: power_int_numeral)
qed


text \<open>The roundings that the examples of the next section use, each from its exponent and significand.\<close>

lemma rnd_zero [simp]: "rnd 0 = Finite 0"
  by (simp add: rnd_def)

lemma rnd_1: "rnd (12980742146337070512478121581609 / 649037107316853453566312041152512) = Finite (1441151880758559 / 72057594037927936)"
  using rnd_normal [of "- 6" "12980742146337070512478121581609 / 649037107316853453566312041152512" 5764607523034236] by simp

lemma rnd_2: "rnd (3602879701896397 / 144115188075855872) = Finite (3602879701896397 / 144115188075855872)"
  using rnd_normal [of "- 6" "3602879701896397 / 144115188075855872" 7205759403792794] by simp

lemma rnd_3: "rnd (29206669829258407752355848084521 / 649037107316853453566312041152512) = Finite (6485183463413515 / 144115188075855872)"
  using rnd_normal [of "- 5" "29206669829258407752355848084521 / 649037107316853453566312041152512" 6485183463413515] by simp

lemma rnd_4: "rnd (6485183463413515 / 144115188075855872) = Finite (6485183463413515 / 144115188075855872)"
  using rnd_normal [of "- 5" "6485183463413515 / 144115188075855872" 6485183463413515] by simp

lemma rnd_5: "rnd (1 / 20) = Finite (3602879701896397 / 72057594037927936)"
  using rnd_normal [of "- 5" "1 / 20" 7205759403792794] by simp

lemma rnd_6: "rnd (3602879701896397 / 72057594037927936) = Finite (3602879701896397 / 72057594037927936)"
  using rnd_normal [of "- 5" "3602879701896397 / 72057594037927936" 7205759403792794] by simp

lemma rnd_7: "rnd (1 / 10) = Finite (3602879701896397 / 36028797018963968)"
  using rnd_normal [of "- 4" "1 / 10" 7205759403792794] by simp

lemma rnd_8: "rnd (1080863910568919 / 9007199254740992) = Finite (1080863910568919 / 9007199254740992)"
  using rnd_normal [of "- 4" "1080863910568919 / 9007199254740992" 8646911284551352] by simp

lemma rnd_9: "rnd (19471113219505603967277331424215 / 162259276829213363391578010288128) = Finite (1080863910568919 / 9007199254740992)"
  using rnd_normal [of "- 4" "19471113219505603967277331424215 / 162259276829213363391578010288128" 8646911284551352] by simp

lemma rnd_10: "rnd (5404319552844595 / 36028797018963968) = Finite (5404319552844595 / 36028797018963968)"
  using rnd_normal [of "- 3" "5404319552844595 / 36028797018963968" 5404319552844595] by simp

lemma rnd_11: "rnd (3 / 20) = Finite (5404319552844595 / 36028797018963968)"
  using rnd_normal [of "- 3" "3 / 20" 5404319552844595] by simp

lemma rnd_12: "rnd (12249790986447749 / 72057594037927936) = Finite (3062447746611937 / 18014398509481984)"
  using rnd_normal [of "- 3" "12249790986447749 / 72057594037927936" 6124895493223874] by simp

lemma rnd_13: "rnd (14411518807585587 / 72057594037927936) = Finite (3602879701896397 / 18014398509481984)"
  using rnd_normal [of "- 3" "14411518807585587 / 72057594037927936" 7205759403792794] by simp

lemma rnd_14: "rnd (1 / 5) = Finite (3602879701896397 / 18014398509481984)"
  using rnd_normal [of "- 3" "1 / 5" 7205759403792794] by simp

lemma rnd_15: "rnd (1080863910568919 / 4503599627370496) = Finite (1080863910568919 / 4503599627370496)"
  using rnd_normal [of "- 3" "1080863910568919 / 4503599627370496" 8646911284551352] by simp

lemma rnd_16: "rnd (5404319552844595 / 18014398509481984) = Finite (5404319552844595 / 18014398509481984)"
  using rnd_normal [of "- 2" "5404319552844595 / 18014398509481984" 5404319552844595] by simp

lemma rnd_17: "rnd (2 / 5) = Finite (3602879701896397 / 9007199254740992)"
  using rnd_normal [of "- 2" "2 / 5" 7205759403792794] by simp

lemma rnd_18: "rnd (1 / 2) = Finite (1 / 2)"
  using rnd_normal [of "- 1" "1 / 2" 4503599627370496] by simp

lemma rnd_19: "rnd (3 / 5) = Finite (5404319552844595 / 9007199254740992)"
  using rnd_normal [of "- 1" "3 / 5" 5404319552844595] by simp

lemma rnd_20: "rnd (7 / 10) = Finite (3152519739159347 / 4503599627370496)"
  using rnd_normal [of "- 1" "7 / 10" 6305039478318694] by simp

lemma rnd_21: "rnd (7499999999999999 / 10000000000000000) = Finite (6755399441055743 / 9007199254740992)"
  using rnd_normal [of "- 1" "7499999999999999 / 10000000000000000" 6755399441055743] by simp

lemma rnd_22: "rnd (5404319552844595 / 7205759403792794) = Finite (6755399441055743 / 9007199254740992)"
  using rnd_normal [of "- 1" "5404319552844595 / 7205759403792794" 6755399441055743] by simp

lemma rnd_23: "rnd (4 / 5) = Finite (3602879701896397 / 4503599627370496)"
  using rnd_normal [of "- 1" "4 / 5" 7205759403792794] by simp

lemma rnd_24: "rnd (3062447746611937 / 3602879701896397) = Finite (3828059683264921 / 4503599627370496)"
  using rnd_normal [of "- 1" "3062447746611937 / 3602879701896397" 7656119366529842] by simp

lemma rnd_25: "rnd (8499999999999999 / 10000000000000000) = Finite (3828059683264921 / 4503599627370496)"
  using rnd_normal [of "- 1" "8499999999999999 / 10000000000000000" 7656119366529842] by simp

lemma rnd_26: "rnd (17 / 20) = Finite (7656119366529843 / 9007199254740992)"
  using rnd_normal [of "- 1" "17 / 20" 7656119366529843] by simp

lemma rnd_27: "rnd (9 / 10) = Finite (8106479329266893 / 9007199254740992)"
  using rnd_normal [of "- 1" "9 / 10" 8106479329266893] by simp

lemma rnd_28: "rnd (6485183463413515 / 7205759403792794) = Finite (8106479329266893 / 9007199254740992)"
  using rnd_normal [of "- 1" "6485183463413515 / 7205759403792794" 8106479329266893] by simp

lemma rnd_29: "rnd (19 / 20) = Finite (4278419646001971 / 4503599627370496)"
  using rnd_normal [of "- 1" "19 / 20" 8556839292003942] by simp

lemma rnd_30: "rnd (1) = Finite (1)"
  using rnd_normal [of "0" "1" 4503599627370496] by simp

lemmas roundings = rnd_1 rnd_2 rnd_3 rnd_4 rnd_5 rnd_6 rnd_7 rnd_8 rnd_9 rnd_10 rnd_11 rnd_12 rnd_13 rnd_14 rnd_15 rnd_16 rnd_17 rnd_18 rnd_19 rnd_20 rnd_21 rnd_22 rnd_23 rnd_24 rnd_25 rnd_26 rnd_27 rnd_28 rnd_29 rnd_30

section \<open>Properties of scoring and gating\<close>

lemma weightedLoop_folds:
  "weightedLoop ms scores (a, b) =
     (foldl numAdd a (map (\<lambda>m. numMul (the (map_of scores (MetricDefinition.name m))) (weight m))
        (filter (\<lambda>m. map_of scores (MetricDefinition.name m) \<noteq> None) ms)),
      foldl numAdd b (map weight (filter (\<lambda>m. map_of scores (MetricDefinition.name m) \<noteq> None) ms)))"
  by (induction ms arbitrary: a b) (auto split: option.splits)

lemma weightedLoop_spec:
  "weightedLoop METRIC_DEFINITIONS scores (Finite 0, Finite 0) = (specNumerator scores, specDenominator scores)"
  by (simp add: weightedLoop_folds specNumerator_def specDenominator_def evaluated_def)

text \<open>Every weight is a finite number, not below \<open>1/32\<close>.\<close>

lemma weights_positive:
  assumes "m \<in> set METRIC_DEFINITIONS"
  shows "\<exists>w. weight m = Finite w \<and> 1 / 32 \<le> w"
proof -
  have "\<forall>m\<in>set METRIC_DEFINITIONS. case weight m of Finite w \<Rightarrow> 1 / 32 \<le> w | _ \<Rightarrow> False"
    by (simp add: METRIC_DEFINITIONS_def lit_def roundings)
  with assms show ?thesis by (cases "weight m") auto
qed

lemma numAdd_positive:
  assumes "acc = PosInfinity \<or> (\<exists>a. acc = Finite a \<and> 0 \<le> a)" and "1 / 32 \<le> w"
  shows "numAdd acc (Finite w) = PosInfinity \<or> (\<exists>r. numAdd acc (Finite w) = Finite r \<and> 0 < r)"
  using assms(1)
proof
  assume "acc = PosInfinity"
  then show ?thesis by simp
next
  assume "\<exists>a. acc = Finite a \<and> 0 \<le> a"
  then obtain a where a: "acc = Finite a" "0 \<le> a" by blast
  have "(2::rat) powi (- 1074) \<le> 1 / 32" by simp
  also have "\<dots> \<le> a + w" using a(2) assms(2) by simp
  finally show ?thesis unfolding a(1) numAdd.simps by (rule rnd_positive)
qed

lemma weightSum_stays_positive:
  assumes "\<forall>m\<in>set ms. \<exists>w. weight m = Finite w \<and> 1 / 32 \<le> w"
    and "acc = PosInfinity \<or> (\<exists>a. acc = Finite a \<and> 0 < a)"
  shows "foldl numAdd acc (map weight ms) = PosInfinity \<or>
    (\<exists>r. foldl numAdd acc (map weight ms) = Finite r \<and> 0 < r)"
  using assms
proof (induction ms arbitrary: acc)
  case Nil
  then show ?case by simp
next
  case (Cons m ms)
  from Cons.prems(1) obtain w where w: "weight m = Finite w" "1 / 32 \<le> w" by auto
  from Cons.prems(2) have "acc = PosInfinity \<or> (\<exists>a. acc = Finite a \<and> 0 \<le> a)" by auto
  then have "numAdd acc (Finite w) = PosInfinity \<or> (\<exists>r. numAdd acc (Finite w) = Finite r \<and> 0 < r)"
    using w(2) by (rule numAdd_positive)
  with Cons.IH [of "numAdd acc (Finite w)"] Cons.prems(1) show ?case by (simp add: w(1))
qed

lemma weightSum_positive:
  assumes "\<forall>m\<in>set ms. \<exists>w. weight m = Finite w \<and> 1 / 32 \<le> w" and "ms \<noteq> []"
  shows "numLess (Finite 0) (foldl numAdd (Finite 0) (map weight ms))"
proof -
  from assms(2) obtain m ms' where ms: "ms = m # ms'" by (cases ms) auto
  from assms(1) obtain w where w: "weight m = Finite w" "1 / 32 \<le> w" by (auto simp: ms)
  have "numAdd (Finite 0) (Finite w) = PosInfinity \<or>
      (\<exists>r. numAdd (Finite 0) (Finite w) = Finite r \<and> 0 < r)"
    by (rule numAdd_positive [OF _ w(2)]) simp
  with weightSum_stays_positive [of ms' "numAdd (Finite 0) (Finite w)"] assms(1)
  have "foldl numAdd (Finite 0) (map weight ms) = PosInfinity \<or>
    (\<exists>r. foldl numAdd (Finite 0) (map weight ms) = Finite r \<and> 0 < r)"
    by (simp add: ms w(1))
  then show ?thesis by auto
qed

lemma specDenominator_pos_iff:
  "numLess (Finite 0) (specDenominator scores) \<longleftrightarrow> evaluated scores \<noteq> []"
proof
  assume "numLess (Finite 0) (specDenominator scores)"
  then show "evaluated scores \<noteq> []" by (auto simp: specDenominator_def)
next
  assume ne: "evaluated scores \<noteq> []"
  have "\<forall>m\<in>set (evaluated scores). \<exists>w. weight m = Finite w \<and> 1 / 32 \<le> w"
    using weights_positive by (auto simp add: evaluated_def)
  then show "numLess (Finite 0) (specDenominator scores)"
    unfolding specDenominator_def using ne by (rule weightSum_positive)
qed

lemma lit_one: "lit 1 = Finite 1"
  by (simp add: lit_def roundings)

lemma calculateWeightedScore_cases:
  "calculateWeightedScore scores =
     (if evaluated scores = [] then Finite 1
      else numDiv (specNumerator scores) (specDenominator scores))"
  by (simp add: calculateWeightedScore_def weightedLoop_spec specDenominator_pos_iff lit_one)

lemma calculateWeightedScore_cong:
  "map_of xs = map_of ys \<Longrightarrow> calculateWeightedScore xs = calculateWeightedScore ys"
  by (simp add: calculateWeightedScore_def weightedLoop_folds)

lemma blockingLoop_find:
  "blockingLoop ms scores =
     (case find (\<lambda>m. case map_of scores (MetricDefinition.name m) of Some s \<Rightarrow> numLess s (fail (thresholds m)) | None \<Rightarrow> False) ms of
        None \<Rightarrow> None
      | Some m \<Rightarrow> Some \<lparr>GatingResult.passed = False,
          reason = Some (BlockingMetric (displayName m) (the (map_of scores (MetricDefinition.name m))) (fail (thresholds m)))\<rparr>)"
  by (induction ms) (auto split: option.splits)

lemma find_filter_conj: "find P (filter Q xs) = find (\<lambda>x. Q x \<and> P x) xs"
  by (induction xs) auto

lemma blockingLoop_getBlockingMetrics:
  "blockingLoop getBlockingMetrics scores =
     (case find (failsThreshold scores) METRIC_DEFINITIONS of
        None \<Rightarrow> None
      | Some m \<Rightarrow> Some \<lparr>GatingResult.passed = False,
          reason = Some (BlockingMetric (displayName m) (the (map_of scores (MetricDefinition.name m))) (fail (thresholds m)))\<rparr>)"
  by (simp add: blockingLoop_find getBlockingMetrics_def find_filter_conj failsThreshold_def [abs_def])

lemma evaluateGating_chain:
  "evaluateGating scores blockerCount warningCount config =
     (if blockOnBlockers config \<and> blockerCount > maxBlockers config
      then \<lparr>GatingResult.passed = False, reason = Some (BlockingViolations blockerCount (maxBlockers config))\<rparr>
      else if failOnWarnings config \<and> warningCount > maxWarnings config
      then \<lparr>GatingResult.passed = False, reason = Some (WarningCount warningCount (maxWarnings config))\<rparr>
      else case find (failsThreshold scores) METRIC_DEFINITIONS of
        Some m \<Rightarrow> \<lparr>GatingResult.passed = False,
          reason = Some (BlockingMetric (displayName m) (the (map_of scores (MetricDefinition.name m))) (fail (thresholds m)))\<rparr>
      | None \<Rightarrow>
          if numLess (calculateWeightedScore scores) (minimumScore config)
          then \<lparr>GatingResult.passed = False,
                 reason = Some (TotalScore (calculateWeightedScore scores) (minimumScore config))\<rparr>
          else \<lparr>GatingResult.passed = True, reason = None\<rparr>)"
  by (simp add: evaluateGating_def blockingLoop_getBlockingMetrics Let_def split: option.splits)

lemma find_failing_metric:
  "\<exists>m\<in>set ms. P m \<Longrightarrow> \<exists>m\<in>set ms. P m \<and> find P ms = Some m"
  by (induction ms) auto

lemma find_no_failing_metric: "\<forall>m\<in>set ms. \<not> P m \<Longrightarrow> find P ms = None"
  by (induction ms) auto

text \<open>What \<open>find\<close> returns is the first element with the property.\<close>

lemma find_first:
  "find P ms = Some m \<Longrightarrow>
   \<exists>before after. ms = before @ m # after \<and> (\<forall>m'\<in>set before. \<not> P m') \<and> P m"
proof (induction ms)
  case Nil
  then show ?case by simp
next
  case (Cons a ms)
  show ?case
  proof (cases "P a")
    case True
    with Cons.prems have "a = m" by simp
    with True have "a # ms = [] @ m # ms \<and> (\<forall>m'\<in>set []. \<not> P m') \<and> P m" by simp
    then show ?thesis by blast
  next
    case False
    with Cons.prems have "find P ms = Some m" by simp
    from Cons.IH [OF this] obtain before after
      where "ms = before @ m # after" "\<forall>m'\<in>set before. \<not> P m'" "P m" by blast
    with False have "a # ms = (a # before) @ m # after \<and> (\<forall>m'\<in>set (a # before). \<not> P m') \<and> P m"
      by simp
    then show ?thesis by blast
  qed
qed

text \<open>The values of the aggregate that the examples below use, operation by operation.\<close>

lemma aggregate_codeQuality_half: "calculateWeightedScore [(''code-quality'', lit 0.5)] = lit 0.5"
  by (simp add: calculateWeightedScore_def METRIC_DEFINITIONS_def lit_def roundings)

lemma aggregate_codeQuality_nine: "calculateWeightedScore [(''code-quality'', lit 0.9)] = lit 0.9"
  by (simp add: calculateWeightedScore_def METRIC_DEFINITIONS_def lit_def roundings)

lemma aggregate_prismaQueries: "calculateWeightedScore [(''prisma-queries'', lit 0.80)] = lit 0.80"
  by (simp add: calculateWeightedScore_def METRIC_DEFINITIONS_def lit_def roundings)

lemma aggregate_supabaseAuth: "calculateWeightedScore [(''supabase-auth'', lit 0.80)] = lit 0.80"
  by (simp add: calculateWeightedScore_def METRIC_DEFINITIONS_def lit_def roundings)

lemma aggregate_two_blocking:
  "calculateWeightedScore [(''tenant-isolation'', lit 0.80), (''supabase-auth'', lit 0.80)] = lit 0.80"
  by (simp add: calculateWeightedScore_def METRIC_DEFINITIONS_def lit_def roundings)

lemma aggregate_three_quarters:
  "calculateWeightedScore [(''supabase-auth'', Finite 1), (''general-best-practices'', Finite 0),
     (''audit-logging'', Finite 0)] = lit 0.7499999999999999"
  by (simp add: calculateWeightedScore_def METRIC_DEFINITIONS_def lit_def roundings)

text \<open>
  The aggregate is that of the numbers. A perfect \<open>supabase-auth\<close> and an
  \<open>audit-logging\<close> score of \<open>0.4\<close> have the exact aggregate \<open>0.85\<close>, the minimum of the
  default configuration; the rounded one is \<open>0.8499999999999999\<close>, and the verdict is a
  failure.
\<close>

lemma aggregate_rounded_below_minimum:
  "calculateWeightedScore [(''supabase-auth'', lit 1.0), (''audit-logging'', lit 0.4)]
     = lit 0.8499999999999999 \<and>
   evaluateGating [(''supabase-auth'', lit 1.0), (''audit-logging'', lit 0.4)] 0 0 DEFAULT_GATING_CONFIG
     = \<lparr>GatingResult.passed = False, reason = Some (TotalScore (lit 0.8499999999999999) (lit 0.85))\<rparr>"
proof -
  let ?s = "[(''supabase-auth'', lit 1.0), (''audit-logging'', lit 0.4)] :: scoreMap"
  have a: "calculateWeightedScore ?s = lit 0.8499999999999999"
    by (simp add: calculateWeightedScore_def METRIC_DEFINITIONS_def lit_def roundings)
  have f: "find (failsThreshold ?s) METRIC_DEFINITIONS = None"
    by (simp add: METRIC_DEFINITIONS_def failsThreshold_def lit_def roundings)
  have l: "numLess (lit 0.8499999999999999) (lit 0.85)"
    by (simp add: lit_def roundings)
  show ?thesis
    unfolding evaluateGating_chain f a using l by (simp add: DEFAULT_GATING_CONFIG_def a)
qed

text \<open>
  Claim C1. \<open>evaluateGating\<close> checks its conditions in a fixed order and the first
  failing check determines the result: (1) the blocker count, when \<open>blockOnBlockers\<close>
  is set; (2) the warning count, when \<open>failOnWarnings\<close> is set; (3) the blocking
  metrics, in the order of \<open>METRIC_DEFINITIONS\<close>: the first one whose score is present
  and below its \<open>fail\<close> threshold is named in the reason, with that score; (4) the
  aggregate weighted score against \<open>minimumScore\<close>; (5) otherwise the verdict is a pass
  without a reason. Identical inputs give the identical reason.
\<close>

theorem evaluateGating_fixed_order:
  fixes scores :: scoreMap and config :: GatingConfig
  shows
  "(blockOnBlockers config \<and> blockerCount > maxBlockers config \<longrightarrow>
      evaluateGating scores blockerCount warningCount config =
        \<lparr>GatingResult.passed = False, reason = Some (BlockingViolations blockerCount (maxBlockers config))\<rparr>)
   \<and> (\<not> (blockOnBlockers config \<and> blockerCount > maxBlockers config) \<and>
      failOnWarnings config \<and> warningCount > maxWarnings config \<longrightarrow>
      evaluateGating scores blockerCount warningCount config =
        \<lparr>GatingResult.passed = False, reason = Some (WarningCount warningCount (maxWarnings config))\<rparr>)
   \<and> (\<not> (blockOnBlockers config \<and> blockerCount > maxBlockers config) \<and>
      \<not> (failOnWarnings config \<and> warningCount > maxWarnings config) \<and>
      (\<exists>m\<in>set METRIC_DEFINITIONS. failsThreshold scores m) \<longrightarrow>
      (\<exists>m\<in>set METRIC_DEFINITIONS. \<exists>s. blockOnFail m \<and> map_of scores (MetricDefinition.name m) = Some s \<and>
         numLess s (fail (thresholds m)) \<and>
         find (failsThreshold scores) METRIC_DEFINITIONS = Some m \<and>
         evaluateGating scores blockerCount warningCount config =
           \<lparr>GatingResult.passed = False,
             reason = Some (BlockingMetric (displayName m) s (fail (thresholds m)))\<rparr>))
   \<and> (\<not> (blockOnBlockers config \<and> blockerCount > maxBlockers config) \<and>
      \<not> (failOnWarnings config \<and> warningCount > maxWarnings config) \<and>
      (\<forall>m\<in>set METRIC_DEFINITIONS. \<not> failsThreshold scores m) \<and>
      numLess (calculateWeightedScore scores) (minimumScore config) \<longrightarrow>
      evaluateGating scores blockerCount warningCount config =
        \<lparr>GatingResult.passed = False,
          reason = Some (TotalScore (calculateWeightedScore scores) (minimumScore config))\<rparr>)
   \<and> (\<not> (blockOnBlockers config \<and> blockerCount > maxBlockers config) \<and>
      \<not> (failOnWarnings config \<and> warningCount > maxWarnings config) \<and>
      (\<forall>m\<in>set METRIC_DEFINITIONS. \<not> failsThreshold scores m) \<and>
      \<not> numLess (calculateWeightedScore scores) (minimumScore config) \<longrightarrow>
      evaluateGating scores blockerCount warningCount config = \<lparr>GatingResult.passed = True, reason = None\<rparr>)
   \<and> (scores' = scores \<and> blockerCount' = blockerCount \<and> warningCount' = warningCount \<and>
      config' = config \<longrightarrow>
      reason (evaluateGating scores' blockerCount' warningCount' config') =
      reason (evaluateGating scores blockerCount warningCount config))"
proof -
  let ?c1 = "blockOnBlockers config \<and> blockerCount > maxBlockers config"
  let ?c2 = "failOnWarnings config \<and> warningCount > maxWarnings config"
  let ?r = "evaluateGating scores blockerCount warningCount config"
  have blocking: "\<exists>m\<in>set METRIC_DEFINITIONS. \<exists>s. blockOnFail m \<and> map_of scores (MetricDefinition.name m) = Some s \<and>
         numLess s (fail (thresholds m)) \<and>
         find (failsThreshold scores) METRIC_DEFINITIONS = Some m \<and>
         ?r = \<lparr>GatingResult.passed = False,
             reason = Some (BlockingMetric (displayName m) s (fail (thresholds m)))\<rparr>"
    if n1: "\<not> ?c1" and n2: "\<not> ?c2" and ex: "\<exists>m\<in>set METRIC_DEFINITIONS. failsThreshold scores m"
  proof -
    from find_failing_metric [OF ex] obtain m where
      m: "m \<in> set METRIC_DEFINITIONS" "failsThreshold scores m"
         "find (failsThreshold scores) METRIC_DEFINITIONS = Some m"
      by blast
    from m(2) obtain s where s: "blockOnFail m" "map_of scores (MetricDefinition.name m) = Some s"
        "numLess s (fail (thresholds m))"
      by (auto simp: failsThreshold_def split: option.splits)
    have "?r = \<lparr>GatingResult.passed = False,
             reason = Some (BlockingMetric (displayName m) s (fail (thresholds m)))\<rparr>"
      using n1 n2 m(3) s(2) by (simp add: evaluateGating_chain)
    with m s show ?thesis by blast
  qed
  have none: "find (failsThreshold scores) METRIC_DEFINITIONS = None"
    if "\<forall>m\<in>set METRIC_DEFINITIONS. \<not> failsThreshold scores m"
    using that by (rule find_no_failing_metric)
  show ?thesis
    using blocking none by (simp add: evaluateGating_chain)
qed


text \<open>One concrete call for each of the five outcomes.\<close>

theorem evaluateGating_fixed_order_witness:
  "evaluateGating [(''transactions'', lit 0.5)] 3 7 STRICT_GATING_CONFIG =
     \<lparr>GatingResult.passed = False, reason = Some (BlockingViolations 3 0)\<rparr>
   \<and> evaluateGating [(''transactions'', lit 0.5)] 0 7 STRICT_GATING_CONFIG =
     \<lparr>GatingResult.passed = False, reason = Some (WarningCount 7 0)\<rparr>
   \<and> evaluateGating [(''code-quality'', lit 0.1), (''transactions'', lit 0.5), (''api-design'', lit 0.2)] 0 7
       DEFAULT_GATING_CONFIG =
     \<lparr>GatingResult.passed = False, reason = Some (BlockingMetric ''Transaction Compliance'' (lit 0.5) (lit 0.8))\<rparr>
   \<and> evaluateGating [(''code-quality'', lit 0.5)] 0 7 DEFAULT_GATING_CONFIG =
     \<lparr>GatingResult.passed = False, reason = Some (TotalScore (lit 0.5) (lit 0.85))\<rparr>
   \<and> evaluateGating [(''code-quality'', lit 0.9)] 0 7 DEFAULT_GATING_CONFIG =
     \<lparr>GatingResult.passed = True, reason = None\<rparr>"
proof -
  let ?s1 = "[(''transactions'', lit 0.5)] :: scoreMap"
  let ?s3 = "[(''code-quality'', lit 0.1), (''transactions'', lit 0.5), (''api-design'', lit 0.2)] :: scoreMap"
  let ?s4 = "[(''code-quality'', lit 0.5)] :: scoreMap"
  let ?s5 = "[(''code-quality'', lit 0.9)] :: scoreMap"
  note t = evaluateGating_fixed_order
  have w1: "evaluateGating ?s1 3 7 STRICT_GATING_CONFIG =
     \<lparr>GatingResult.passed = False, reason = Some (BlockingViolations 3 0)\<rparr>"
    using t [of STRICT_GATING_CONFIG 3 ?s1 7, THEN conjunct1]
    by (simp add: STRICT_GATING_CONFIG_def)
  have w2: "evaluateGating ?s1 0 7 STRICT_GATING_CONFIG =
     \<lparr>GatingResult.passed = False, reason = Some (WarningCount 7 0)\<rparr>"
    using t [of STRICT_GATING_CONFIG 0 ?s1 7, THEN conjunct2, THEN conjunct1]
    by (simp add: STRICT_GATING_CONFIG_def)
  have f3: "find (failsThreshold ?s3) METRIC_DEFINITIONS =
      Some \<lparr>MetricDefinition.name = ''transactions'', displayName = ''Transaction Compliance'', weight = lit 0.10,
        blockOnFail = True, thresholds = \<lparr>pass = lit 1.0, warn = lit 0.9, fail = lit 0.8\<rparr>\<rparr>"
    by (simp add: METRIC_DEFINITIONS_def failsThreshold_def lit_def roundings)
  have e3: "\<exists>m\<in>set METRIC_DEFINITIONS. failsThreshold ?s3 m"
    by (simp add: METRIC_DEFINITIONS_def failsThreshold_def lit_def roundings)
  have p3: "\<not> (blockOnBlockers DEFAULT_GATING_CONFIG \<and> 0 > maxBlockers DEFAULT_GATING_CONFIG) \<and>
      \<not> (failOnWarnings DEFAULT_GATING_CONFIG \<and> 7 > maxWarnings DEFAULT_GATING_CONFIG)"
    by (simp add: DEFAULT_GATING_CONFIG_def)
  from t [of DEFAULT_GATING_CONFIG 0 ?s3 7, THEN conjunct2, THEN conjunct2, THEN conjunct1] p3 e3
  obtain m s where ms: "map_of ?s3 (MetricDefinition.name m) = Some s"
      "find (failsThreshold ?s3) METRIC_DEFINITIONS = Some m"
      "evaluateGating ?s3 0 7 DEFAULT_GATING_CONFIG =
         \<lparr>GatingResult.passed = False, reason = Some (BlockingMetric (displayName m) s (fail (thresholds m)))\<rparr>"
    by blast
  from ms(2) f3 have m: "m = \<lparr>MetricDefinition.name = ''transactions'', displayName = ''Transaction Compliance'',
        weight = lit 0.10, blockOnFail = True, thresholds = \<lparr>pass = lit 1.0, warn = lit 0.9, fail = lit 0.8\<rparr>\<rparr>"
    by simp
  from ms(1) have s: "s = lit 0.5" unfolding m by simp
  have w3: "evaluateGating ?s3 0 7 DEFAULT_GATING_CONFIG =
     \<lparr>GatingResult.passed = False, reason = Some (BlockingMetric ''Transaction Compliance'' (lit 0.5) (lit 0.8))\<rparr>"
    using ms(3) unfolding m s by simp
  have n4: "\<forall>m\<in>set METRIC_DEFINITIONS. \<not> failsThreshold ?s4 m"
    and n5: "\<forall>m\<in>set METRIC_DEFINITIONS. \<not> failsThreshold ?s5 m"
    by (simp_all add: METRIC_DEFINITIONS_def failsThreshold_def)
  have l4: "numLess (lit 0.5) (minimumScore DEFAULT_GATING_CONFIG)"
    and l5: "\<not> numLess (lit 0.9) (minimumScore DEFAULT_GATING_CONFIG)"
    by (simp_all add: DEFAULT_GATING_CONFIG_def lit_def roundings)
  have m4: "minimumScore DEFAULT_GATING_CONFIG = lit 0.85"
    by (simp add: DEFAULT_GATING_CONFIG_def)
  have w4: "evaluateGating ?s4 0 7 DEFAULT_GATING_CONFIG =
     \<lparr>GatingResult.passed = False, reason = Some (TotalScore (lit 0.5) (lit 0.85))\<rparr>"
    using t [of DEFAULT_GATING_CONFIG 0 ?s4 7,
        THEN conjunct2, THEN conjunct2, THEN conjunct2, THEN conjunct1] p3 n4 l4
    unfolding aggregate_codeQuality_half m4 by blast
  have w5: "evaluateGating ?s5 0 7 DEFAULT_GATING_CONFIG =
     \<lparr>GatingResult.passed = True, reason = None\<rparr>"
    using t [of DEFAULT_GATING_CONFIG 0 ?s5 7,
        THEN conjunct2, THEN conjunct2, THEN conjunct2, THEN conjunct2, THEN conjunct1] p3 n5 l5
    unfolding aggregate_codeQuality_nine by blast
  from w1 w2 w3 w4 w5 show ?thesis by blast
qed


text \<open>
  Claim C2, as amended. When at least one metric of \<open>METRIC_DEFINITIONS\<close> has a score
  in the map, \<open>calculateWeightedScore\<close> is the sum of \<open>score \<times> weight\<close> over exactly
  those metrics divided by the (positive) sum of their weights, in the arithmetic of
  JavaScript numbers: both sums are accumulated from \<open>0\<close> in the order of
  \<open>METRIC_DEFINITIONS\<close>, and every product, sum and the quotient are rounded. When no
  metric has a score, the quotient is \<open>0 / 0\<close> and the result is \<open>1\<close> instead. The
  result does not depend on the order in which the entries were inserted.
\<close>

theorem calculateWeightedScore_normalized:
  "(evaluated scores \<noteq> [] \<longrightarrow>
      numLess (Finite 0) (specDenominator scores) \<and>
      calculateWeightedScore scores = numDiv (specNumerator scores) (specDenominator scores))
   \<and> (evaluated scores = [] \<longrightarrow> calculateWeightedScore scores = Finite 1)
   \<and> (distinct (map fst scores) \<and> distinct (map fst scores') \<and> set scores' = set scores \<longrightarrow>
      calculateWeightedScore scores' = calculateWeightedScore scores)"
proof (intro conjI impI)
  assume "evaluated scores \<noteq> []"
  then show "numLess (Finite 0) (specDenominator scores)" by (simp add: specDenominator_pos_iff)
next
  assume "evaluated scores \<noteq> []"
  then show "calculateWeightedScore scores = numDiv (specNumerator scores) (specDenominator scores)"
    by (simp add: calculateWeightedScore_cases)
next
  assume "evaluated scores = []"
  then show "calculateWeightedScore scores = Finite 1" by (simp add: calculateWeightedScore_cases)
next
  assume "distinct (map fst scores) \<and> distinct (map fst scores') \<and> set scores' = set scores"
  then have "map_of scores' = map_of scores" by (simp add: map_of_inject_set)
  then show "calculateWeightedScore scores' = calculateWeightedScore scores"
    by (rule calculateWeightedScore_cong)
qed

text \<open>
  A perfect \<open>supabase-auth\<close> and a zero \<open>audit-logging\<close>, in two insertion orders, with an
  entry that is no metric: \<open>(0 + 1 \<times> 0.15 + 0 \<times> 0.05) / (0 + 0.15 + 0.05)\<close> is
  \<open>0.7499999999999999\<close> in the arithmetic of numbers.
\<close>

theorem calculateWeightedScore_normalized_witness:
  "specNumerator [(''supabase-auth'', Finite 1), (''general-best-practices'', Finite 0),
     (''audit-logging'', Finite 0)] = lit 0.15
   \<and> specDenominator [(''supabase-auth'', Finite 1), (''general-best-practices'', Finite 0),
     (''audit-logging'', Finite 0)] = lit 0.2
   \<and> numDiv (lit 0.15) (lit 0.2) = lit 0.7499999999999999
   \<and> calculateWeightedScore [(''supabase-auth'', Finite 1), (''general-best-practices'', Finite 0),
     (''audit-logging'', Finite 0)] = lit 0.7499999999999999
   \<and> calculateWeightedScore [(''audit-logging'', Finite 0), (''supabase-auth'', Finite 1),
     (''general-best-practices'', Finite 0)] = lit 0.7499999999999999
   \<and> calculateWeightedScore [(''general-best-practices'', Finite 0)] = Finite 1"
proof -
  let ?a = "[(''supabase-auth'', Finite 1), (''general-best-practices'', Finite 0),
     (''audit-logging'', Finite 0)] :: scoreMap"
  let ?b = "[(''audit-logging'', Finite 0), (''supabase-auth'', Finite 1),
     (''general-best-practices'', Finite 0)] :: scoreMap"
  let ?c = "[(''general-best-practices'', Finite 0)] :: scoreMap"
  note t = calculateWeightedScore_normalized
  have ev: "evaluated ?a \<noteq> []" by (simp add: evaluated_def METRIC_DEFINITIONS_def)
  have num: "specNumerator ?a = lit 0.15" and den: "specDenominator ?a = lit 0.2"
    by (simp_all add: specNumerator_def specDenominator_def evaluated_def METRIC_DEFINITIONS_def
        lit_def roundings)
  have q: "numDiv (lit 0.15) (lit 0.2) = lit 0.7499999999999999"
    by (simp add: lit_def roundings)
  have wa: "calculateWeightedScore ?a = lit 0.7499999999999999"
    using t [of ?a ?a, THEN conjunct1] ev unfolding num den q by blast
  have "distinct (map fst ?a) \<and> distinct (map fst ?b) \<and> set ?b = set ?a" by auto
  with t [of ?a ?b, THEN conjunct2, THEN conjunct2]
  have wb: "calculateWeightedScore ?b = calculateWeightedScore ?a" by blast
  have "evaluated ?c = []" by (simp add: evaluated_def METRIC_DEFINITIONS_def)
  with t [of ?c ?c, THEN conjunct2, THEN conjunct1]
  have wc: "calculateWeightedScore ?c = Finite 1" by blast
  from num den q wa wb wc show ?thesis by simp
qed


text \<open>
  On the empty map the denominator of the aggregate is zero and the quotient \<open>0 / 0\<close> is
  \<open>NaN\<close>; the function returns \<open>1\<close>.
\<close>

theorem calculateWeightedScore_empty_counterexample:
  "calculateWeightedScore [] = Finite 1 \<and> specDenominator [] = Finite 0 \<and>
   numDiv (specNumerator []) (specDenominator []) = NaN \<and>
   calculateWeightedScore [] \<noteq> numDiv (specNumerator []) (specDenominator [])"
  by (simp add: calculateWeightedScore_cases evaluated_def specDenominator_def specNumerator_def)


text \<open>
  Claim C7, as amended. With an aggregate score of \<open>0.80\<close>, \<open>minimumScore = 0.85\<close>, the
  other fields of \<open>DEFAULT_GATING_CONFIG\<close> and no blocker, the verdict is a failure and
  its reason is never a blocker count nor a warning count. The reason is the aggregate
  score against the minimum when no blocking metric of the map is below its \<open>fail\<close>
  threshold. Otherwise the third check has already failed, and the reason names the
  first metric of \<open>METRIC_DEFINITIONS\<close> that blocks and has a score below its \<open>fail\<close>
  threshold (no metric before it in the list is one), with that score and threshold.
\<close>

theorem evaluateGating_scenario_D:
  assumes "calculateWeightedScore scores = lit 0.80"
  shows "GatingResult.passed (evaluateGating scores 0 warningCount (DEFAULT_GATING_CONFIG\<lparr>minimumScore := lit 0.85\<rparr>)) = False
    \<and> (\<forall>b m. reason (evaluateGating scores 0 warningCount (DEFAULT_GATING_CONFIG\<lparr>minimumScore := lit 0.85\<rparr>))
          \<noteq> Some (BlockingViolations b m))
    \<and> (\<forall>w m. reason (evaluateGating scores 0 warningCount (DEFAULT_GATING_CONFIG\<lparr>minimumScore := lit 0.85\<rparr>))
          \<noteq> Some (WarningCount w m))
    \<and> ((\<forall>m\<in>set METRIC_DEFINITIONS. \<not> failsThreshold scores m) \<longrightarrow>
        reason (evaluateGating scores 0 warningCount (DEFAULT_GATING_CONFIG\<lparr>minimumScore := lit 0.85\<rparr>))
          = Some (TotalScore (lit 0.80) (lit 0.85)))
    \<and> ((\<exists>m\<in>set METRIC_DEFINITIONS. failsThreshold scores m) \<longrightarrow>
        (\<exists>before m after.
          METRIC_DEFINITIONS = before @ m # after \<and>
          (\<forall>m'\<in>set before. \<not> failsThreshold scores m') \<and> failsThreshold scores m \<and>
          find (failsThreshold scores) METRIC_DEFINITIONS = Some m \<and>
          reason (evaluateGating scores 0 warningCount (DEFAULT_GATING_CONFIG\<lparr>minimumScore := lit 0.85\<rparr>))
            = Some (BlockingMetric (displayName m) (the (map_of scores (MetricDefinition.name m))) (fail (thresholds m)))))"
proof -
  let ?r = "evaluateGating scores 0 warningCount (DEFAULT_GATING_CONFIG\<lparr>minimumScore := lit 0.85\<rparr>)"
  have l: "numLess (lit 0.80) (lit 0.85)" by (simp add: lit_def roundings)
  have r: "?r = (case find (failsThreshold scores) METRIC_DEFINITIONS of
        Some m \<Rightarrow> \<lparr>GatingResult.passed = False,
          reason = Some (BlockingMetric (displayName m) (the (map_of scores (MetricDefinition.name m))) (fail (thresholds m)))\<rparr>
      | None \<Rightarrow> \<lparr>GatingResult.passed = False, reason = Some (TotalScore (lit 0.80) (lit 0.85))\<rparr>)"
    unfolding evaluateGating_chain assms
    using l by (simp add: DEFAULT_GATING_CONFIG_def split: option.split)
  show ?thesis
  proof (cases "\<exists>m\<in>set METRIC_DEFINITIONS. failsThreshold scores m")
    case True
    from find_failing_metric [OF True] obtain m where
      m: "find (failsThreshold scores) METRIC_DEFINITIONS = Some m" by blast
    from find_first [OF m] obtain before after where
      d: "METRIC_DEFINITIONS = before @ m # after" "\<forall>m'\<in>set before. \<not> failsThreshold scores m'"
        "failsThreshold scores m" by blast
    have "reason ?r = Some (BlockingMetric (displayName m) (the (map_of scores (MetricDefinition.name m))) (fail (thresholds m)))"
      and "GatingResult.passed ?r = False"
      unfolding r m by simp_all
    with d m True show ?thesis by auto
  next
    case False
    then have "find (failsThreshold scores) METRIC_DEFINITIONS = None"
      by (intro find_no_failing_metric) simp
    with False show ?thesis unfolding r by simp
  qed
qed

text \<open>
  The blocking metric \<open>prisma-queries\<close> at its \<open>fail\<close> threshold \<open>0.80\<close>, which is not below
  it: the reason is the aggregate. And two blocking metrics below their thresholds,
  inserted in the reverse order: the reason names the first of \<open>METRIC_DEFINITIONS\<close>.
\<close>

theorem evaluateGating_scenario_D_witness:
  "calculateWeightedScore [(''prisma-queries'', lit 0.80)] = lit 0.80 \<and>
   GatingResult.passed (evaluateGating [(''prisma-queries'', lit 0.80)] 0 3 (DEFAULT_GATING_CONFIG\<lparr>minimumScore := lit 0.85\<rparr>)) = False \<and>
   reason (evaluateGating [(''prisma-queries'', lit 0.80)] 0 3 (DEFAULT_GATING_CONFIG\<lparr>minimumScore := lit 0.85\<rparr>))
     = Some (TotalScore (lit 0.80) (lit 0.85)) \<and>
   calculateWeightedScore [(''tenant-isolation'', lit 0.80), (''supabase-auth'', lit 0.80)] = lit 0.80 \<and>
   reason (evaluateGating [(''tenant-isolation'', lit 0.80), (''supabase-auth'', lit 0.80)] 0 3
       (DEFAULT_GATING_CONFIG\<lparr>minimumScore := lit 0.85\<rparr>))
     = Some (BlockingMetric ''Supabase Auth Compliance'' (lit 0.80) (lit 0.9))"
proof -
  let ?p = "[(''prisma-queries'', lit 0.80)] :: scoreMap"
  let ?t = "[(''tenant-isolation'', lit 0.80), (''supabase-auth'', lit 0.80)] :: scoreMap"
  have n: "\<forall>m\<in>set METRIC_DEFINITIONS. \<not> failsThreshold ?p m"
    by (simp add: METRIC_DEFINITIONS_def failsThreshold_def lit_def roundings)
  note p = evaluateGating_scenario_D [OF aggregate_prismaQueries, of 3]
  have e: "\<exists>m\<in>set METRIC_DEFINITIONS. failsThreshold ?t m"
    by (simp add: METRIC_DEFINITIONS_def failsThreshold_def lit_def roundings)
  have f: "find (failsThreshold ?t) METRIC_DEFINITIONS =
      Some \<lparr>MetricDefinition.name = ''supabase-auth'', displayName = ''Supabase Auth Compliance'', weight = lit 0.15,
        blockOnFail = True, thresholds = \<lparr>pass = lit 1.0, warn = lit 0.95, fail = lit 0.9\<rparr>\<rparr>"
    by (simp add: METRIC_DEFINITIONS_def failsThreshold_def lit_def roundings)
  from evaluateGating_scenario_D [OF aggregate_two_blocking, of 3] e
  obtain m where m: "find (failsThreshold ?t) METRIC_DEFINITIONS = Some m"
    "reason (evaluateGating ?t 0 3 (DEFAULT_GATING_CONFIG\<lparr>minimumScore := lit 0.85\<rparr>))
       = Some (BlockingMetric (displayName m) (the (map_of ?t (MetricDefinition.name m))) (fail (thresholds m)))"
    by blast
  from m(1) f have "m = \<lparr>MetricDefinition.name = ''supabase-auth'', displayName = ''Supabase Auth Compliance'',
      weight = lit 0.15, blockOnFail = True, thresholds = \<lparr>pass = lit 1.0, warn = lit 0.95, fail = lit 0.9\<rparr>\<rparr>"
    by simp
  with m(2) have t: "reason (evaluateGating ?t 0 3 (DEFAULT_GATING_CONFIG\<lparr>minimumScore := lit 0.85\<rparr>))
     = Some (BlockingMetric ''Supabase Auth Compliance'' (lit 0.80) (lit 0.9))"
    by simp
  from p n t aggregate_prismaQueries aggregate_two_blocking show ?thesis by blast
qed


text \<open>
  A map whose aggregate is \<open>0.80\<close> because its only score, that of the blocking metric
  \<open>supabase-auth\<close>, is \<open>0.80\<close>: the reason names the metric, not the aggregate.
\<close>

theorem evaluateGating_scenario_D_counterexample:
  "calculateWeightedScore [(''supabase-auth'', lit 0.80)] = lit 0.80 \<and>
   evaluateGating [(''supabase-auth'', lit 0.80)] 0 0 (DEFAULT_GATING_CONFIG\<lparr>minimumScore := lit 0.85\<rparr>) =
     \<lparr>GatingResult.passed = False, reason = Some (BlockingMetric ''Supabase Auth Compliance'' (lit 0.80) (lit 0.9))\<rparr> \<and>
   reason (evaluateGating [(''supabase-auth'', lit 0.80)] 0 0 (DEFAULT_GATING_CONFIG\<lparr>minimumScore := lit 0.85\<rparr>))
     \<noteq> Some (TotalScore (lit 0.80) (lit 0.85))"
proof -
  have f: "find (failsThreshold [(''supabase-auth'', lit 0.80)]) METRIC_DEFINITIONS =
      Some \<lparr>MetricDefinition.name = ''supabase-auth'', displayName = ''Supabase Auth Compliance'', weight = lit 0.15,
        blockOnFail = True, thresholds = \<lparr>pass = lit 1.0, warn = lit 0.95, fail = lit 0.9\<rparr>\<rparr>"
    by (simp add: METRIC_DEFINITIONS_def failsThreshold_def lit_def roundings)
  show ?thesis
    unfolding evaluateGating_chain f aggregate_supabaseAuth
    by (simp add: DEFAULT_GATING_CONFIG_def)
qed


text \<open>
  Claim C10. When the map has no entry for any metric of \<open>METRIC_DEFINITIONS\<close>,
  \<open>calculateWeightedScore\<close> is exactly \<open>1.0\<close>, and \<open>evaluateGating\<close> with no blocker and
  no warning under \<open>DEFAULT_GATING_CONFIG\<close> passes.
\<close>

theorem no_metric_scores_pass:
  assumes "\<forall>m\<in>set METRIC_DEFINITIONS. map_of scores (MetricDefinition.name m) = None"
  shows "calculateWeightedScore scores = Finite 1 \<and>
         evaluateGating scores 0 0 DEFAULT_GATING_CONFIG = \<lparr>GatingResult.passed = True, reason = None\<rparr>"
proof -
  have ev: "evaluated scores = []" using assms by (simp add: evaluated_def filter_empty_conv)
  then have one: "calculateWeightedScore scores = Finite 1" by (simp add: calculateWeightedScore_cases)
  have "\<forall>m\<in>set METRIC_DEFINITIONS. \<not> failsThreshold scores m"
    using assms by (simp add: failsThreshold_def)
  then have "find (failsThreshold scores) METRIC_DEFINITIONS = None"
    by (rule find_no_failing_metric)
  then show ?thesis
    by (simp add: evaluateGating_chain one DEFAULT_GATING_CONFIG_def lit_def roundings)
qed


theorem no_metric_scores_pass_witness:
  "calculateWeightedScore [] = Finite 1 \<and>
   evaluateGating [] 0 0 DEFAULT_GATING_CONFIG = \<lparr>GatingResult.passed = True, reason = None\<rparr> \<and>
   calculateWeightedScore [(''exception-type-compliance'', Finite 0)] = Finite 1 \<and>
   evaluateGating [(''exception-type-compliance'', Finite 0)] 0 0 DEFAULT_GATING_CONFIG
     = \<lparr>GatingResult.passed = True, reason = None\<rparr>"
proof -
  have a: "\<forall>m\<in>set METRIC_DEFINITIONS. map_of ([] :: scoreMap) (MetricDefinition.name m) = None" by simp
  have b: "\<forall>m\<in>set METRIC_DEFINITIONS. map_of [(''exception-type-compliance'', Finite 0)] (MetricDefinition.name m) = None"
    by (simp add: METRIC_DEFINITIONS_def)
  from no_metric_scores_pass [OF a] no_metric_scores_pass [OF b] show ?thesis by blast
qed

section \<open>Properties of the validators\<close>

subsection \<open>Findings and the range of the scores\<close>

lemma fst_andThen [simp]: "fst (andThen a b) = fst a @ fst b"
  by (cases a; cases b) simp

lemma snd_andThen [simp]: "snd (andThen a b) = snd a @ snd b"
  by (cases a; cases b) simp

lemma fst_noFindings [simp]: "fst noFindings = []"
  and snd_noFindings [simp]: "snd noFindings = []"
  and fst_violation [simp]: "fst (violation v) = [v]"
  and snd_violation [simp]: "snd (violation v) = []"
  and fst_warning [simp]: "fst (warning w) = []"
  and snd_warning [simp]: "snd (warning w) = [w]"
  by (simp_all add: noFindings_def violation_def warning_def)

lemma fst_collect: "fst (collect body xs) = concat (map (\<lambda>x. fst (body x)) xs)"
  by (induction xs) simp_all

lemma fst_forEachLine:
  "fst (forEachLine body ls) = concat (map (\<lambda>(i, l). fst (body i l)) (enumerate 0 ls))"
  by (simp add: forEachLine_def fst_collect split_def)

lemma max0_le1: "0 \<le> x \<Longrightarrow> max 0 (1 - x) \<le> (1::real)"
  by simp

lemma score_supabaseAuth:
  "0 \<le> score (validateSupabaseAuth ctx) \<and> score (validateSupabaseAuth ctx) \<le> 1"
  by (simp add: validateSupabaseAuth_def split: prod.splits)

lemma score_tenantIsolation:
  "0 \<le> score (validateTenantIsolation ctx) \<and> score (validateTenantIsolation ctx) \<le> 1"
  by (simp add: validateTenantIsolation_def Let_def split: prod.splits)

lemma score_auditLogging:
  "0 \<le> score (validateAuditLogging ctx) \<and> score (validateAuditLogging ctx) \<le> 1"
  by (simp add: validateAuditLogging_def split: prod.splits)

lemma score_prismaQueries:
  "0 \<le> score (validatePrismaQueries ctx) \<and> score (validatePrismaQueries ctx) \<le> 1"
  by (simp add: validatePrismaQueries_def Let_def split: prod.splits)

lemma score_transactions:
  "0 \<le> score (validateTransactions ctx) \<and> score (validateTransactions ctx) \<le> 1"
  by (simp add: validateTransactions_def split: prod.splits)

lemma score_codeSafety:
  "0 \<le> score (validateCodeSafetyPatterns ctx) \<and> score (validateCodeSafetyPatterns ctx) \<le> 1"
  by (simp add: validateCodeSafetyPatterns_def split: prod.splits)

lemma ratio_range: "0 \<le> real n / real (n + g) \<and> real n / real (n + g) \<le> 1"
proof (cases "n + g = 0")
  case True
  then show ?thesis by simp
next
  case False
  then have "0 < n + g" by simp
  then have pos: "0 < real (n + g)" by (simp only: of_nat_0_less_iff)
  have le: "real n \<le> real (n + g)" by simp
  have "0 \<le> real n / real (n + g)" by simp
  moreover have "real n / real (n + g) \<le> 1"
    using pos le by (simp only: divide_le_eq_1_pos)
  ultimately show ?thesis by blast
qed

lemma score_exceptionTypes:
  "0 \<le> score (validateExceptionTypes ctx) \<and> score (validateExceptionTypes ctx) \<le> 1"
  using ratio_range
  by (simp add: validateExceptionTypes_def Let_def split: prod.splits)

lemma score_logging:
  "0 \<le> score (validateLogging ctx) \<and> score (validateLogging ctx) \<le> 1"
  by (simp add: validateLogging_def Let_def split: prod.splits)

lemma score_externalServices:
  "0 \<le> score (validateExternalServicePatterns ctx) \<and> score (validateExternalServicePatterns ctx) \<le> 1"
  by (simp add: validateExternalServicePatterns_def Let_def split: prod.splits)

lemma score_jobProcessing:
  "0 \<le> score (validateJobProcessing ctx) \<and> score (validateJobProcessing ctx) \<le> 1"
  by (simp add: validateJobProcessing_def Let_def split: prod.splits)

lemma score_apiDesign:
  "0 \<le> score (validateApiDesign ctx) \<and> score (validateApiDesign ctx) \<le> 1"
  by (simp add: validateApiDesign_def Let_def split: prod.splits)

lemma score_codeQuality:
  "0 \<le> score (validateCodeQuality ctx) \<and> score (validateCodeQuality ctx) \<le> 1"
  by (simp add: validateCodeQuality_def Let_def split: prod.splits)

lemma score_withRules:
  "validateWithRules rules ctx = Inr r \<Longrightarrow> 0 \<le> score r \<and> score r \<le> 1"
  by (auto simp: validateWithRules_def Let_def split: sum.splits prod.splits)

subsection \<open>The rule engine of the general practices\<close>

lemma collectE_Inr:
  "(\<And>x. x \<in> set xs \<Longrightarrow> \<exists>f. body x = Inr f) \<Longrightarrow> \<exists>f. collectE body xs = Inr f"
proof (induction xs)
  case Nil
  then show ?case by simp
next
  case (Cons x xs)
  have "\<exists>f. body x = Inr f" by (rule Cons.prems) simp
  then obtain f where f: "body x = Inr f" ..
  have "\<exists>fs. collectE body xs = Inr fs"
    by (rule Cons.IH) (rule Cons.prems, simp)
  then obtain fs where fs: "collectE body xs = Inr fs" ..
  show ?case by (simp add: f fs)
qed

lemma collectE_Inl:
  "x \<in> set xs \<Longrightarrow> body x = Inl e \<Longrightarrow> \<exists>e'. collectE body xs = Inl e'"
proof (induction xs)
  case Nil
  then show ?case by simp
next
  case (Cons y ys)
  show ?case
  proof (cases "body y")
    case (Inl a)
    then show ?thesis by simp
  next
    case (Inr b)
    with Cons.prems have "x \<in> set ys" by auto
    from Cons.IH [OF this Cons.prems(2)] obtain e' where "collectE body ys = Inl e'" ..
    with Inr show ?thesis by simp
  qed
qed

lemma allRules_never_throw:
  "r \<in> set allRules \<Longrightarrow> \<exists>x. check r lineText lineNum lineContext = Inr x"
  by (auto simp: allRules_def securityRules_def errorHandlingRules_def performanceRules_def
      reliabilityRules_def maintainabilityRules_def found_def nothing_def Let_def
      split: option.splits)

lemma runRule_Inr:
  "\<exists>x. check r lineText lineNum lineContext = Inr x \<Longrightarrow>
   \<exists>f. runRule fname lineText lineNum lineContext r = Inr f"
  by (auto simp: runRule_def split: option.splits)

lemma runRule_Inl:
  "check r lineText lineNum lineContext = Inl e \<Longrightarrow>
   runRule fname lineText lineNum lineContext r = Inl e"
  by (simp add: runRule_def)

lemma validateWithRules_returns:
  assumes "\<And>r lineText lineNum lineContext. r \<in> set rules \<Longrightarrow>
      \<exists>x. check r lineText lineNum lineContext = Inr x"
  shows "\<exists>res. validateWithRules rules ctx = Inr res"
proof -
  have perLine: "\<exists>f. generalPractices_line rules fname content lines index lineText = Inr f"
    for fname content lines index lineText
    unfolding generalPractices_line_def
    by (rule collectE_Inr) (rule runRule_Inr, rule assms)
  have perFile: "\<exists>f. generalPractices_file rules fname content = Inr f" for fname content
    unfolding generalPractices_file_def Let_def
    by (rule collectE_Inr) (simp only: split_def, rule perLine)
  have "\<exists>f. collectE (\<lambda>(fname, content). generalPractices_file rules fname content)
      (fileContents ctx) = Inr f"
    by (rule collectE_Inr) (simp only: split_def, rule perFile)
  then show ?thesis
    by (auto simp: validateWithRules_def Let_def split: prod.splits)
qed

lemma validateWithRules_throws:
  assumes f: "(fname, content) \<in> set (fileContents ctx)"
    and i: "index < length (strSplit newline content)"
    and r: "r \<in> set rules"
    and e: "check r (strSplit newline content ! index) (index + 1)
              (buildLineContext fname content (strSplit newline content) index) = Inl e"
  shows "\<exists>e'. validateWithRules rules ctx = Inl e'"
proof -
  let ?lines = "strSplit newline content"
  have "\<exists>e'. generalPractices_line rules fname content ?lines index (?lines ! index) = Inl e'"
    unfolding generalPractices_line_def
    by (rule collectE_Inl [OF r]) (rule runRule_Inl [OF e])
  then obtain e1 where e1: "generalPractices_line rules fname content ?lines index (?lines ! index) = Inl e1" ..
  have mem: "(index, ?lines ! index) \<in> set (enumerate 0 ?lines)"
    using i by (simp add: in_set_enumerate_eq)
  have "\<exists>e'. generalPractices_file rules fname content = Inl e'"
    unfolding generalPractices_file_def Let_def
    by (rule collectE_Inl [OF mem]) (simp add: e1)
  then obtain e2 where e2: "generalPractices_file rules fname content = Inl e2" ..
  have "\<exists>e'. collectE (\<lambda>(fname, content). generalPractices_file rules fname content)
      (fileContents ctx) = Inl e'"
    by (rule collectE_Inl [OF f]) (simp add: e2)
  then show ?thesis
    by (auto simp: validateWithRules_def)
qed

subsection \<open>The file name of a violation\<close>

text \<open>
  No validator behaves differently on the two file names the correction engine uses,
  \<open>file.ts\<close> and \<open>corrected.ts\<close>: the violations are the same up to the name.
\<close>

lemma file_tests:
  "endsWith ''file.ts'' ''.controller.ts'' = False"
  "endsWith ''corrected.ts'' ''.controller.ts'' = False"
  "endsWith ''file.ts'' ''.service.ts'' = False"
  "endsWith ''corrected.ts'' ''.service.ts'' = False"
  "rxTest True rx_client ''file.ts'' = False"
  "rxTest True rx_client ''corrected.ts'' = False"
  "strIncludes ''file.ts'' ''processor'' = False"
  "strIncludes ''corrected.ts'' ''processor'' = False"
  "strIncludes ''file.ts'' ''consumer'' = False"
  "strIncludes ''corrected.ts'' ''consumer'' = False"
  "strIncludes ''file.ts'' ''/dto/'' = False"
  "strIncludes ''corrected.ts'' ''/dto/'' = False"
  by code_simp+

lemmas under =
  if_distrib [of fst] if_distrib [of "map g"] option.case_distrib [of fst]
  option.case_distrib [of "map g"] for g

lemma relabel_lit:
  "relabel f \<lparr>Warning.file = f', Warning.line = n, Warning.rule = r, Warning.message = m,
      Violation.severity = s, Violation.fix = x\<rparr>
   = \<lparr>Warning.file = f, Warning.line = n, Warning.rule = r, Warning.message = m,
      Violation.severity = s, Violation.fix = x\<rparr>"
  by (simp add: relabel_def)

lemma fst_fst_tally: "fst (fst (tally body xs)) = concat (map (\<lambda>x. fst (fst (body x))) xs)"
  by (induction xs) (simp_all add: split_def)

lemma supabaseAuth_relabel:
  "fst (supabaseAuth_file ''corrected.ts'' c) = map (relabel ''corrected.ts'') (fst (supabaseAuth_file ''file.ts'' c))"
  unfolding supabaseAuth_file_def supabaseAuth_line_def supabaseAuth_guard_def file_tests
  by (simp add: fst_forEachLine fst_collect fst_fst_tally under map_concat comp_def relabel_lit Let_def split_def
        del: One_nat_def cong: if_cong option.case_cong)

lemma supabaseAuth_violations:
  "violations (validateSupabaseAuth \<lparr>files = [fname], fileContents = [(fname, c)]\<rparr>) = fst (supabaseAuth_file fname c)"
  by (simp add: validateSupabaseAuth_def Let_def split_def)

lemma tenantIsolation_relabel:
  "fst (tenantIsolation_file ''corrected.ts'' c) = map (relabel ''corrected.ts'') (fst (tenantIsolation_file ''file.ts'' c))"
  unfolding tenantIsolation_file_def tenantIsolation_query_def tenantIsolation_cache_def file_tests
  by (simp add: fst_forEachLine fst_collect fst_fst_tally under map_concat comp_def relabel_lit Let_def split_def
        del: One_nat_def cong: if_cong option.case_cong)

lemma tenantIsolation_violations:
  "violations (validateTenantIsolation \<lparr>files = [fname], fileContents = [(fname, c)]\<rparr>) = fst (tenantIsolation_file fname c)"
  by (simp add: validateTenantIsolation_def Let_def split_def)

lemma auditLogging_relabel:
  "fst (auditLogging_file ''corrected.ts'' c) = map (relabel ''corrected.ts'') (fst (auditLogging_file ''file.ts'' c))"
  unfolding auditLogging_file_def auditLogging_match_def auditLogging_entity_def file_tests
  by (simp add: fst_forEachLine fst_collect fst_fst_tally under map_concat comp_def relabel_lit Let_def split_def
        del: One_nat_def cong: if_cong option.case_cong)

lemma auditLogging_violations:
  "violations (validateAuditLogging \<lparr>files = [fname], fileContents = [(fname, c)]\<rparr>) = fst (auditLogging_file fname c)"
  by (simp add: validateAuditLogging_def Let_def split_def)

lemma prismaQueries_relabel:
  "fst (prismaQueries_file ''corrected.ts'' c) = map (relabel ''corrected.ts'') (fst (prismaQueries_file ''file.ts'' c))"
  unfolding prismaQueries_file_def prismaQueries_findMany_def prismaQueries_loop_def prismaQueries_count_def prismaQueries_hardDelete_def file_tests
  by (simp add: fst_forEachLine fst_collect fst_fst_tally under map_concat comp_def relabel_lit Let_def split_def
        del: One_nat_def cong: if_cong option.case_cong)

lemma prismaQueries_violations:
  "violations (validatePrismaQueries \<lparr>files = [fname], fileContents = [(fname, c)]\<rparr>) = fst (prismaQueries_file fname c)"
  by (simp add: validatePrismaQueries_def Let_def split_def)

lemma transactions_relabel:
  "fst (transactions_file ''corrected.ts'' c) = map (relabel ''corrected.ts'') (fst (transactions_file ''file.ts'' c))"
  unfolding transactions_file_def transactions_function_def file_tests
  by (simp add: fst_forEachLine fst_collect fst_fst_tally under map_concat comp_def relabel_lit Let_def split_def
        del: One_nat_def cong: if_cong option.case_cong)

lemma transactions_violations:
  "violations (validateTransactions \<lparr>files = [fname], fileContents = [(fname, c)]\<rparr>) = fst (transactions_file fname c)"
  by (simp add: validateTransactions_def Let_def split_def)

lemma codeSafety_relabel:
  "fst (codeSafety_file ''corrected.ts'' c) = map (relabel ''corrected.ts'') (fst (codeSafety_file ''file.ts'' c))"
  unfolding codeSafety_file_def codeSafety_line_def file_tests
  by (simp add: fst_forEachLine fst_collect fst_fst_tally under map_concat comp_def relabel_lit Let_def split_def
        del: One_nat_def cong: if_cong option.case_cong)

lemma codeSafety_violations:
  "violations (validateCodeSafetyPatterns \<lparr>files = [fname], fileContents = [(fname, c)]\<rparr>) = fst (codeSafety_file fname c)"
  by (simp add: validateCodeSafetyPatterns_def Let_def split_def)

lemma exceptionTypes_relabel:
  "fst (fst (exceptionTypes_file ''corrected.ts'' c)) = map (relabel ''corrected.ts'') (fst (fst (exceptionTypes_file ''file.ts'' c)))"
  unfolding exceptionTypes_file_def exceptionTypes_line_def file_tests
  by (simp add: fst_forEachLine fst_collect fst_fst_tally under map_concat comp_def relabel_lit Let_def split_def
        del: One_nat_def cong: if_cong option.case_cong)

lemma exceptionTypes_violations:
  "violations (validateExceptionTypes \<lparr>files = [fname], fileContents = [(fname, c)]\<rparr>) = fst (fst (exceptionTypes_file fname c))"
  by (simp add: validateExceptionTypes_def exceptionTypes_scan_def Let_def split_def)

lemma logging_relabel:
  "fst (logging_file ''corrected.ts'' c) = map (relabel ''corrected.ts'') (fst (logging_file ''file.ts'' c))"
  unfolding logging_file_def logging_init_def logging_line_def file_tests
  by (simp add: fst_forEachLine fst_collect fst_fst_tally under map_concat comp_def relabel_lit Let_def split_def
        del: One_nat_def cong: if_cong option.case_cong)

lemma logging_violations:
  "violations (validateLogging \<lparr>files = [fname], fileContents = [(fname, c)]\<rparr>) = fst (logging_file fname c)"
  by (simp add: validateLogging_def Let_def split_def)

lemma externalServices_relabel:
  "fst (externalServices_file ''corrected.ts'' c) = map (relabel ''corrected.ts'') (fst (externalServices_file ''file.ts'' c))"
  unfolding externalServices_file_def externalServices_line_def file_tests
  by (simp add: fst_forEachLine fst_collect fst_fst_tally under map_concat comp_def relabel_lit Let_def split_def
        del: One_nat_def cong: if_cong option.case_cong)

lemma externalServices_violations:
  "violations (validateExternalServicePatterns \<lparr>files = [fname], fileContents = [(fname, c)]\<rparr>) = fst (externalServices_file fname c)"
  by (simp add: validateExternalServicePatterns_def Let_def split_def)

lemma jobProcessing_relabel:
  "fst (jobProcessing_file ''corrected.ts'' c) = map (relabel ''corrected.ts'') (fst (jobProcessing_file ''file.ts'' c))"
  unfolding jobProcessing_file_def jobProcessing_idempotency_def jobProcessing_line_def jobProcessing_logging_def file_tests
  by (simp add: fst_forEachLine fst_collect fst_fst_tally under map_concat comp_def relabel_lit Let_def split_def
        del: One_nat_def cong: if_cong option.case_cong)

lemma jobProcessing_violations:
  "violations (validateJobProcessing \<lparr>files = [fname], fileContents = [(fname, c)]\<rparr>) = fst (jobProcessing_file fname c)"
  by (simp add: validateJobProcessing_def Let_def split_def)

lemma apiDesign_relabel:
  "fst (apiDesign_file ''corrected.ts'' c) = map (relabel ''corrected.ts'') (fst (apiDesign_file ''file.ts'' c))"
  unfolding apiDesign_file_def apiDesign_controllerLine_def apiDesign_controller_def apiDesign_dtoLine_def file_tests
  by (simp add: fst_forEachLine fst_collect fst_fst_tally under map_concat comp_def relabel_lit Let_def split_def
        del: One_nat_def cong: if_cong option.case_cong)

lemma apiDesign_violations:
  "violations (validateApiDesign \<lparr>files = [fname], fileContents = [(fname, c)]\<rparr>) = fst (apiDesign_file fname c)"
  by (simp add: validateApiDesign_def Let_def split_def)

lemma codeQuality_relabel:
  "fst (codeQuality_file ''corrected.ts'' c) = map (relabel ''corrected.ts'') (fst (codeQuality_file ''file.ts'' c))"
  unfolding codeQuality_file_def codeQuality_line_def file_tests
  by (simp add: fst_forEachLine fst_collect fst_fst_tally under map_concat comp_def relabel_lit Let_def split_def
        del: One_nat_def cong: if_cong option.case_cong)

lemma codeQuality_violations:
  "violations (validateCodeQuality \<lparr>files = [fname], fileContents = [(fname, c)]\<rparr>) = fst (codeQuality_file fname c)"
  by (simp add: validateCodeQuality_def Let_def split_def)

lemma allViolationsOf_relabel:
  "allViolationsOf ''corrected.ts'' c = map (relabel ''corrected.ts'') (allViolationsOf ''file.ts'' c)"
  unfolding allViolationsOf_def validators_def
  by (simp add: supabaseAuth_violations supabaseAuth_relabel tenantIsolation_violations tenantIsolation_relabel auditLogging_violations auditLogging_relabel prismaQueries_violations prismaQueries_relabel transactions_violations transactions_relabel codeSafety_violations codeSafety_relabel exceptionTypes_violations exceptionTypes_relabel logging_violations logging_relabel externalServices_violations externalServices_relabel jobProcessing_violations jobProcessing_relabel apiDesign_violations apiDesign_relabel codeQuality_violations codeQuality_relabel)

subsection \<open>Scores\<close>

text \<open>
  Claim C3. For every validation context, every validator of the registry
  \<open>validators\<close> returns a result whose score is at least 0 and at most 1, and
  \<open>validateGeneralPractices\<close> returns a result, whose score is at least 0 and at
  most 1.
\<close>

theorem validator_scores_in_unit_interval:
  "(\<forall>(key, validator) \<in> set validators.
      0 \<le> score (validator ctx) \<and> score (validator ctx) \<le> 1) \<and>
   (\<exists>r. validateGeneralPractices ctx = Inr r \<and> 0 \<le> score r \<and> score r \<le> 1)"
proof
  show "\<forall>(key, validator) \<in> set validators.
      0 \<le> score (validator ctx) \<and> score (validator ctx) \<le> 1"
    unfolding validators_def
    using score_supabaseAuth [of ctx] score_tenantIsolation [of ctx] score_auditLogging [of ctx]
      score_prismaQueries [of ctx] score_transactions [of ctx] score_codeSafety [of ctx]
      score_exceptionTypes [of ctx] score_logging [of ctx] score_externalServices [of ctx]
      score_jobProcessing [of ctx] score_apiDesign [of ctx] score_codeQuality [of ctx]
    by simp
  obtain r where r: "validateWithRules allRules ctx = Inr r"
    using validateWithRules_returns [of allRules ctx] allRules_never_throw by blast
  with score_withRules [OF r]
  show "\<exists>r. validateGeneralPractices ctx = Inr r \<and> 0 \<le> score r \<and> score r \<le> 1"
    by (simp add: validateGeneralPractices_def)
qed

text \<open>The validator of the exception types, on a file that logs a password.\<close>

theorem validator_scores_in_unit_interval_witness:
  "(''exception-types'', validateExceptionTypes) \<in> set validators \<and>
   0 \<le> score (validateExceptionTypes (oneFile ''a.ts'' logsPassword)) \<and>
   score (validateExceptionTypes (oneFile ''a.ts'' logsPassword)) \<le> 1"
proof -
  have m: "(''exception-types'', validateExceptionTypes) \<in> set validators"
    by (simp add: validators_def)
  from validator_scores_in_unit_interval [of "oneFile ''a.ts'' logsPassword", THEN conjunct1, THEN bspec, OF m]
  show ?thesis using m by simp
qed

subsection \<open>A check that throws\<close>

text \<open>
  Claim C6, amended. The rule engine has no handler for an exception of a check. No
  check of the catalog \<open>ALL_RULES\<close> throws, so \<open>validateGeneralPractices\<close> returns a
  result for every context; and so does the engine on any catalog none of whose checks
  throws. When the check of a rule of the catalog throws on a line of a file of the
  context, the engine returns no result: the call ends with an exception (the first
  one thrown, in the order files, lines, rules), which is that of the whole validation.
\<close>

theorem check_exception_propagates:
  "(\<exists>res. validateGeneralPractices ctx = Inr res) \<and>
   ((\<forall>r \<in> set rules. \<forall>lineText lineNum lineContext. \<exists>x. check r lineText lineNum lineContext = Inr x)
      \<longrightarrow> (\<exists>res. validateWithRules rules ctx = Inr res)) \<and>
   (\<forall>fname content index r e.
      (fname, content) \<in> set (fileContents ctx) \<and> index < length (strSplit newline content) \<and>
      r \<in> set rules \<and>
      check r (strSplit newline content ! index) (index + 1)
        (buildLineContext fname content (strSplit newline content) index) = Inl e
      \<longrightarrow> (\<exists>e'. validateWithRules rules ctx = Inl e'))"
proof (intro conjI)
  show "\<exists>res. validateGeneralPractices ctx = Inr res"
    unfolding validateGeneralPractices_def
    using validateWithRules_returns [of allRules ctx] allRules_never_throw by blast
  show "(\<forall>r \<in> set rules. \<forall>lineText lineNum lineContext. \<exists>x. check r lineText lineNum lineContext = Inr x)
      \<longrightarrow> (\<exists>res. validateWithRules rules ctx = Inr res)"
    using validateWithRules_returns [of rules ctx] by blast
  show "\<forall>fname content index r e.
      (fname, content) \<in> set (fileContents ctx) \<and> index < length (strSplit newline content) \<and>
      r \<in> set rules \<and>
      check r (strSplit newline content ! index) (index + 1)
        (buildLineContext fname content (strSplit newline content) index) = Inl e
      \<longrightarrow> (\<exists>e'. validateWithRules rules ctx = Inl e')"
    using validateWithRules_throws [of _ _ ctx _ _ rules] by blast
qed

lemma boom_lines: "strSplit newline ''eval(x)\<newline>boom'' = [''eval(x)'', ''boom'']"
  by code_simp

lemma boom_check:
  "check throwingRule ''boom'' lineNum lineContext = Inl ''TypeError''"
proof -
  have "strIncludes ''boom'' ''boom''" by code_simp
  then show ?thesis by (simp add: throwingRule_def)
qed

text \<open>The same, for a rule whose check throws on the line \<open>boom\<close>.\<close>

theorem check_exception_propagates_witness:
  "throwingRule \<in> set (allRules @ [throwingRule]) \<and>
   check throwingRule ''boom'' 2
     (buildLineContext ''a.ts'' ''eval(x)\<newline>boom'' [''eval(x)'', ''boom''] 1) = Inl ''TypeError'' \<and>
   (\<exists>e'. validateWithRules (allRules @ [throwingRule]) (oneFile ''a.ts'' ''eval(x)\<newline>boom'') = Inl e')"
proof -
  let ?c = "''eval(x)\<newline>boom''"
  let ?ctx = "oneFile ''a.ts'' ?c"
  have f: "(''a.ts'', ?c) \<in> set (fileContents ?ctx)" by (simp add: oneFile_def)
  have i: "1 < length (strSplit newline ?c)" unfolding boom_lines by simp
  have r: "throwingRule \<in> set (allRules @ [throwingRule])" by simp
  have e: "check throwingRule (strSplit newline ?c ! 1) (1 + 1)
        (buildLineContext ''a.ts'' ?c (strSplit newline ?c) 1) = Inl ''TypeError''"
    unfolding boom_lines by (simp add: boom_check)
  from check_exception_propagates [of ?ctx "allRules @ [throwingRule]", THEN conjunct2, THEN conjunct2,
      THEN spec, THEN spec, THEN spec, THEN spec, THEN spec, THEN mp, OF conjI [OF f conjI [OF i conjI [OF r e]]]]
  show ?thesis using r by (simp add: boom_check)
qed

text \<open>
  The catalog with one more rule, whose check throws on the second line of the file: the
  call ends with that exception, and the finding of \<open>SEC-001\<close> on the first line is
  lost with it.
\<close>

theorem check_exception_propagates_counterexample:
  "validateWithRules (allRules @ [throwingRule]) (oneFile ''a.ts'' ''eval(x)\<newline>boom'') = Inl ''TypeError''"
  by code_simp

subsection \<open>Exception types\<close>














subsection \<open>Transactions\<close>











section \<open>Properties of self-correction\<close>

subsection \<open>The correction loop\<close>

lemma correctionLoop_stop:
  "\<not> (of_int iters < maxIterations config \<and> av \<noteq> []) \<Longrightarrow>
   correctionLoop config (iters, cc, av, hist) = (iters, cc, av, hist)"
  by auto

lemma correctionLoop_break:
  "of_int iters < maxIterations config \<Longrightarrow> av \<noteq> [] \<Longrightarrow> appliedFixes (applyFixes cc av config) = [] \<Longrightarrow>
   correctionLoop config (iters, cc, av, hist) = (iters + 1, cc, av, hist @ [applyFixes cc av config])"
  by (simp add: Let_def)

lemma correctionLoop_continue:
  "of_int iters < maxIterations config \<Longrightarrow> av \<noteq> [] \<Longrightarrow> appliedFixes (applyFixes cc av config) \<noteq> [] \<Longrightarrow>
   correctionLoop config (iters, cc, av, hist) =
   correctionLoop config (iters + 1, corrected (applyFixes cc av config),
     remainingViolations (applyFixes cc av config), hist @ [applyFixes cc av config])"
  by (simp add: Let_def)

declare correctionLoop.simps [simp del]

text \<open>What one run of the loop does to its state.\<close>

lemma correctionLoop_run:
  "correctionLoop config (iters, cc, av, hist) = (iters', cc', av', hist') \<Longrightarrow>
   iters \<le> iters' \<and> (of_int iters < maxIterations config + 1 \<longrightarrow> of_int iters' < maxIterations config + 1) \<and>
   (\<exists>new. hist' = hist @ new \<and> int (length new) = iters' - iters \<and>
      (\<forall>k<length new. appliedFixes (new ! k) = [] \<longrightarrow> Suc k = length new) \<and>
      (new = [] \<longrightarrow> cc' = cc \<and> av' = av) \<and>
      (new \<noteq> [] \<longrightarrow> appliedFixes (last new) = [] \<longrightarrow> last new = applyFixes cc' av' config \<and> av' \<noteq> []) \<and>
      (new \<noteq> [] \<longrightarrow> appliedFixes (last new) \<noteq> [] \<longrightarrow>
         cc' = corrected (last new) \<and> av' = remainingViolations (last new)) \<and>
      (new \<noteq> [] \<longrightarrow> av' = allViolationsOf ''corrected.ts'' cc' \<or> av' = av \<and> cc' = cc))"
proof (induction config "(iters, cc, av, hist)" arbitrary: iters cc av hist rule: correctionLoop.induct)
  case (1 config iters cc av hist)
  let ?res = "applyFixes cc av config"
  consider (stop) "\<not> (of_int iters < maxIterations config \<and> av \<noteq> [])"
    | (break) "of_int iters < maxIterations config" "av \<noteq> []" "appliedFixes ?res = []"
    | (continue) "of_int iters < maxIterations config" "av \<noteq> []" "appliedFixes ?res \<noteq> []"
    by blast
  then show ?case
  proof cases
    case stop
    from 1(2) have "(iters, cc, av, hist) = (iters', cc', av', hist')"
      unfolding correctionLoop_stop [OF stop] .
    then have "iters' = iters" "cc' = cc" "av' = av" "hist' = hist"
      by auto
    then show ?thesis by simp
  next
    case break
    from 1(2) have "(iters + 1, cc, av, hist @ [?res]) = (iters', cc', av', hist')"
      unfolding correctionLoop_break [OF break] .
    then have eq: "iters' = iters + 1" "cc' = cc" "av' = av" "hist' = hist @ [?res]"
      by auto
    have "hist' = hist @ [?res] \<and> int (length [?res]) = iters' - iters \<and>
      (\<forall>k<length [?res]. appliedFixes ([?res] ! k) = [] \<longrightarrow> Suc k = length [?res]) \<and>
      ([?res] = [] \<longrightarrow> cc' = cc \<and> av' = av) \<and>
      ([?res] \<noteq> [] \<longrightarrow> appliedFixes (last [?res]) = [] \<longrightarrow> last [?res] = applyFixes cc' av' config \<and> av' \<noteq> []) \<and>
      ([?res] \<noteq> [] \<longrightarrow> appliedFixes (last [?res]) \<noteq> [] \<longrightarrow>
         cc' = corrected (last [?res]) \<and> av' = remainingViolations (last [?res])) \<and>
      ([?res] \<noteq> [] \<longrightarrow> av' = allViolationsOf ''corrected.ts'' cc' \<or> av' = av \<and> cc' = cc)"
      using eq break by simp
    moreover have "iters \<le> iters'"
      "of_int iters < maxIterations config + 1 \<longrightarrow> of_int iters' < maxIterations config + 1"
      using eq break by simp_all
    ultimately show ?thesis by blast
  next
    case continue
    have rec: "correctionLoop config (iters + 1, corrected ?res, remainingViolations ?res, hist @ [?res])
      = (iters', cc', av', hist')"
      using 1(2) unfolding correctionLoop_continue [OF continue] .
    have pre: "of_int iters < maxIterations config \<and> 0 < length av" "length (appliedFixes ?res) \<noteq> 0"
      using continue by simp_all
    from "1.hyps" [OF pre(1) refl pre(2) rec]
    obtain new where le: "iters + 1 \<le> iters'"
      and cap: "of_int (iters + 1) < maxIterations config + 1 \<longrightarrow> of_int iters' < maxIterations config + 1"
      and h: "hist' = (hist @ [?res]) @ new"
      and len: "int (length new) = iters' - (iters + 1)"
      and zero: "\<forall>k<length new. appliedFixes (new ! k) = [] \<longrightarrow> Suc k = length new"
      and none: "new = [] \<longrightarrow> cc' = corrected ?res \<and> av' = remainingViolations ?res"
      and lastz: "new \<noteq> [] \<longrightarrow> appliedFixes (last new) = [] \<longrightarrow> last new = applyFixes cc' av' config \<and> av' \<noteq> []"
      and lastn: "new \<noteq> [] \<longrightarrow> appliedFixes (last new) \<noteq> [] \<longrightarrow>
         cc' = corrected (last new) \<and> av' = remainingViolations (last new)"
      and inv: "new \<noteq> [] \<longrightarrow> av' = allViolationsOf ''corrected.ts'' cc' \<or>
         av' = remainingViolations ?res \<and> cc' = corrected ?res"
      by blast
    have rem: "remainingViolations ?res = allViolationsOf ''corrected.ts'' (corrected ?res)"
      by (simp add: applyFixes_def split: prod.splits)
    let ?new = "?res # new"
    have a: "hist' = hist @ ?new" using h by simp
    have b: "int (length ?new) = iters' - iters" using len by simp
    have c: "\<forall>k<length ?new. appliedFixes (?new ! k) = [] \<longrightarrow> Suc k = length ?new"
    proof (intro allI impI)
      fix k assume k: "k < length ?new" and z: "appliedFixes (?new ! k) = []"
      show "Suc k = length ?new"
      proof (cases k)
        case 0
        with z continue(3) show ?thesis by simp
      next
        case (Suc j)
        with k z zero show ?thesis by simp
      qed
    qed
    have d: "?new \<noteq> [] \<longrightarrow> appliedFixes (last ?new) = [] \<longrightarrow> last ?new = applyFixes cc' av' config \<and> av' \<noteq> []"
      using lastz continue(3) by (cases "new = []") simp_all
    have e: "?new \<noteq> [] \<longrightarrow> appliedFixes (last ?new) \<noteq> [] \<longrightarrow>
         cc' = corrected (last ?new) \<and> av' = remainingViolations (last ?new)"
      using lastn none by (cases "new = []") simp_all
    have f: "?new \<noteq> [] \<longrightarrow> av' = allViolationsOf ''corrected.ts'' cc' \<or> av' = av \<and> cc' = cc"
    proof (cases "new = []")
      case True
      with none have "cc' = corrected ?res" "av' = remainingViolations ?res" by simp_all
      with rem show ?thesis by simp
    next
      case False
      with inv rem show ?thesis by metis
    qed
    have g: "?new = [] \<longrightarrow> cc' = cc \<and> av' = av" by simp
    have "iters \<le> iters'" using le by simp
    moreover have "of_int iters < maxIterations config + 1 \<longrightarrow> of_int iters' < maxIterations config + 1"
      using cap continue(1) by simp
    moreover note a b c g d e f
    ultimately show ?thesis by blast
  qed
qed

lemma correctionLoop_early:
  "correctionLoop config (iters, cc, av, hist) = (iters', cc', av', hist') \<Longrightarrow>
   of_int iters' < maxIterations config \<Longrightarrow>
   av' = [] \<or> (hist' \<noteq> [] \<and> appliedFixes (last hist') = [])"
proof (induction config "(iters, cc, av, hist)" arbitrary: iters cc av hist rule: correctionLoop.induct)
  case (1 config iters cc av hist)
  let ?res = "applyFixes cc av config"
  consider (stop) "\<not> (of_int iters < maxIterations config \<and> av \<noteq> [])"
    | (break) "of_int iters < maxIterations config" "av \<noteq> []" "appliedFixes ?res = []"
    | (continue) "of_int iters < maxIterations config" "av \<noteq> []" "appliedFixes ?res \<noteq> []"
    by blast
  then show ?case
  proof cases
    case stop
    from 1(2) have "(iters, cc, av, hist) = (iters', cc', av', hist')"
      unfolding correctionLoop_stop [OF stop] .
    then have "iters' = iters" "av' = av" by auto
    with stop 1(3) show ?thesis by simp
  next
    case break
    from 1(2) have "(iters + 1, cc, av, hist @ [?res]) = (iters', cc', av', hist')"
      unfolding correctionLoop_break [OF break] .
    then have "hist' = hist @ [?res]" by auto
    with break show ?thesis by simp
  next
    case continue
    have rec: "correctionLoop config (iters + 1, corrected ?res, remainingViolations ?res, hist @ [?res])
      = (iters', cc', av', hist')"
      using 1(2) unfolding correctionLoop_continue [OF continue] .
    have pre: "of_int iters < maxIterations config \<and> 0 < length av" "length (appliedFixes ?res) \<noteq> 0"
      using continue by simp_all
    from "1.hyps" [OF pre(1) refl pre(2) rec 1(3)] show ?thesis .
  qed
qed

subsection \<open>The fixes do not read the file name of a violation\<close>

lemma relabel_fields [simp]:
  "Warning.rule (relabel f v) = Warning.rule v"
  "Warning.line (relabel f v) = Warning.line v"
  "Warning.file (relabel f v) = f"
  by (simp_all add: relabel_def)

lemma relabelGroups_Nil [simp]: "relabelGroups f [] = []"
  by (simp add: relabelGroups_def)

lemma map_of_relabelGroups:
  "map_of (relabelGroups f groups) k = map_option (map (relabel f)) (map_of groups k)"
  by (induction groups) (auto simp add: relabelGroups_def)

lemma mapSet_relabelGroups:
  "mapSet (relabelGroups f groups) k (map (relabel f) vs) = relabelGroups f (mapSet groups k vs)"
  by (induction groups) (auto simp add: relabelGroups_def)

lemma groupByRule_relabel:
  "groupByRule (map (relabel f) vs) (relabelGroups f groups) = relabelGroups f (groupByRule vs groups)"
proof (induction vs arbitrary: groups)
  case Nil
  show ?case by simp
next
  case (Cons v vs)
  have "(case map_of (relabelGroups f groups) (Warning.rule v) of None \<Rightarrow> [] | Some l \<Rightarrow> l) @ [relabel f v]
    = map (relabel f) ((case map_of groups (Warning.rule v) of None \<Rightarrow> [] | Some l \<Rightarrow> l) @ [v])"
    by (simp add: map_of_relabelGroups split: option.splits)
  then show ?case
    using Cons.IH [of "mapSet groups (Warning.rule v)
      ((case map_of groups (Warning.rule v) of None \<Rightarrow> [] | Some l \<Rightarrow> l) @ [v])"]
    by (simp add: mapSet_relabelGroups del: map_append)
qed

lemma applyPatterns_relabel:
  "applyPatterns config (relabelGroups f groups) ps st = applyPatterns config groups ps st"
proof (induction ps arbitrary: st)
  case Nil
  show ?case by simp
next
  case (Cons p ps)
  obtain t applied where st: "st = (t, applied)" by (cases st)
  show ?case
    unfolding st
    by (cases "map_of groups (FixPattern.rule p)")
       (simp_all add: map_of_relabelGroups Cons.IH Let_def comp_def)
qed

lemma fixText_relabel:
  "fixText content (map (relabel f) vs) config = fixText content vs config"
proof -
  have "groupByRule (map (relabel f) vs) [] = relabelGroups f (groupByRule vs [])"
    using groupByRule_relabel [of f vs "[]"] by simp
  then show ?thesis
    by (simp add: fixText_def applyPatterns_relabel)
qed

lemma appliedFixes_applyFixes:
  "appliedFixes (applyFixes content vs config) = snd (fixText content vs config)"
  by (simp add: applyFixes_def split: prod.splits)

lemma corrected_applyFixes:
  "corrected (applyFixes content vs config) = fst (fixText content vs config)"
  by (simp add: applyFixes_def split: prod.splits)

lemma remaining_applyFixes:
  "remainingViolations (applyFixes content vs config) =
   allViolationsOf ''corrected.ts'' (fst (fixText content vs config))"
  by (simp add: applyFixes_def split: prod.splits)

lemma allViolationsOf_corrected_Nil:
  "allViolationsOf ''corrected.ts'' c = [] \<longleftrightarrow> allViolationsOf ''file.ts'' c = []"
  by (simp add: allViolationsOf_relabel)

lemma fixText_corrected:
  "fixText c (allViolationsOf ''corrected.ts'' c') config = fixText c (allViolationsOf ''file.ts'' c') config"
  by (simp add: allViolationsOf_relabel fixText_relabel)

text \<open>
  The violations the loop ends with are, up to the file name, those of the content it
  ends with.
\<close>

lemma correctionLoop_final:
  assumes "correctionLoop config (0, content, allViolationsOf ''file.ts'' content, []) = (iters', cc', av', hist')"
  shows "fixText cc' av' config = fixText cc' (allViolationsOf ''file.ts'' cc') config"
    and "av' = [] \<longleftrightarrow> allViolationsOf ''file.ts'' cc' = []"
proof -
  from correctionLoop_run [OF assms]
  have none: "hist' = [] \<longrightarrow> cc' = content \<and> av' = allViolationsOf ''file.ts'' content"
    and some: "hist' \<noteq> [] \<longrightarrow> av' = allViolationsOf ''corrected.ts'' cc' \<or>
      av' = allViolationsOf ''file.ts'' content \<and> cc' = content"
    by auto
  have "av' = allViolationsOf ''corrected.ts'' cc' \<or> av' = allViolationsOf ''file.ts'' cc'"
    using none some by (cases "hist' = []") auto
  then show "fixText cc' av' config = fixText cc' (allViolationsOf ''file.ts'' cc') config"
    and "av' = [] \<longleftrightarrow> allViolationsOf ''file.ts'' cc' = []"
    by (auto simp add: fixText_corrected allViolationsOf_corrected_Nil)
qed

lemma runCorrectionLoop_fields:
  assumes "correctionLoop config (0, content, allViolationsOf ''file.ts'' content, []) = (iters', cc', av', hist')"
  shows "iterations (runCorrectionLoop content config) = iters'"
    and "finalContent (runCorrectionLoop content config) = cc'"
    and "correctionHistory (runCorrectionLoop content config) = hist'"
    and "finalViolations (runCorrectionLoop content config) = length av'"
    and "success (runCorrectionLoop content config) = (av' = [])"
    and "initialViolations (runCorrectionLoop content config) = length (allViolationsOf ''file.ts'' content)"
  using assms by (simp_all add: runCorrectionLoop_def Let_def)

lemma second_run:
  assumes first: "correctionLoop config (0, content, allViolationsOf ''file.ts'' content, []) = (iters', cc', av', hist')"
    and how: "av' = [] \<or> of_int iters' < maxIterations config \<or> (hist' \<noteq> [] \<and> appliedFixes (last hist') = [])"
  shows "correctionLoop config (0, cc', allViolationsOf ''file.ts'' cc', []) =
           (0, cc', allViolationsOf ''file.ts'' cc', []) \<or>
         correctionLoop config (0, cc', allViolationsOf ''file.ts'' cc', []) =
           (1, cc', allViolationsOf ''file.ts'' cc', [applyFixes cc' (allViolationsOf ''file.ts'' cc') config]) \<and>
         appliedFixes (applyFixes cc' (allViolationsOf ''file.ts'' cc') config) = []"
proof (cases "0 < maxIterations config \<and> allViolationsOf ''file.ts'' cc' \<noteq> []")
  case False
  then show ?thesis by (simp add: correctionLoop_stop)
next
  case True
  let ?A = "allViolationsOf ''file.ts'' cc'"
  from True correctionLoop_final(2) [OF first] have ne: "av' \<noteq> []" by simp
  with how correctionLoop_early [OF first]
  have last: "hist' \<noteq> []" "appliedFixes (last hist') = []" by auto
  from correctionLoop_run [OF first] last
  have "last hist' = applyFixes cc' av' config" by auto
  with last have "snd (fixText cc' av' config) = []" by (simp add: appliedFixes_applyFixes)
  then have z: "appliedFixes (applyFixes cc' ?A config) = []"
    by (simp add: appliedFixes_applyFixes correctionLoop_final(1) [OF first])
  from True have "real_of_int 0 < maxIterations config" "?A \<noteq> []" by simp_all
  from correctionLoop_break [OF this z, of "[]"] z show ?thesis by simp
qed


text \<open>
  Claim C4, amended. Let \<open>r = runCorrectionLoop content config\<close>. If the first run
  did not stop at the iteration cap alone, that is, if \<open>r.success\<close> holds, or
  \<open>r.iterations < config.maxIterations\<close>, or the last iteration of the first run
  applied no fix, then a second run on \<open>r.finalContent\<close> with the same configuration
  reports no applied fix at all: it performs no iteration, or its first \<open>applyFixes\<close>
  call returns an empty \<open>appliedFixes\<close> (and is then its only iteration).
\<close>

theorem second_run_applies_nothing:
  assumes "success (runCorrectionLoop content config) \<or>
      of_int (iterations (runCorrectionLoop content config)) < maxIterations config \<or>
      (correctionHistory (runCorrectionLoop content config) \<noteq> [] \<and>
       appliedFixes (last (correctionHistory (runCorrectionLoop content config))) = [])"
  shows "concat (map appliedFixes
           (correctionHistory (runCorrectionLoop (finalContent (runCorrectionLoop content config)) config))) = [] \<and>
         (iterations (runCorrectionLoop (finalContent (runCorrectionLoop content config)) config) = 0 \<or>
          appliedFixes (hd (correctionHistory
            (runCorrectionLoop (finalContent (runCorrectionLoop content config)) config))) = [])"
proof -
  obtain iters' cc' av' hist'
    where run: "correctionLoop config (0, content, allViolationsOf ''file.ts'' content, []) = (iters', cc', av', hist')"
    by (cases "correctionLoop config (0, content, allViolationsOf ''file.ts'' content, [])") auto
  note f = runCorrectionLoop_fields [OF run]
  from assms have how: "av' = [] \<or> of_int iters' < maxIterations config \<or> (hist' \<noteq> [] \<and> appliedFixes (last hist') = [])"
    unfolding f .
  from second_run [OF run how] show ?thesis
  proof
    assume s: "correctionLoop config (0, cc', allViolationsOf ''file.ts'' cc', []) =
           (0, cc', allViolationsOf ''file.ts'' cc', [])"
    show ?thesis unfolding f(2) runCorrectionLoop_fields [OF s] by simp
  next
    assume "correctionLoop config (0, cc', allViolationsOf ''file.ts'' cc', []) =
           (1, cc', allViolationsOf ''file.ts'' cc', [applyFixes cc' (allViolationsOf ''file.ts'' cc') config]) \<and>
         appliedFixes (applyFixes cc' (allViolationsOf ''file.ts'' cc') config) = []"
    then have s: "correctionLoop config (0, cc', allViolationsOf ''file.ts'' cc', []) =
           (1, cc', allViolationsOf ''file.ts'' cc', [applyFixes cc' (allViolationsOf ''file.ts'' cc') config])"
      and z: "appliedFixes (applyFixes cc' (allViolationsOf ''file.ts'' cc') config) = []"
      by simp_all
    show ?thesis unfolding f(2) runCorrectionLoop_fields [OF s] using z by simp
  qed
qed

subsection \<open>Runs of the correction loop on given texts\<close>

text \<open>A first iteration that applies a fix.\<close>

lemma first_iteration_fixes:
  assumes "0 < maxIterations config" and "av \<noteq> []"
    and "snd (fixText content av config) \<noteq> []"
  shows "correctionLoop config (0, content, av, []) =
    correctionLoop config (1, fst (fixText content av config),
      allViolationsOf ''corrected.ts'' (fst (fixText content av config)), [applyFixes content av config])"
  using correctionLoop_continue [of 0 config av content "[]"] assms
  by (simp add: appliedFixes_applyFixes corrected_applyFixes remaining_applyFixes)

lemma first_iteration_fixes_nothing:
  assumes "0 < maxIterations config" and "av \<noteq> []"
    and "snd (fixText content av config) = []"
  shows "correctionLoop config (0, content, av, []) = (1, content, av, [applyFixes content av config])"
  using correctionLoop_break [of 0 config av content "[]"] assms
  by (simp add: appliedFixes_applyFixes)

lemma nested_violations: "allViolationsOf ''file.ts'' nested = [errorTypeAt ''file.ts'' 1]"
  by code_simp

lemma nested_fixText:
  "fst (fixText nested [errorTypeAt ''file.ts'' 1] onePass) = nested1 \<and>
   map AppliedFix.rule (snd (fixText nested [errorTypeAt ''file.ts'' 1] onePass)) = [''INV-ERROR-TYPE'', ''INV-IMPORT'']"
  by code_simp

lemma nested1_violations: "allViolationsOf ''corrected.ts'' nested1 = [errorTypeAt ''corrected.ts'' 2]"
  by code_simp

lemma nested1_fixText:
  "fst (fixText nested1 [errorTypeAt ''corrected.ts'' 2] onePass) = nested2 \<and>
   map AppliedFix.rule (snd (fixText nested1 [errorTypeAt ''corrected.ts'' 2] onePass)) = [''INV-ERROR-TYPE'']"
  by code_simp

lemma nested_first_run:
  "correctionLoop onePass (0, nested, allViolationsOf ''file.ts'' nested, []) =
     (1, nested1, allViolationsOf ''corrected.ts'' nested1,
      [applyFixes nested (allViolationsOf ''file.ts'' nested) onePass])"
proof -
  have m: "0 < maxIterations onePass" "\<not> real_of_int 1 < maxIterations onePass"
    by (simp_all add: onePass_def)
  have s: "snd (fixText nested [errorTypeAt ''file.ts'' 1] onePass) \<noteq> []"
    using nested_fixText by auto
  have ne: "[errorTypeAt ''file.ts'' 1] \<noteq> []" by simp
  show ?thesis
    unfolding nested_violations
    unfolding first_iteration_fixes [OF m(1) ne s]
    unfolding nested_fixText [THEN conjunct1]
    using m(2) by (simp add: correctionLoop_stop del: One_nat_def)
qed

lemma nested_second_run:
  "correctionLoop onePass (0, nested1, allViolationsOf ''file.ts'' nested1, []) =
     (1, nested2, allViolationsOf ''corrected.ts'' nested2,
      [applyFixes nested1 (allViolationsOf ''file.ts'' nested1) onePass]) \<and>
   map AppliedFix.rule (appliedFixes (applyFixes nested1 (allViolationsOf ''file.ts'' nested1) onePass))
     = [''INV-ERROR-TYPE'']"
proof -
  let ?A = "allViolationsOf ''file.ts'' nested1"
  have m: "0 < maxIterations onePass" "\<not> real_of_int 1 < maxIterations onePass"
    by (simp_all add: onePass_def)
  have r: "map (relabel ''corrected.ts'') ?A = [errorTypeAt ''corrected.ts'' 2]"
    using nested1_violations by (simp add: allViolationsOf_relabel)
  then have ne: "?A \<noteq> []" by auto
  have f: "fixText nested1 ?A onePass = fixText nested1 [errorTypeAt ''corrected.ts'' 2] onePass"
    using fixText_relabel [of nested1 "''corrected.ts''" ?A onePass] r by simp
  have s: "snd (fixText nested1 ?A onePass) \<noteq> []"
    unfolding f using nested1_fixText by auto
  show ?thesis
    unfolding first_iteration_fixes [OF m(1) ne s]
    unfolding appliedFixes_applyFixes f
    unfolding nested1_fixText [THEN conjunct1] nested1_fixText [THEN conjunct2]
    using m(2) by (simp add: correctionLoop_stop del: One_nat_def)
qed

text \<open>
  With \<open>maxIterations = 1\<close> the first run stops after rewriting the inner \<open>throw\<close>; the
  second run, on the content the first run returned, applies the same fix pattern again.
\<close>

theorem second_run_applies_nothing_counterexample:
  "iterations (runCorrectionLoop (finalContent (runCorrectionLoop nested onePass)) onePass) = 1 \<and>
   map AppliedFix.rule (appliedFixes (hd (correctionHistory
     (runCorrectionLoop (finalContent (runCorrectionLoop nested onePass)) onePass)))) = [''INV-ERROR-TYPE'']"
proof -
  have c: "finalContent (runCorrectionLoop nested onePass) = nested1"
    by (rule runCorrectionLoop_fields(2) [OF nested_first_run])
  note s = nested_second_run [THEN conjunct1]
  show ?thesis
    unfolding c runCorrectionLoop_fields(1) [OF s] runCorrectionLoop_fields(3) [OF s]
    using nested_second_run by simp
qed

text \<open>A run that fixes its only violation, and a run that cannot fix its only violation.\<close>

lemma consoleLog_violations: "allViolationsOf ''file.ts'' ''console.log(1)'' \<noteq> []"
  by code_simp

lemma consoleLog_fixText:
  "case fixText ''console.log(1)'' (allViolationsOf ''file.ts'' ''console.log(1)'') defaultCorrectionConfig of
     (text, applied) \<Rightarrow> text = ''this.logger.log(1)'' \<and> map AppliedFix.rule applied = [''INV-LOGGER'']"
  by code_simp

lemma loggerLog_violations: "allViolationsOf ''corrected.ts'' ''this.logger.log(1)'' = []"
  by code_simp

lemma consoleLog_run:
  "correctionLoop defaultCorrectionConfig (0, ''console.log(1)'', allViolationsOf ''file.ts'' ''console.log(1)'', []) =
     (1, ''this.logger.log(1)'', [],
      [applyFixes ''console.log(1)'' (allViolationsOf ''file.ts'' ''console.log(1)'') defaultCorrectionConfig])"
proof -
  have m: "0 < maxIterations defaultCorrectionConfig" by (simp add: defaultCorrectionConfig_def)
  have f: "fst (fixText ''console.log(1)'' (allViolationsOf ''file.ts'' ''console.log(1)'') defaultCorrectionConfig)
      = ''this.logger.log(1)''"
    and s: "snd (fixText ''console.log(1)'' (allViolationsOf ''file.ts'' ''console.log(1)'') defaultCorrectionConfig) \<noteq> []"
    using consoleLog_fixText by (auto split: prod.splits)
  show ?thesis
    unfolding first_iteration_fixes [OF m consoleLog_violations s]
    unfolding f loggerLog_violations
    by (simp add: correctionLoop_stop)
qed

lemma plainThrow_violations: "allViolationsOf ''file.ts'' plainThrow = [errorTypeAt ''file.ts'' 1]"
  by code_simp

lemma plainThrow_fixText:
  "fixText plainThrow [errorTypeAt ''file.ts'' 1] defaultCorrectionConfig = (plainThrow, [])"
  by code_simp

lemma plainThrow_run:
  "correctionLoop defaultCorrectionConfig (0, plainThrow, allViolationsOf ''file.ts'' plainThrow, []) =
     (1, plainThrow, [errorTypeAt ''file.ts'' 1],
      [applyFixes plainThrow [errorTypeAt ''file.ts'' 1] defaultCorrectionConfig])"
proof -
  have m: "0 < maxIterations defaultCorrectionConfig" by (simp add: defaultCorrectionConfig_def)
  show ?thesis
    unfolding plainThrow_violations
    by (rule first_iteration_fixes_nothing [OF m]) (simp_all add: plainThrow_fixText del: One_nat_def)
qed

text \<open>
  After a run that ends with success, and after a run that ends with an iteration
  without a fix, the second run applies nothing.
\<close>

theorem second_run_applies_nothing_witness:
  "success (runCorrectionLoop ''console.log(1)'' defaultCorrectionConfig) \<and>
   finalContent (runCorrectionLoop ''console.log(1)'' defaultCorrectionConfig) = ''this.logger.log(1)'' \<and>
   concat (map appliedFixes (correctionHistory
     (runCorrectionLoop (finalContent (runCorrectionLoop ''console.log(1)'' defaultCorrectionConfig))
        defaultCorrectionConfig))) = [] \<and>
   appliedFixes (last (correctionHistory (runCorrectionLoop plainThrow defaultCorrectionConfig))) = [] \<and>
   concat (map appliedFixes (correctionHistory
     (runCorrectionLoop (finalContent (runCorrectionLoop plainThrow defaultCorrectionConfig))
        defaultCorrectionConfig))) = []"
proof -
  have a: "success (runCorrectionLoop ''console.log(1)'' defaultCorrectionConfig)"
    unfolding runCorrectionLoop_fields(5) [OF consoleLog_run] by simp
  have b: "finalContent (runCorrectionLoop ''console.log(1)'' defaultCorrectionConfig) = ''this.logger.log(1)''"
    by (rule runCorrectionLoop_fields(2) [OF consoleLog_run])
  have c: "correctionHistory (runCorrectionLoop plainThrow defaultCorrectionConfig) \<noteq> [] \<and>
      appliedFixes (last (correctionHistory (runCorrectionLoop plainThrow defaultCorrectionConfig))) = []"
    unfolding runCorrectionLoop_fields(3) [OF plainThrow_run]
    by (simp add: appliedFixes_applyFixes plainThrow_fixText del: One_nat_def)
  from second_run_applies_nothing [of "''console.log(1)''" defaultCorrectionConfig, OF disjI1, OF a]
    second_run_applies_nothing [of plainThrow defaultCorrectionConfig, OF disjI2, OF disjI2, OF c]
  show ?thesis using a b c by blast
qed





end
